theory Spec2Isabelle
  imports Complex_Main "HOL-Library.Sublist"
begin

section \<open>Values, rows and frames\<close>

text \<open>
  The scanners compute on Python floats held in pandas frames.  A value is a finite
  number, one of the two infinities, or not-a-number.  Finite arithmetic is taken exact
  (no rounding error, no signed zero); what the model keeps of IEEE 754 is the part the
  scanners branch on: every ordered comparison with NaN is false, a non-zero number
  divided by zero is an infinity, and zero divided by zero is NaN.
\<close>

datatype fval = Fin real | PInf | NInf | NaN

fun flt :: "fval \<Rightarrow> fval \<Rightarrow> bool" where
  "flt (Fin x) (Fin y) = (x < y)"
| "flt (Fin x) PInf = True"
| "flt NInf (Fin y) = True"
| "flt NInf PInf = True"
| "flt _ _ = False"

fun fle :: "fval \<Rightarrow> fval \<Rightarrow> bool" where
  "fle (Fin x) (Fin y) = (x \<le> y)"
| "fle NaN _ = False"
| "fle _ NaN = False"
| "fle NInf _ = True"
| "fle _ PInf = True"
| "fle _ _ = False"

text \<open>Python's \<open>a > b\<close> is \<open>flt b a\<close> and \<open>a >= b\<close> is \<open>fle b a\<close>.\<close>

abbreviation fgt :: "fval \<Rightarrow> fval \<Rightarrow> bool" where
  "fgt a b \<equiv> flt b a"

abbreviation fge :: "fval \<Rightarrow> fval \<Rightarrow> bool" where
  "fge a b \<equiv> fle b a"

fun fneg :: "fval \<Rightarrow> fval" where
  "fneg (Fin x) = Fin (- x)"
| "fneg PInf = NInf"
| "fneg NInf = PInf"
| "fneg NaN = NaN"

fun fadd :: "fval \<Rightarrow> fval \<Rightarrow> fval" where
  "fadd (Fin x) (Fin y) = Fin (x + y)"
| "fadd NaN _ = NaN"
| "fadd _ NaN = NaN"
| "fadd PInf NInf = NaN"
| "fadd NInf PInf = NaN"
| "fadd PInf _ = PInf"
| "fadd _ PInf = PInf"
| "fadd NInf _ = NInf"
| "fadd _ NInf = NInf"

definition fsub :: "fval \<Rightarrow> fval \<Rightarrow> fval" where
  "fsub a b = fadd a (fneg b)"

fun fmul :: "fval \<Rightarrow> fval \<Rightarrow> fval" where
  "fmul (Fin x) (Fin y) = Fin (x * y)"
| "fmul NaN _ = NaN"
| "fmul _ NaN = NaN"
| "fmul (Fin x) PInf = (if x = 0 then NaN else if 0 < x then PInf else NInf)"
| "fmul (Fin x) NInf = (if x = 0 then NaN else if 0 < x then NInf else PInf)"
| "fmul PInf (Fin y) = (if y = 0 then NaN else if 0 < y then PInf else NInf)"
| "fmul NInf (Fin y) = (if y = 0 then NaN else if 0 < y then NInf else PInf)"
| "fmul PInf PInf = PInf"
| "fmul NInf NInf = PInf"
| "fmul PInf NInf = NInf"
| "fmul NInf PInf = NInf"

fun fdiv :: "fval \<Rightarrow> fval \<Rightarrow> fval" where
  "fdiv (Fin x) (Fin y) =
     (if y = 0 then (if x = 0 then NaN else if 0 < x then PInf else NInf)
      else Fin (x / y))"
| "fdiv NaN _ = NaN"
| "fdiv _ NaN = NaN"
| "fdiv (Fin x) PInf = Fin 0"
| "fdiv (Fin x) NInf = Fin 0"
| "fdiv PInf (Fin y) = (if 0 \<le> y then PInf else NInf)"
| "fdiv NInf (Fin y) = (if 0 \<le> y then NInf else PInf)"
| "fdiv _ _ = NaN"

text \<open>
  \<open>round(x, n)\<close> of Python on the exact value: to the nearest multiple of \<open>10^-n\<close>,
  a tie going to the even neighbour; NaN and the infinities are returned as they are.
\<close>

definition round_half_even :: "real \<Rightarrow> int" where
  "round_half_even y =
     (let f = \<lfloor>y\<rfloor>; d = y - of_int f
      in if d < 1 / 2 then f else if 1 / 2 < d then f + 1
         else if even f then f else f + 1)"

fun py_round :: "fval \<Rightarrow> nat \<Rightarrow> fval" where
  "py_round (Fin x) n = Fin (of_int (round_half_even (x * 10 ^ n)) / 10 ^ n)"
| "py_round v n = v"

text \<open>Exceptions of the Python code, as values.\<close>

datatype py_error = KeyError string | IndexError | Raised string

text \<open>One statement after the other: the first exception ends the sequence.\<close>

definition try_bind :: "'e + 'a \<Rightarrow> ('a \<Rightarrow> 'e + 'b) \<Rightarrow> 'e + 'b" where
  "try_bind m f = (case m of Inl e \<Rightarrow> Inl e | Inr x \<Rightarrow> f x)"

text \<open>
  A pandas frame: its column labels and its rows, oldest first.  A row is read through
  the frame's labels, so that a label that is not a column is absent from every row.
  Only numeric columns are read by the scanners.
\<close>

record dataframe =
  columns :: "string list"
  rows :: "(string \<Rightarrow> fval) list"

definition df_empty :: "dataframe \<Rightarrow> bool" where
  "df_empty df = (rows df = [] \<or> columns df = [])"

definition df_len :: "dataframe \<Rightarrow> nat" where
  "df_len df = length (rows df)"

text \<open>\<open>df.iloc[-k]\<close> for \<open>k = 1, 2\<close>: IndexError when the frame has fewer than \<open>k\<close> rows.\<close>

definition iloc_neg :: "dataframe \<Rightarrow> nat \<Rightarrow> py_error + (string \<Rightarrow> fval)" where
  "iloc_neg df k =
     (if k = 0 \<or> length (rows df) < k then Inl IndexError
      else Inr (rows df ! (length (rows df) - k)))"

text \<open>\<open>row[c]\<close> raises KeyError on a missing label; \<open>row.get(c, d)\<close> returns \<open>d\<close>.\<close>

definition row_at :: "dataframe \<Rightarrow> (string \<Rightarrow> fval) \<Rightarrow> string \<Rightarrow> py_error + fval" where
  "row_at df r c = (if c \<in> set (columns df) then Inr (r c) else Inl (KeyError c))"

definition row_get :: "dataframe \<Rightarrow> (string \<Rightarrow> fval) \<Rightarrow> string \<Rightarrow> fval \<Rightarrow> fval" where
  "row_get df r c d = (if c \<in> set (columns df) then r c else d)"

text \<open>
  The dictionaries handed over by the data fetcher.  Every key may be missing: a key read
  with \<open>d[k]\<close> raises KeyError then, a key read with \<open>d.get(k, default)\<close> takes the default.
\<close>

record current_data =
  cd_symbol :: "string option"
  cd_current_price :: "fval option"
  cd_day_change_pct :: "fval option"
  cd_high_proximity_pct :: "fval option"

record fundamentals =
  f_market_cap :: "fval option"
  f_debt_to_equity :: "fval option"
  f_roe :: "fval option"
  f_sector :: "string option"

definition dict_at :: "string \<Rightarrow> 'a option \<Rightarrow> py_error + 'a" where
  "dict_at k v = (case v of None \<Rightarrow> Inl (KeyError k) | Some x \<Rightarrow> Inr x)"

definition dict_get :: "'a option \<Rightarrow> 'a \<Rightarrow> 'a" where
  "dict_get v d = (case v of None \<Rightarrow> d | Some x \<Rightarrow> x)"

text \<open>
  Number formatting is left to the caller: \<open>fixed n x\<close> stands for the f-string field
  \<open>{x:.nf}\<close> and \<open>plain w\<close> for \<open>{w}\<close>.  Text is held as UTF-8 bytes.
\<close>

record formatter =
  fixed :: "nat \<Rightarrow> fval \<Rightarrow> string"
  plain :: "real \<Rightarrow> string"

definition check_mark :: string where
  "check_mark = [CHR 0xE2, CHR 0x9C, CHR 0x93]"

definition warn_mark :: string where
  "warn_mark = [CHR 0xE2, CHR 0x9A, CHR 0xA0]"

definition cross_mark :: string where
  "cross_mark = [CHR 0xE2, CHR 0x9C, CHR 0x97]"

definition rupee :: string where
  "rupee = [CHR 0xE2, CHR 0x82, CHR 0xB9]"

fun str_join :: "string \<Rightarrow> string list \<Rightarrow> string" where
  "str_join sep [] = []"
| "str_join sep [x] = x"
| "str_join sep (x # y # ys) = x @ sep @ str_join sep (y # ys)"

section \<open>Configuration (config.py, config/australia\_config.py)\<close>

record btst_criteria =
  min_gain_percent :: real
  max_gain_percent :: real
  btst_min_volume_multiplier :: real
  btst_max_results :: int

definition BTST :: btst_criteria where
  "BTST = \<lparr>min_gain_percent = 2.0, max_gain_percent = 3.5,
            btst_min_volume_multiplier = 1.5, btst_max_results = 10\<rparr>"

definition BTST_EXCLUDED_SECTORS :: "string list" where
  "BTST_EXCLUDED_SECTORS = [''IT'', ''PHARMA'']"

section \<open>BTST scanner (btst\_scanner.py)\<close>

type_synonym progress = "int \<times> string list"

text \<open>1. Price gain: \<open>Inl\<close> is the early return with its reason list.\<close>

definition btst_gain :: "formatter \<Rightarrow> btst_criteria \<Rightarrow> fval \<Rightarrow> string list + progress" where
  "btst_gain F crit day_change =
     (if fle (Fin (min_gain_percent crit)) day_change \<and> fle day_change (Fin (max_gain_percent crit))
      then Inr (30, [check_mark @ '' Gain '' @ fixed F 1 day_change @ ''% (ideal 2-3%)''])
      else if fgt day_change (Fin (max_gain_percent crit))
      then Inr (15, [warn_mark @ '' Gain '' @ fixed F 1 day_change @ ''% (>3%, may be overbought)''])
      else Inl [cross_mark @ '' Gain '' @ fixed F 1 day_change @ ''% (below 2%)''])"

text \<open>2. Volume.\<close>

definition btst_volume ::
  "formatter \<Rightarrow> btst_criteria \<Rightarrow> dataframe option \<Rightarrow> progress \<Rightarrow> py_error + progress" where
  "btst_volume F crit historical_df st =
     (case historical_df of
        None \<Rightarrow> Inr st
      | Some df \<Rightarrow>
          if df_empty df then Inr st
          else (case iloc_neg df 1 of
                  Inl e \<Rightarrow> Inl e
                | Inr latest \<Rightarrow>
                    if ''Volume_Ratio'' \<in> set (columns df)
                    then (case row_at df latest ''Volume_Ratio'' of
                            Inl e \<Rightarrow> Inl e
                          | Inr volume_ratio \<Rightarrow>
                              if fge volume_ratio (Fin (btst_min_volume_multiplier crit))
                              then Inr (fst st + 25,
                                     snd st @ [check_mark @ '' Volume '' @ fixed F 1 volume_ratio @ ''x average''])
                              else Inr (fst st + 10,
                                     snd st @ [warn_mark @ '' Volume '' @ fixed F 1 volume_ratio @ ''x (below 1.5x)'']))
                    else Inr st))"

text \<open>3. Closing near the day's high.\<close>

definition btst_high_prox :: "formatter \<Rightarrow> fval \<Rightarrow> progress \<Rightarrow> progress" where
  "btst_high_prox F high_prox st =
     (if fge high_prox (Fin 90)
      then (fst st + 20, snd st @ [check_mark @ '' Closing near high ('' @ fixed F 0 high_prox @ ''%)''])
      else if fge high_prox (Fin 80)
      then (fst st + 15, snd st @ [warn_mark @ '' Near high ('' @ fixed F 0 high_prox @ ''%)''])
      else (fst st + 5, snd st @ [warn_mark @ '' Not near high ('' @ fixed F 0 high_prox @ ''%)'']))"

text \<open>4. Trend confirmation: the frame is not tested for emptiness here.\<close>

definition btst_trend :: "dataframe option \<Rightarrow> progress \<Rightarrow> py_error + progress" where
  "btst_trend historical_df st =
     (case historical_df of
        None \<Rightarrow> Inr st
      | Some df \<Rightarrow>
          if ''EMA_20'' \<in> set (columns df)
          then (case iloc_neg df 1 of
                  Inl e \<Rightarrow> Inl e
                | Inr latest \<Rightarrow>
                    (case row_at df latest ''Close'' of
                       Inl e \<Rightarrow> Inl e
                     | Inr close \<Rightarrow>
                         (case row_at df latest ''EMA_20'' of
                            Inl e \<Rightarrow> Inl e
                          | Inr ema_20 \<Rightarrow>
                              if fgt close ema_20
                              then Inr (fst st + 15, snd st @ [check_mark @ '' Above 20 EMA (uptrend)''])
                              else Inr (fst st + 5, snd st @ [warn_mark @ '' Below 20 EMA'']))))
          else Inr st)"

text \<open>5. Sector check.\<close>

definition btst_sector :: "fundamentals \<Rightarrow> progress \<Rightarrow> progress" where
  "btst_sector fund st =
     (let sector = dict_get (f_sector fund) ''Unknown''
      in if sector \<notin> set BTST_EXCLUDED_SECTORS
         then (fst st + 10, snd st @ [check_mark @ '' Sector: '' @ sector])
         else (fst st, snd st @ [warn_mark @ '' Excluded sector: '' @ sector]))"

text \<open>\<open>check_btst_criteria\<close>: the result is \<open>(passes, score, reason)\<close>.\<close>

definition check_btst_criteria ::
  "formatter \<Rightarrow> btst_criteria \<Rightarrow> current_data \<Rightarrow> dataframe option \<Rightarrow> fundamentals
     \<Rightarrow> py_error + (bool \<times> int \<times> string)" where
  "check_btst_criteria F crit cd historical_df fund =
     (case dict_at ''day_change_pct'' (cd_day_change_pct cd) of
        Inl e \<Rightarrow> Inl e
      | Inr day_change \<Rightarrow>
          (case btst_gain F crit day_change of
             Inl reasons \<Rightarrow> Inr (False, 0, str_join ''; '' reasons)
           | Inr st1 \<Rightarrow>
               (case btst_volume F crit historical_df st1 of
                  Inl e \<Rightarrow> Inl e
                | Inr st2 \<Rightarrow>
                    (case dict_at ''high_proximity_pct'' (cd_high_proximity_pct cd) of
                       Inl e \<Rightarrow> Inl e
                     | Inr high_prox \<Rightarrow>
                         (case btst_trend historical_df (btst_high_prox F high_prox st2) of
                            Inl e \<Rightarrow> Inl e
                          | Inr st4 \<Rightarrow>
                              (let st5 = btst_sector fund st4
                               in Inr (60 \<le> fst st5, fst st5, str_join ''; '' (snd st5))))))))"

text \<open>
  The checks that follow the gain check (volume, closeness to the high, trend, sector),
  run from no points and no reasons: what they add to the score and to the reason list.
\<close>

definition btst_later_checks ::
  "formatter \<Rightarrow> btst_criteria \<Rightarrow> current_data \<Rightarrow> dataframe option \<Rightarrow> fundamentals
     \<Rightarrow> py_error + progress" where
  "btst_later_checks F crit cd historical_df fund =
     (case btst_volume F crit historical_df (0, []) of
        Inl e \<Rightarrow> Inl e
      | Inr st2 \<Rightarrow>
          (case dict_at ''high_proximity_pct'' (cd_high_proximity_pct cd) of
             Inl e \<Rightarrow> Inl e
           | Inr high_prox \<Rightarrow>
               (case btst_trend historical_df (btst_high_prox F high_prox st2) of
                  Inl e \<Rightarrow> Inl e
                | Inr st4 \<Rightarrow> Inr (btst_sector fund st4))))"

section \<open>Swing scanner, India (swing\_scanner.py)\<close>

record swing_criteria =
  min_market_cap :: real
  max_debt_to_equity :: real
  min_roe :: real
  rsi_min :: real
  rsi_max :: real
  min_volume_multiplier :: real
  max_results :: int

definition SWING :: swing_criteria where
  "SWING = \<lparr>min_market_cap = 5000, max_debt_to_equity = 0.5, min_roe = 15.0,
             rsi_min = 40, rsi_max = 60, min_volume_multiplier = 1.2, max_results = 15\<rparr>"

definition SWING_PREFERRED_SECTORS :: "string list" where
  "SWING_PREFERRED_SECTORS =
     [''DEFENCE'', ''CAPITAL GOODS'', ''INFRASTRUCTURE'', ''PSU BANKS'', ''RENEWABLE ENERGY'']"

text \<open>The three variables the checklist updates as it goes.\<close>

record swing_progress =
  score :: int
  entry_type :: string
  reasons :: "string list"

definition award :: "int \<Rightarrow> string \<Rightarrow> swing_progress \<Rightarrow> swing_progress" where
  "award pts reason st = st\<lparr>score := score st + pts, reasons := reasons st @ [reason]\<rparr>"

text \<open>2. Trend alignment.\<close>

definition swing_trend :: "fval \<Rightarrow> fval \<Rightarrow> fval \<Rightarrow> fval \<Rightarrow> swing_progress \<Rightarrow> swing_progress" where
  "swing_trend close ema_20 ema_50 sma_200 st =
     (let above_all_ma = (fgt close ema_20 \<and> fgt ema_20 ema_50 \<and> fgt ema_50 sma_200)
      in if above_all_ma then award 20 (check_mark @ '' Above all MAs (strong uptrend)'') st
         else if fgt close ema_20 \<and> fgt close ema_50
         then award 15 (warn_mark @ '' Above 20/50 EMA (moderate trend)'') st
         else award 5 (warn_mark @ '' Not in clear uptrend'') st)"

text \<open>3. RSI check.\<close>

definition swing_rsi :: "formatter \<Rightarrow> swing_criteria \<Rightarrow> fval \<Rightarrow> swing_progress \<Rightarrow> swing_progress" where
  "swing_rsi F crit rsi st =
     (if fle (Fin (rsi_min crit)) rsi \<and> fle rsi (Fin (rsi_max crit))
      then award 20 (check_mark @ '' RSI '' @ fixed F 1 rsi @ '' (ideal range)'') st
      else if flt (Fin 30) rsi \<and> flt rsi (Fin 40)
      then (award 15 (check_mark @ '' RSI '' @ fixed F 1 rsi @ '' (pullback zone)'') st)
             \<lparr>entry_type := ''pullback''\<rparr>
      else if fgt rsi (Fin 60)
      then award 5 (warn_mark @ '' RSI '' @ fixed F 1 rsi @ '' (approaching overbought)'') st
      else st\<lparr>reasons := reasons st @ [warn_mark @ '' RSI '' @ fixed F 1 rsi]\<rparr>)"

text \<open>4. MACD signals.\<close>

definition swing_macd :: "fval \<Rightarrow> fval \<Rightarrow> fval \<Rightarrow> fval \<Rightarrow> swing_progress \<Rightarrow> swing_progress" where
  "swing_macd macd macd_signal macd_hist prev_macd_hist st =
     (if fgt macd macd_signal \<and> fgt macd_hist (Fin 0)
      then (let st' = award 15 (check_mark @ '' MACD bullish'') st
            in if fle prev_macd_hist (Fin 0) then st'\<lparr>entry_type := ''macd_cross''\<rparr> else st')
      else if fgt macd macd_signal
      then award 10 (warn_mark @ '' MACD neutral'') st
      else st)"

text \<open>5. Volume confirmation.\<close>

definition swing_volume :: "formatter \<Rightarrow> swing_criteria \<Rightarrow> fval \<Rightarrow> swing_progress \<Rightarrow> swing_progress" where
  "swing_volume F crit volume_ratio st =
     (if fge volume_ratio (Fin (min_volume_multiplier crit))
      then award 15 (check_mark @ '' Volume '' @ fixed F 1 volume_ratio @ ''x average'') st
      else award 5 (warn_mark @ '' Volume '' @ fixed F 1 volume_ratio @ ''x'') st)"

text \<open>6. Sector preference.\<close>

definition swing_sector :: "string \<Rightarrow> swing_progress \<Rightarrow> swing_progress" where
  "swing_sector sector st =
     (if sector \<in> set SWING_PREFERRED_SECTORS
      then award 10 (check_mark @ '' Preferred sector: '' @ sector) st
      else award 5 (''Sector: '' @ sector) st)"

text \<open>Detect the entry type if it is not already set.\<close>

definition detect_entry_type ::
  "fval \<Rightarrow> fval \<Rightarrow> fval \<Rightarrow> fval \<Rightarrow> fval \<Rightarrow> fval \<Rightarrow> swing_progress \<Rightarrow> swing_progress" where
  "detect_entry_type close ema_20 ema_50 volume_ratio prev_ema_20 prev_ema_50 st =
     (if entry_type st = ''none''
      then (if fgt close (fmul ema_20 (Fin 1.02)) \<and> fgt volume_ratio (Fin 1.5)
            then st\<lparr>entry_type := ''breakout''\<rparr>
            else if fgt ema_20 ema_50 \<and> fle prev_ema_20 prev_ema_50
            then st\<lparr>entry_type := ''ma_cross''\<rparr>
            else st\<lparr>entry_type := ''trend_follow''\<rparr>)
      else st)"

text \<open>
  The checklist between the fundamental gates and the return statement, on the latest and
  the previous bar.
\<close>

definition swing_checklist ::
  "formatter \<Rightarrow> swing_criteria \<Rightarrow> dataframe \<Rightarrow> (string \<Rightarrow> fval) \<Rightarrow> (string \<Rightarrow> fval)
     \<Rightarrow> fval \<Rightarrow> fval \<Rightarrow> fval \<Rightarrow> fval \<Rightarrow> string \<Rightarrow> swing_progress" where
  "swing_checklist F crit df latest prev close market_cap debt_to_equity roe sector =
     (let st1 = \<lparr>score = 20, entry_type = ''none'',
                 reasons = [check_mark @ '' Fundamentals: MCap '' @ rupee
                    @ fixed F 0 market_cap @ ''Cr, D/E '' @ fixed F 2 debt_to_equity
                    @ '', ROE '' @ fixed F 1 roe @ ''%'']\<rparr>;
          ema_20 = row_get df latest ''EMA_20'' (Fin 0);
          ema_50 = row_get df latest ''EMA_50'' (Fin 0);
          sma_200 = row_get df latest ''SMA_200'' (Fin 0);
          st2 = swing_trend close ema_20 ema_50 sma_200 st1;
          st3 = swing_rsi F crit (row_get df latest ''RSI'' (Fin 50)) st2;
          st4 = swing_macd (row_get df latest ''MACD'' (Fin 0))
                  (row_get df latest ''MACD_Signal'' (Fin 0))
                  (row_get df latest ''MACD_Hist'' (Fin 0))
                  (row_get df prev ''MACD_Hist'' (Fin 0)) st3;
          volume_ratio = row_get df latest ''Volume_Ratio'' (Fin 1.0);
          st5 = swing_volume F crit volume_ratio st4;
          st6 = swing_sector sector st5
      in detect_entry_type close (row_get df latest ''EMA_20'' (Fin 0)) ema_50 volume_ratio
           (row_get df prev ''EMA_20'' (Fin 0)) (row_get df prev ''EMA_50'' (Fin 0)) st6)"

text \<open>\<open>check_swing_criteria\<close>: the result is \<open>(passes, score, entry_type, reason)\<close>.\<close>

definition check_swing_criteria ::
  "formatter \<Rightarrow> swing_criteria \<Rightarrow> dataframe option \<Rightarrow> fundamentals
     \<Rightarrow> py_error + (bool \<times> int \<times> string \<times> string)" where
  "check_swing_criteria F crit historical_df fund =
     (case historical_df of
        None \<Rightarrow> Inr (False, 0, '''', ''Insufficient data'')
      | Some df \<Rightarrow>
          if df_empty df \<or> df_len df < 50 then Inr (False, 0, '''', ''Insufficient data'')
          else
            (case iloc_neg df 1 of Inl e \<Rightarrow> Inl e | Inr latest \<Rightarrow>
            (case iloc_neg df 2 of Inl e \<Rightarrow> Inl e | Inr prev \<Rightarrow>
               (let market_cap = dict_get (f_market_cap fund) (Fin 0);
                    debt_to_equity = dict_get (f_debt_to_equity fund) (Fin 999);
                    roe = dict_get (f_roe fund) (Fin 0);
                    sector = dict_get (f_sector fund) ''Unknown''
                in if flt market_cap (Fin (min_market_cap crit))
                   then Inr (False, 0, '''',
                          ''Market cap too small: '' @ rupee @ fixed F 0 market_cap @ '' Cr'')
                   else if fgt debt_to_equity (Fin (max_debt_to_equity crit))
                   then Inr (False, 0, '''', ''High debt: '' @ fixed F 2 debt_to_equity)
                   else if flt roe (Fin (min_roe crit))
                   then Inr (False, 0, '''', ''Low ROE: '' @ fixed F 1 roe @ ''%'')
                   else
                     (case row_at df latest ''Close'' of Inl e \<Rightarrow> Inl e | Inr close \<Rightarrow>
                        (let st = swing_checklist F crit df latest prev close
                                    market_cap debt_to_equity roe sector
                         in Inr (65 \<le> score st, score st, entry_type st,
                                 str_join ''; '' (reasons st))))))))"

text \<open>\<open>calculate_targets\<close>: the result is \<open>(target, stop_loss)\<close>; no statement of it raises.\<close>

definition calculate_targets :: "fval \<Rightarrow> string \<Rightarrow> py_error + (fval \<times> fval)" where
  "calculate_targets current_price etype =
     (let (target, stop_loss) =
        (if etype = ''breakout''
         then (fmul current_price (Fin 1.12), fmul current_price (Fin 0.95))
         else if etype = ''pullback''
         then (fmul current_price (Fin 1.10), fmul current_price (Fin 0.93))
         else (fmul current_price (Fin 1.12), fmul current_price (Fin 0.94)))
      in Inr (py_round target 2, py_round stop_loss 2))"

section \<open>Swing scanner, Australia (markets/australia/swing\_scanner.py)\<close>

record australia_swing_criteria =
  au_min_market_cap :: real
  au_max_debt_to_equity :: real
  au_min_roe :: real
  au_rsi_min :: real
  au_rsi_max :: real
  min_52w_high_proximity :: real
  max_52w_high_proximity :: real
  min_volume_ratio :: real
  au_max_results :: int
  sector_weights :: "(string \<times> real) list"

definition AU_SWING :: australia_swing_criteria where
  "AU_SWING = \<lparr>au_min_market_cap = 50000, au_max_debt_to_equity = 1.0, au_min_roe = 10.0,
      au_rsi_min = 35.0, au_rsi_max = 65.0, min_52w_high_proximity = 85.0,
      max_52w_high_proximity = 98.0, min_volume_ratio = 1.2, au_max_results = 15,
      sector_weights =
        [(''Materials'', 1.2), (''Energy'', 1.15), (''Financials'', 1.0),
         (''Consumer Discretionary'', 1.0), (''Industrials'', 1.0),
         (''Information Technology'', 0.8), (''Health Care'', 0.9),
         (''Communication Services'', 0.85), (''Consumer Staples'', 0.95),
         (''Utilities'', 0.9), (''Real Estate'', 0.85)]\<rparr>"

definition au_trend :: "fval \<Rightarrow> fval \<Rightarrow> fval \<Rightarrow> fval \<Rightarrow> swing_progress \<Rightarrow> swing_progress" where
  "au_trend close ema_20 ema_50 sma_200 st =
     (let above_all_ma = (fgt close ema_20 \<and> fgt ema_20 ema_50 \<and> fgt ema_50 sma_200)
      in if above_all_ma then award 20 ''Above all MAs (strong uptrend)'' st
         else if fgt close ema_20 \<and> fgt close ema_50
         then award 15 ''Above 20/50 EMA (moderate trend)'' st
         else award 5 ''Not in clear uptrend'' st)"

definition au_rsi ::
  "formatter \<Rightarrow> australia_swing_criteria \<Rightarrow> fval \<Rightarrow> swing_progress \<Rightarrow> swing_progress" where
  "au_rsi F crit rsi st =
     (if fle (Fin (au_rsi_min crit)) rsi \<and> fle rsi (Fin (au_rsi_max crit))
      then award 20 (''RSI '' @ fixed F 1 rsi @ '' (ideal range)'') st
      else if flt (Fin 30) rsi \<and> flt rsi (Fin 35)
      then (award 15 (''RSI '' @ fixed F 1 rsi @ '' (pullback zone)'') st)\<lparr>entry_type := ''pullback''\<rparr>
      else if fgt rsi (Fin 65)
      then award 5 (''RSI '' @ fixed F 1 rsi @ '' (approaching overbought)'') st
      else st\<lparr>reasons := reasons st @ [''RSI '' @ fixed F 1 rsi]\<rparr>)"

text \<open>4. 52-week high proximity.\<close>

definition au_52w ::
  "formatter \<Rightarrow> australia_swing_criteria \<Rightarrow> fval \<Rightarrow> swing_progress \<Rightarrow> swing_progress" where
  "au_52w F crit week_52_high_prox st =
     (if fle (Fin (min_52w_high_proximity crit)) week_52_high_prox
         \<and> fle week_52_high_prox (Fin (max_52w_high_proximity crit))
      then award 15 (''Near 52W high ('' @ fixed F 1 week_52_high_prox @ ''%)'') st
      else if fgt week_52_high_prox (Fin (max_52w_high_proximity crit))
      then award 8 (''At 52W high ('' @ fixed F 1 week_52_high_prox @ ''%)'') st
      else award 5 (''52W high prox: '' @ fixed F 1 week_52_high_prox @ ''%'') st)"

definition au_macd :: "fval \<Rightarrow> fval \<Rightarrow> fval \<Rightarrow> fval \<Rightarrow> swing_progress \<Rightarrow> swing_progress" where
  "au_macd macd macd_signal_val macd_hist prev_macd_hist st =
     (if fgt macd macd_signal_val \<and> fgt macd_hist (Fin 0)
      then (let st' = award 15 ''MACD bullish'' st
            in if fle prev_macd_hist (Fin 0) then st'\<lparr>entry_type := ''macd_cross''\<rparr> else st')
      else if fgt macd macd_signal_val
      then award 10 ''MACD neutral'' st
      else st)"

definition au_volume ::
  "formatter \<Rightarrow> australia_swing_criteria \<Rightarrow> fval \<Rightarrow> swing_progress \<Rightarrow> swing_progress" where
  "au_volume F crit volume_ratio st =
     (if fge volume_ratio (Fin (min_volume_ratio crit))
      then award 10 (''Volume '' @ fixed F 1 volume_ratio @ ''x average'') st
      else award 5 (''Volume '' @ fixed F 1 volume_ratio @ ''x'') st)"

text \<open>7. Sector weight: only a reason is added here.\<close>

definition au_sector :: "formatter \<Rightarrow> string \<Rightarrow> real \<Rightarrow> swing_progress \<Rightarrow> swing_progress" where
  "au_sector F sector sector_weight st =
     (if 1.0 < sector_weight
      then st\<lparr>reasons := reasons st @ [''Sector: '' @ sector @ '' (weight: '' @ plain F sector_weight @ ''x)'']\<rparr>
      else st\<lparr>reasons := reasons st @ [''Sector: '' @ sector]\<rparr>)"

definition au_sector_weight :: "australia_swing_criteria \<Rightarrow> string \<Rightarrow> real" where
  "au_sector_weight crit sector =
     (case map_of (sector_weights crit) sector of None \<Rightarrow> 1.0 | Some w \<Rightarrow> w)"

definition au_checklist ::
  "formatter \<Rightarrow> australia_swing_criteria \<Rightarrow> dataframe \<Rightarrow> (string \<Rightarrow> fval) \<Rightarrow> (string \<Rightarrow> fval)
     \<Rightarrow> fval \<Rightarrow> fval \<Rightarrow> fval \<Rightarrow> fval \<Rightarrow> string \<Rightarrow> swing_progress" where
  "au_checklist F crit df latest prev close market_cap debt_to_equity roe sector =
     (let st1 = \<lparr>score = 15, entry_type = ''none'',
                 reasons = [''Fundamentals: MCap A$'' @ fixed F 0 market_cap
                    @ ''L, D/E '' @ fixed F 2 debt_to_equity
                    @ '', ROE '' @ fixed F 1 roe @ ''%'']\<rparr>;
          ema_20 = row_get df latest ''EMA_20'' (Fin 0);
          ema_50 = row_get df latest ''EMA_50'' (Fin 0);
          sma_200 = row_get df latest ''SMA_200'' (Fin 0);
          st2 = au_trend close ema_20 ema_50 sma_200 st1;
          st3 = au_rsi F crit (row_get df latest ''RSI'' (Fin 50)) st2;
          st4 = au_52w F crit (row_get df latest ''52W_High_Proximity'' (Fin 0)) st3;
          st5 = au_macd (row_get df latest ''MACD'' (Fin 0))
                  (row_get df latest ''MACD_Signal'' (Fin 0))
                  (row_get df latest ''MACD_Hist'' (Fin 0))
                  (row_get df prev ''MACD_Hist'' (Fin 0)) st4;
          volume_ratio = row_get df latest ''Volume_Ratio'' (Fin 1.0);
          st6 = au_volume F crit volume_ratio st5;
          st7 = au_sector F sector (au_sector_weight crit sector) st6
      in detect_entry_type close (row_get df latest ''EMA_20'' (Fin 0)) ema_50 volume_ratio
           (row_get df prev ''EMA_20'' (Fin 0)) (row_get df prev ''EMA_50'' (Fin 0)) st7)"

text \<open>
  \<open>check_swing_criteria\<close> of the Australian scanner: the result is
  \<open>(passes, weighted_score, entry_type, reason, sector_weight)\<close>.
\<close>

definition au_check_swing_criteria ::
  "formatter \<Rightarrow> australia_swing_criteria \<Rightarrow> dataframe option \<Rightarrow> fundamentals
     \<Rightarrow> py_error + (bool \<times> real \<times> string \<times> string \<times> real)" where
  "au_check_swing_criteria F crit historical_df fund =
     (case historical_df of
        None \<Rightarrow> Inr (False, 0, '''', ''Insufficient data'', 1.0)
      | Some df \<Rightarrow>
          if df_empty df \<or> df_len df < 50 then Inr (False, 0, '''', ''Insufficient data'', 1.0)
          else
            (case iloc_neg df 1 of Inl e \<Rightarrow> Inl e | Inr latest \<Rightarrow>
            (case iloc_neg df 2 of Inl e \<Rightarrow> Inl e | Inr prev \<Rightarrow>
               (let market_cap = dict_get (f_market_cap fund) (Fin 0);
                    debt_to_equity = dict_get (f_debt_to_equity fund) (Fin 999);
                    roe = dict_get (f_roe fund) (Fin 0);
                    sector = dict_get (f_sector fund) ''Unknown''
                in if flt market_cap (Fin (au_min_market_cap crit))
                   then Inr (False, 0, '''',
                          ''Market cap too small: A$'' @ fixed F 0 market_cap @ '' lakhs'', 1.0)
                   else if fgt debt_to_equity (Fin (au_max_debt_to_equity crit))
                   then Inr (False, 0, '''', ''High debt: '' @ fixed F 2 debt_to_equity, 1.0)
                   else if flt roe (Fin (au_min_roe crit))
                   then Inr (False, 0, '''', ''Low ROE: '' @ fixed F 1 roe @ ''%'', 1.0)
                   else
                     (case row_at df latest ''Close'' of Inl e \<Rightarrow> Inl e | Inr close \<Rightarrow>
                        (let st = au_checklist F crit df latest prev close
                                    market_cap debt_to_equity roe sector;
                             sector_weight = au_sector_weight crit sector;
                             weighted_score = of_int (score st) * sector_weight
                         in Inr (60 \<le> score st, weighted_score, entry_type st,
                                 str_join ''; '' (reasons st), sector_weight)))))))"

definition au_calculate_targets :: "fval \<Rightarrow> string \<Rightarrow> py_error + (fval \<times> fval)" where
  "au_calculate_targets current_price etype =
     (let (target, stop_loss) =
        (if etype = ''breakout''
         then (fmul current_price (Fin 1.15), fmul current_price (Fin 0.95))
         else if etype = ''pullback''
         then (fmul current_price (Fin 1.12), fmul current_price (Fin 0.93))
         else (fmul current_price (Fin 1.15), fmul current_price (Fin 0.94)))
      in Inr (py_round target 2, py_round stop_loss 2))"

section \<open>The momentum oscillator (data\_fetcher.py, shared/data\_fetcher.py)\<close>

text \<open>
  \<open>calculate_technical_indicators\<close> computes the RSI column from the closing prices with
  pandas series operations, the same lines in both fetchers.  Closing prices are finite
  numbers; the series derived from them hold NaN where pandas has no value.  Negating
  zero gives a negative zero in pandas; dividing a positive average gain by it gives
  minus infinity instead of plus infinity, and the oscillator is 100 in both cases, so
  the model does not distinguish the two zeros.
\<close>

record technical_params =
  ema_short :: nat
  ema_medium :: nat
  sma_long :: nat
  rsi_period :: nat
  macd_fast :: nat
  macd_slow :: nat
  macd_signal :: nat
  volume_lookback :: nat

definition TECHNICAL :: technical_params where
  "TECHNICAL = \<lparr>ema_short = 20, ema_medium = 50, sma_long = 200, rsi_period = 14,
                 macd_fast = 12, macd_slow = 26, macd_signal = 9, volume_lookback = 20\<rparr>"

text \<open>\<open>series.diff()\<close>: no value at the first position.\<close>

fun series_diff :: "real list \<Rightarrow> fval list" where
  "series_diff [] = []"
| "series_diff (x # xs) = NaN # map (\<lambda>(a, b). Fin (b - a)) (zip (x # xs) xs)"

text \<open>\<open>series.where(cond, other)\<close>: \<open>other\<close> wherever the condition is false.\<close>

definition series_where :: "(fval \<Rightarrow> bool) \<Rightarrow> fval \<Rightarrow> fval list \<Rightarrow> fval list" where
  "series_where cond other xs = map (\<lambda>v. if cond v then v else other) xs"

text \<open>
  \<open>series.rolling(window=w).mean()\<close>: the mean of the \<open>w\<close> values ending at a position;
  no value while fewer than \<open>w\<close> values exist or when one of them is NaN.
\<close>

definition window_mean :: "nat \<Rightarrow> fval list \<Rightarrow> fval" where
  "window_mean w win =
     (if length win < w \<or> NaN \<in> set win then NaN
      else fdiv (foldr fadd win (Fin 0)) (Fin (real w)))"

definition rolling_mean :: "nat \<Rightarrow> fval list \<Rightarrow> fval list" where
  "rolling_mean w xs = map (\<lambda>i. window_mean w (drop (Suc i - w) (take (Suc i) xs))) [0..<length xs]"

text \<open>The series \<open>gain\<close>, \<open>loss\<close> and \<open>df['RSI']\<close> of the source.\<close>

definition avg_gain :: "nat \<Rightarrow> real list \<Rightarrow> fval list" where
  "avg_gain period closes =
     rolling_mean period (series_where (\<lambda>d. fgt d (Fin 0)) (Fin 0) (series_diff closes))"

definition avg_loss :: "nat \<Rightarrow> real list \<Rightarrow> fval list" where
  "avg_loss period closes =
     rolling_mean period (map fneg (series_where (\<lambda>d. flt d (Fin 0)) (Fin 0) (series_diff closes)))"

definition rsi_series :: "nat \<Rightarrow> real list \<Rightarrow> fval list" where
  "rsi_series period closes =
     map (\<lambda>(gain, loss). let rs = fdiv gain loss
                          in fsub (Fin 100) (fdiv (Fin 100) (fadd (Fin 1) rs)))
       (zip (avg_gain period closes) (avg_loss period closes))"

text \<open>A finite value that is not negative.\<close>

definition nonneg :: "fval \<Rightarrow> bool" where
  "nonneg v = (\<exists>x\<ge>0. v = Fin x)"

section \<open>The indicator computation (data\_fetcher.py)\<close>

text \<open>
  \<open>calculate_technical_indicators\<close> assigns the indicator columns to the frame one after
  the other inside one \<open>try\<close> block and returns the frame.  Its \<open>except Exception\<close> logs the
  error and returns the frame as well, with the columns that were assigned before the
  statement that raised.  In the model a statement raises when it reads a column the
  frame does not have.  shared/data\_fetcher.py has the same statements, followed for the
  Australian market by three 52-week columns, inside the same \<open>try\<close> and \<open>except\<close>.
\<close>

text \<open>\<open>df[c]\<close> raises KeyError when \<open>c\<close> is no column; \<open>df[c] = series\<close> overwrites the
  column or appends it.\<close>

definition column :: "dataframe \<Rightarrow> string \<Rightarrow> py_error + fval list" where
  "column df c = (if c \<in> set (columns df) then Inr (map (\<lambda>r. r c) (rows df)) else Inl (KeyError c))"

definition assign :: "dataframe \<Rightarrow> string \<Rightarrow> fval list \<Rightarrow> dataframe" where
  "assign df c vals =
     \<lparr>columns = (if c \<in> set (columns df) then columns df else columns df @ [c]),
      rows = map (\<lambda>(r, v). r(c := v)) (zip (rows df) vals)\<rparr>"

text \<open>The window operations of pandas read an infinite entry as a missing one.\<close>

definition prep_values :: "fval list \<Rightarrow> fval list" where
  "prep_values xs = map (\<lambda>v. if v = PInf \<or> v = NInf then NaN else v) xs"

text \<open>
  \<open>series.ewm(span=s, adjust=False).mean()\<close>: the first average is the first value and each
  later one is \<open>(1 - alpha) * average + alpha * value\<close> with \<open>alpha = 2 / (s + 1)\<close>.  A
  missing value repeats the average and lets the weight of the old average decay; there
  is no average before the first value.
\<close>

fun ewm_loop :: "real \<Rightarrow> fval \<Rightarrow> real \<Rightarrow> fval list \<Rightarrow> fval list" where
  "ewm_loop alpha weighted old_wt [] = []"
| "ewm_loop alpha weighted old_wt (cur # rest) =
     (if weighted \<noteq> NaN
      then (if cur \<noteq> NaN
            then (let w = (if weighted \<noteq> cur
                           then fdiv (fadd (fmul (Fin (old_wt * (1 - alpha))) weighted)
                                        (fmul (Fin alpha) cur))
                                  (Fin (old_wt * (1 - alpha) + alpha))
                           else weighted)
                  in w # ewm_loop alpha w 1 rest)
            else weighted # ewm_loop alpha weighted (old_wt * (1 - alpha)) rest)
      else cur # ewm_loop alpha cur old_wt rest)"

definition ewm_mean :: "nat \<Rightarrow> fval list \<Rightarrow> fval list" where
  "ewm_mean sp xs =
     (case prep_values xs of
        [] \<Rightarrow> []
      | x # rest \<Rightarrow> x # ewm_loop (2 / (real sp + 1)) x 1 rest)"

text \<open>\<open>series.diff()\<close> on a column of the frame, and the \<open>RSI\<close> column computed from it as
  in the section above.\<close>

fun column_diff :: "fval list \<Rightarrow> fval list" where
  "column_diff [] = []"
| "column_diff (x # xs) = NaN # map2 (\<lambda>a b. fsub b a) (x # xs) xs"

definition rsi_column :: "nat \<Rightarrow> fval list \<Rightarrow> fval list" where
  "rsi_column period closes =
     (let delta = column_diff closes;
          gain = rolling_mean period (prep_values (series_where (\<lambda>d. fgt d (Fin 0)) (Fin 0) delta));
          loss = rolling_mean period
                   (prep_values (map fneg (series_where (\<lambda>d. flt d (Fin 0)) (Fin 0) delta)))
      in map2 (\<lambda>g l. let rs = fdiv g l in fsub (Fin 100) (fdiv (Fin 100) (fadd (Fin 1) rs))) gain loss)"

text \<open>The statements of the \<open>try\<close> block, each one ending in an assignment to the frame.\<close>

definition indicator_steps :: "technical_params \<Rightarrow> (dataframe \<Rightarrow> py_error + dataframe) list" where
  "indicator_steps tech =
     [\<lambda>df. try_bind (column df ''Close'') (\<lambda>close.
              Inr (assign df ''EMA_20'' (ewm_mean (ema_short tech) close))),
      \<lambda>df. try_bind (column df ''Close'') (\<lambda>close.
              Inr (assign df ''EMA_50'' (ewm_mean (ema_medium tech) close))),
      \<lambda>df. try_bind (column df ''Close'') (\<lambda>close.
              Inr (assign df ''SMA_200'' (rolling_mean (sma_long tech) (prep_values close)))),
      \<lambda>df. try_bind (column df ''Close'') (\<lambda>close.
              Inr (assign df ''RSI'' (rsi_column (rsi_period tech) close))),
      \<lambda>df. try_bind (column df ''Close'') (\<lambda>close.
              Inr (assign df ''MACD''
                     (map2 fsub (ewm_mean (macd_fast tech) close) (ewm_mean (macd_slow tech) close)))),
      \<lambda>df. try_bind (column df ''MACD'') (\<lambda>macd.
              Inr (assign df ''MACD_Signal'' (ewm_mean (macd_signal tech) macd))),
      \<lambda>df. try_bind (column df ''MACD'') (\<lambda>macd.
            try_bind (column df ''MACD_Signal'') (\<lambda>signal.
              Inr (assign df ''MACD_Hist'' (map2 fsub macd signal)))),
      \<lambda>df. try_bind (column df ''Volume'') (\<lambda>volume.
              Inr (assign df ''Volume_Avg_20''
                     (rolling_mean (volume_lookback tech) (prep_values volume)))),
      \<lambda>df. try_bind (column df ''Volume'') (\<lambda>volume.
            try_bind (column df ''Volume_Avg_20'') (\<lambda>avg.
              Inr (assign df ''Volume_Ratio'' (map2 fdiv volume avg))))]"

text \<open>
  The \<open>try\<close> block: the frame as the statements leave it, and the exception that was
  caught and logged, if one was raised.
\<close>

fun try_steps ::
  "(dataframe \<Rightarrow> py_error + dataframe) list \<Rightarrow> dataframe \<Rightarrow> dataframe \<times> py_error option" where
  "try_steps [] df = (df, None)"
| "try_steps (step # steps) df =
     (case step df of Inl e \<Rightarrow> (df, Some e) | Inr df' \<Rightarrow> try_steps steps df')"

definition calculate_technical_indicators :: "technical_params \<Rightarrow> dataframe \<Rightarrow> dataframe" where
  "calculate_technical_indicators tech df =
     (if df_empty df then df else fst (try_steps (indicator_steps tech) df))"

definition caught_error :: "technical_params \<Rightarrow> dataframe \<Rightarrow> py_error option" where
  "caught_error tech df =
     (if df_empty df then None else snd (try_steps (indicator_steps tech) df))"

section \<open>The scans\<close>

text \<open>
  The fetching of prices and fundamentals is outside the model.  A scan receives what
  the fetcher returned: the
  dictionaries keyed by symbol (an association list where the scan iterates over the
  dictionary, its keys distinct and in insertion order; a map where it only looks symbols
  up), and the fetcher's indicator computation \<open>calc\<close>.  It is a function from frames
  to frames: \<open>calculate_technical_indicators\<close> catches every exception itself and returns
  the frame, so no exception of it reaches the scan.  What is proved about a scan holds
  for every such computation; the fetcher's own is
  \<open>calculate_technical_indicators TECHNICAL\<close> above.
\<close>

text \<open>\<open>s.replace(old, '')\<close> for a non-empty \<open>old\<close>.\<close>

function str_remove :: "string \<Rightarrow> string \<Rightarrow> string" where
  "str_remove old s =
     (if s = [] \<or> old = [] then s
      else if take (length old) s = old then str_remove old (drop (length old) s)
      else hd s # str_remove old (tl s))"
  by pat_completeness auto
termination
  by (relation "measure (\<lambda>(old, s). length s)") auto

text \<open>\<open>xs[:m]\<close>: a negative \<open>m\<close> counts from the end.\<close>

definition py_slice_to :: "'a list \<Rightarrow> int \<Rightarrow> 'a list" where
  "py_slice_to xs m = (if 0 \<le> m then take (nat m) xs else take (length xs - nat (- m)) xs)"

text \<open>
  The loop over the filtered symbols.  \<open>analyze\<close> is the body of the \<open>try\<close> block: it
  raises, or ends without a candidate, or appends one.  \<open>except Exception\<close> logs and
  continues with the next symbol.
\<close>

fun scan_loop :: "(string \<Rightarrow> py_error + 'c option) \<Rightarrow> string list \<Rightarrow> 'c list \<Rightarrow> 'c list" where
  "scan_loop analyze [] candidates = candidates"
| "scan_loop analyze (symbol # rest) candidates =
     (case analyze symbol of
        Inl e \<Rightarrow> scan_loop analyze rest candidates
      | Inr None \<Rightarrow> scan_loop analyze rest candidates
      | Inr (Some c) \<Rightarrow> scan_loop analyze rest (candidates @ [c]))"

subsection \<open>BTST\<close>

record btst_candidate =
  b_symbol :: string
  b_current_price :: fval
  b_day_change_pct :: fval
  b_volume_ratio :: fval
  b_high_proximity_pct :: fval
  b_sector :: string
  b_score :: int
  b_reason :: string

text \<open>Step 2: the symbols whose day change reaches the minimum gain.\<close>

fun btst_prefilter :: "btst_criteria \<Rightarrow> (string \<times> current_data) list \<Rightarrow> py_error + string list" where
  "btst_prefilter crit [] = Inr []"
| "btst_prefilter crit ((symbol, data) # rest) =
     try_bind (dict_at ''day_change_pct'' (cd_day_change_pct data)) (\<lambda>day_change.
     try_bind (btst_prefilter crit rest) (\<lambda>filtered.
       Inr (if fge day_change (Fin (min_gain_percent crit)) then symbol # filtered else filtered)))"

text \<open>The body of \<open>if passes:\<close>, which builds the candidate.\<close>

definition make_btst_candidate ::
  "current_data \<Rightarrow> dataframe \<Rightarrow> fundamentals \<Rightarrow> int \<Rightarrow> string \<Rightarrow> py_error + btst_candidate" where
  "make_btst_candidate cd df fund sc reason =
     try_bind (if \<not> df_empty df
               then try_bind (iloc_neg df 1)
                      (\<lambda>latest. Inr (row_get df latest ''Volume_Ratio'' (Fin 1.0)))
               else Inr (Fin 1.0)) (\<lambda>volume_ratio.
     try_bind (dict_at ''symbol'' (cd_symbol cd)) (\<lambda>sym.
     try_bind (dict_at ''current_price'' (cd_current_price cd)) (\<lambda>price.
     try_bind (dict_at ''day_change_pct'' (cd_day_change_pct cd)) (\<lambda>day_change.
     try_bind (dict_at ''high_proximity_pct'' (cd_high_proximity_pct cd)) (\<lambda>high_prox.
       Inr \<lparr>b_symbol = sym, b_current_price = price,
            b_day_change_pct = day_change, b_volume_ratio = volume_ratio,
            b_high_proximity_pct = high_prox,
            b_sector = dict_get (f_sector fund) ''Unknown'',
            b_score = sc, b_reason = reason\<rparr>)))))"

definition btst_analyze ::
  "formatter \<Rightarrow> btst_criteria \<Rightarrow> (dataframe \<Rightarrow> dataframe)
     \<Rightarrow> (string \<times> current_data) list \<Rightarrow> (string \<Rightarrow> dataframe option)
     \<Rightarrow> (string \<Rightarrow> fundamentals option) \<Rightarrow> string \<Rightarrow> py_error + btst_candidate option" where
  "btst_analyze F crit calc current_data_dict historical_data_dict fundamentals_dict symbol =
     (let fund = dict_get (fundamentals_dict symbol)
                   \<lparr>f_market_cap = None, f_debt_to_equity = None, f_roe = None,
                    f_sector = Some ''Unknown''\<rparr>
      in case map_of current_data_dict symbol of
           None \<Rightarrow> Inr None
         | Some cd \<Rightarrow>
             (case historical_data_dict symbol of
                None \<Rightarrow> Inr None
              | Some raw \<Rightarrow>
                  (let df = calc raw
                   in try_bind (check_btst_criteria F crit cd (Some df) fund) (\<lambda>(passes, sc, reason).
                        if passes
                        then try_bind (make_btst_candidate cd df fund sc reason) (\<lambda>c. Inr (Some c))
                        else Inr None))))"

definition scan_for_btst ::
  "formatter \<Rightarrow> btst_criteria \<Rightarrow> (dataframe \<Rightarrow> dataframe)
     \<Rightarrow> (string \<times> current_data) list \<Rightarrow> (string \<Rightarrow> dataframe option)
     \<Rightarrow> (string \<Rightarrow> fundamentals option) \<Rightarrow> int option \<Rightarrow> py_error + btst_candidate list" where
  "scan_for_btst F crit calc current_data_dict historical_data_dict fundamentals_dict max_res =
     (let limit = (case max_res of None \<Rightarrow> btst_max_results crit | Some m \<Rightarrow> m)
      in try_bind (btst_prefilter crit current_data_dict) (\<lambda>filtered_symbols.
           if filtered_symbols = [] then Inr []
           else (let candidates =
                       scan_loop (btst_analyze F crit calc current_data_dict historical_data_dict
                                    fundamentals_dict) filtered_symbols []
                 in Inr (py_slice_to (sort_key (\<lambda>c. - b_score c) candidates) limit))))"

subsection \<open>Swing, India\<close>

record swing_candidate =
  s_symbol :: string
  s_current_price :: fval
  s_market_cap :: fval
  s_sector :: string
  s_rsi :: fval
  s_macd_signal :: string
  s_ema_alignment :: bool
  s_volume_ratio :: fval
  s_debt_to_equity :: fval
  s_roe :: fval
  s_score :: int
  s_entry_type :: string
  s_target :: fval
  s_stop_loss :: fval
  s_reason :: string

text \<open>Step 2: the symbols whose fundamentals pass the market-cap and the debt gate.\<close>

definition swing_prefilter :: "swing_criteria \<Rightarrow> (string \<times> fundamentals) list \<Rightarrow> string list" where
  "swing_prefilter crit fundamentals_dict =
     [symbol. (symbol, fund) \<leftarrow> fundamentals_dict,
        fge (dict_get (f_market_cap fund) (Fin 0)) (Fin (min_market_cap crit)),
        fle (dict_get (f_debt_to_equity fund) (Fin 999)) (Fin (max_debt_to_equity crit))]"

text \<open>The body of \<open>if passes:\<close>, which derives the targets and builds the candidate.\<close>

definition make_swing_candidate ::
  "string \<Rightarrow> dataframe \<Rightarrow> fundamentals \<Rightarrow> int \<Rightarrow> string \<Rightarrow> string
     \<Rightarrow> py_error + swing_candidate" where
  "make_swing_candidate symbol df fund sc etype reason =
     try_bind (iloc_neg df 1) (\<lambda>latest.
     try_bind (row_at df latest ''Close'') (\<lambda>current_price.
     try_bind (calculate_targets current_price etype) (\<lambda>(target, stop_loss).
     try_bind (dict_at ''market_cap'' (f_market_cap fund)) (\<lambda>market_cap.
     try_bind (dict_at ''sector'' (f_sector fund)) (\<lambda>sector.
     try_bind (dict_at ''debt_to_equity'' (f_debt_to_equity fund)) (\<lambda>debt_to_equity.
     try_bind (dict_at ''roe'' (f_roe fund)) (\<lambda>roe.
       Inr \<lparr>s_symbol = str_remove ''.NS'' symbol,
            s_current_price = py_round current_price 2,
            s_market_cap = market_cap, s_sector = sector,
            s_rsi = py_round (row_get df latest ''RSI'' (Fin 0)) 1,
            s_macd_signal =
              (if fgt (row_get df latest ''MACD'' (Fin 0)) (row_get df latest ''MACD_Signal'' (Fin 0))
               then ''bullish'' else ''bearish''),
            s_ema_alignment =
              (fgt current_price (row_get df latest ''EMA_20'' (Fin 0))
               \<and> fgt (row_get df latest ''EMA_20'' (Fin 0)) (row_get df latest ''EMA_50'' (Fin 0))),
            s_volume_ratio = py_round (row_get df latest ''Volume_Ratio'' (Fin 1.0)) 1,
            s_debt_to_equity = debt_to_equity, s_roe = roe,
            s_score = sc, s_entry_type = etype,
            s_target = target, s_stop_loss = stop_loss,
            s_reason = reason\<rparr>)))))))"

definition swing_analyze ::
  "formatter \<Rightarrow> swing_criteria \<Rightarrow> (dataframe \<Rightarrow> dataframe)
     \<Rightarrow> (string \<times> fundamentals) list \<Rightarrow> (string \<Rightarrow> dataframe option)
     \<Rightarrow> string \<Rightarrow> py_error + swing_candidate option" where
  "swing_analyze F crit calc fundamentals_dict historical_data_dict symbol =
     (case historical_data_dict symbol of
        None \<Rightarrow> Inr None
      | Some raw \<Rightarrow>
          (case map_of fundamentals_dict symbol of
             None \<Rightarrow> Inr None
           | Some fund \<Rightarrow>
               (let df = calc raw
                in try_bind (check_swing_criteria F crit (Some df) fund) (\<lambda>(passes, sc, etype, reason).
                     if passes
                     then try_bind (make_swing_candidate symbol df fund sc etype reason)
                            (\<lambda>c. Inr (Some c))
                     else Inr None))))"

definition scan_for_swing ::
  "formatter \<Rightarrow> swing_criteria \<Rightarrow> (dataframe \<Rightarrow> dataframe)
     \<Rightarrow> (string \<times> fundamentals) list \<Rightarrow> (string \<Rightarrow> dataframe option)
     \<Rightarrow> int option \<Rightarrow> swing_candidate list" where
  "scan_for_swing F crit calc fundamentals_dict historical_data_dict max_res =
     (let limit = (case max_res of None \<Rightarrow> max_results crit | Some m \<Rightarrow> m);
          filtered_symbols = swing_prefilter crit fundamentals_dict
      in if filtered_symbols = [] then []
         else (let candidates =
                     scan_loop (swing_analyze F crit calc fundamentals_dict historical_data_dict)
                       filtered_symbols []
               in py_slice_to (sort_key (\<lambda>c. - s_score c) candidates) limit))"

subsection \<open>Swing, Australia\<close>

record australia_swing_candidate =
  a_symbol :: string
  a_current_price :: fval
  a_market_cap :: fval
  a_sector :: string
  a_rsi :: fval
  a_macd_signal :: string
  a_ema_alignment :: bool
  a_volume_ratio :: fval
  a_debt_to_equity :: fval
  a_roe :: fval
  a_week_52_high_proximity :: fval
  a_score :: real
  a_sector_weight :: real
  a_entry_type :: string
  a_target :: fval
  a_stop_loss :: fval
  a_reason :: string

definition au_prefilter ::
  "australia_swing_criteria \<Rightarrow> (string \<times> fundamentals) list \<Rightarrow> string list" where
  "au_prefilter crit fundamentals_dict =
     [symbol. (symbol, fund) \<leftarrow> fundamentals_dict,
        fge (dict_get (f_market_cap fund) (Fin 0)) (Fin (au_min_market_cap crit)),
        fle (dict_get (f_debt_to_equity fund) (Fin 999)) (Fin (au_max_debt_to_equity crit))]"

definition make_au_candidate ::
  "string \<Rightarrow> dataframe \<Rightarrow> fundamentals \<Rightarrow> real \<Rightarrow> string \<Rightarrow> string \<Rightarrow> real
     \<Rightarrow> py_error + australia_swing_candidate" where
  "make_au_candidate symbol df fund sc etype reason sector_weight =
     try_bind (iloc_neg df 1) (\<lambda>latest.
     try_bind (row_at df latest ''Close'') (\<lambda>current_price.
     try_bind (au_calculate_targets current_price etype) (\<lambda>(target, stop_loss).
     try_bind (dict_at ''market_cap'' (f_market_cap fund)) (\<lambda>market_cap.
     try_bind (dict_at ''sector'' (f_sector fund)) (\<lambda>sector.
     try_bind (dict_at ''debt_to_equity'' (f_debt_to_equity fund)) (\<lambda>debt_to_equity.
     try_bind (dict_at ''roe'' (f_roe fund)) (\<lambda>roe.
       Inr \<lparr>a_symbol = str_remove ''.AX'' symbol,
            a_current_price = py_round current_price 2,
            a_market_cap = market_cap, a_sector = sector,
            a_rsi = py_round (row_get df latest ''RSI'' (Fin 0)) 1,
            a_macd_signal =
              (if fgt (row_get df latest ''MACD'' (Fin 0)) (row_get df latest ''MACD_Signal'' (Fin 0))
               then ''bullish'' else ''bearish''),
            a_ema_alignment =
              (fgt current_price (row_get df latest ''EMA_20'' (Fin 0))
               \<and> fgt (row_get df latest ''EMA_20'' (Fin 0)) (row_get df latest ''EMA_50'' (Fin 0))),
            a_volume_ratio = py_round (row_get df latest ''Volume_Ratio'' (Fin 1.0)) 1,
            a_debt_to_equity = debt_to_equity, a_roe = roe,
            a_week_52_high_proximity = py_round (row_get df latest ''52W_High_Proximity'' (Fin 0)) 1,
            a_score = sc, a_sector_weight = sector_weight,
            a_entry_type = etype,
            a_target = target, a_stop_loss = stop_loss,
            a_reason = reason\<rparr>)))))))"

definition au_analyze ::
  "formatter \<Rightarrow> australia_swing_criteria \<Rightarrow> (dataframe \<Rightarrow> dataframe)
     \<Rightarrow> (string \<times> fundamentals) list \<Rightarrow> (string \<Rightarrow> dataframe option)
     \<Rightarrow> string \<Rightarrow> py_error + australia_swing_candidate option" where
  "au_analyze F crit calc fundamentals_dict historical_data_dict symbol =
     (case historical_data_dict symbol of
        None \<Rightarrow> Inr None
      | Some raw \<Rightarrow>
          (case map_of fundamentals_dict symbol of
             None \<Rightarrow> Inr None
           | Some fund \<Rightarrow>
               (let df = calc raw
                in try_bind (au_check_swing_criteria F crit (Some df) fund)
                     (\<lambda>(passes, sc, etype, reason, sector_weight).
                     if passes
                     then try_bind (make_au_candidate symbol df fund sc etype reason sector_weight)
                            (\<lambda>c. Inr (Some c))
                     else Inr None))))"

definition au_scan_for_swing ::
  "formatter \<Rightarrow> australia_swing_criteria \<Rightarrow> (dataframe \<Rightarrow> dataframe)
     \<Rightarrow> (string \<times> fundamentals) list \<Rightarrow> (string \<Rightarrow> dataframe option)
     \<Rightarrow> int option \<Rightarrow> australia_swing_candidate list" where
  "au_scan_for_swing F crit calc fundamentals_dict historical_data_dict max_res =
     (let limit = (case max_res of None \<Rightarrow> au_max_results crit | Some m \<Rightarrow> m);
          filtered_symbols = au_prefilter crit fundamentals_dict
      in if filtered_symbols = [] then []
         else (let candidates =
                     scan_loop (au_analyze F crit calc fundamentals_dict historical_data_dict)
                       filtered_symbols []
               in py_slice_to (sort_key (\<lambda>c. - a_score c) candidates) limit))"

section \<open>The classification rules, stated on the frame\<close>

text \<open>
  The statements below speak about the latest and the previous bar of a frame with at
  least two bars, read as the scanners read them (\<open>.get\<close> with its default).
\<close>

definition latest_bar :: "dataframe \<Rightarrow> string \<Rightarrow> fval" where
  "latest_bar df = rows df ! (length (rows df) - 1)"

definition prev_bar :: "dataframe \<Rightarrow> string \<Rightarrow> fval" where
  "prev_bar df = rows df ! (length (rows df) - 2)"

definition enough_history :: "dataframe \<Rightarrow> bool" where
  "enough_history df = (50 \<le> length (rows df) \<and> columns df \<noteq> [])"

definition passes_gates :: "real \<Rightarrow> real \<Rightarrow> real \<Rightarrow> fundamentals \<Rightarrow> bool" where
  "passes_gates cap_floor debt_ceiling roe_floor fund =
     (\<not> flt (dict_get (f_market_cap fund) (Fin 0)) (Fin cap_floor)
      \<and> \<not> fgt (dict_get (f_debt_to_equity fund) (Fin 999)) (Fin debt_ceiling)
      \<and> \<not> flt (dict_get (f_roe fund) (Fin 0)) (Fin roe_floor))"

text \<open>The MACD line is above its signal, the histogram is positive and was not on the bar before.\<close>

definition macd_fresh_cross :: "dataframe \<Rightarrow> bool" where
  "macd_fresh_cross df =
     (fgt (row_get df (latest_bar df) ''MACD'' (Fin 0)) (row_get df (latest_bar df) ''MACD_Signal'' (Fin 0))
      \<and> fgt (row_get df (latest_bar df) ''MACD_Hist'' (Fin 0)) (Fin 0)
      \<and> fle (row_get df (prev_bar df) ''MACD_Hist'' (Fin 0)) (Fin 0))"

definition rsi_in_pullback_band :: "real \<Rightarrow> dataframe \<Rightarrow> bool" where
  "rsi_in_pullback_band upper df =
     (flt (Fin 30) (row_get df (latest_bar df) ''RSI'' (Fin 50))
      \<and> flt (row_get df (latest_bar df) ''RSI'' (Fin 50)) (Fin upper))"

definition breakout_setup :: "dataframe \<Rightarrow> bool" where
  "breakout_setup df =
     (fgt (latest_bar df ''Close'') (fmul (row_get df (latest_bar df) ''EMA_20'' (Fin 0)) (Fin 1.02))
      \<and> fgt (row_get df (latest_bar df) ''Volume_Ratio'' (Fin 1.0)) (Fin 1.5))"

definition ma_crossover :: "dataframe \<Rightarrow> bool" where
  "ma_crossover df =
     (fgt (row_get df (latest_bar df) ''EMA_20'' (Fin 0)) (row_get df (latest_bar df) ''EMA_50'' (Fin 0))
      \<and> fle (row_get df (prev_bar df) ''EMA_20'' (Fin 0)) (row_get df (prev_bar df) ''EMA_50'' (Fin 0)))"

text \<open>The order in which the code lets the setups win.\<close>

definition entry_type_by_priority :: "real \<Rightarrow> dataframe \<Rightarrow> string" where
  "entry_type_by_priority upper df =
     (if macd_fresh_cross df then ''macd_cross''
      else if rsi_in_pullback_band upper df then ''pullback''
      else if breakout_setup df then ''breakout''
      else if ma_crossover df then ''ma_cross''
      else ''trend_follow'')"

text \<open>The multiplier tables of the two markets, keyed by entry type.\<close>

definition target_table :: "(string \<times> real \<times> real) list" where
  "target_table =
     [(''breakout'', 1.12, 0.95), (''pullback'', 1.10, 0.93), (''trend_follow'', 1.12, 0.94),
      (''macd_cross'', 1.12, 0.94), (''ma_cross'', 1.12, 0.94)]"

definition au_target_table :: "(string \<times> real \<times> real) list" where
  "au_target_table =
     [(''breakout'', 1.15, 0.95), (''pullback'', 1.12, 0.93), (''trend_follow'', 1.15, 0.94),
      (''macd_cross'', 1.15, 0.94), (''ma_cross'', 1.15, 0.94)]"

definition scaled :: "fval \<Rightarrow> real \<times> real \<Rightarrow> fval \<times> fval" where
  "scaled price m = (py_round (fmul price (Fin (fst m))) 2, py_round (fmul price (Fin (snd m))) 2)"

text \<open>What a caller reads off a result: whether it passed, and its entry type.\<close>

definition passed :: "'e + (bool \<times> 'r) \<Rightarrow> bool" where
  "passed res = (case res of Inl e \<Rightarrow> False | Inr (p, r) \<Rightarrow> p)"

definition entry_type_of :: "'e + ('p \<times> 's \<times> string \<times> 'r) \<Rightarrow> string option" where
  "entry_type_of res = (case res of Inl e \<Rightarrow> None | Inr (p, s, et, r) \<Rightarrow> Some et)"

definition score_of :: "'e + ('p \<times> 's \<times> 'r) \<Rightarrow> 's option" where
  "score_of res = (case res of Inl e \<Rightarrow> None | Inr (p, s, r) \<Rightarrow> Some s)"

definition entry_types :: "string set" where
  "entry_types = {''pullback'', ''macd_cross'', ''breakout'', ''ma_cross'', ''trend_follow''}"

text \<open>The candidates of a batch in the order of its symbols, one for each symbol whose
  analysis ends with a candidate.\<close>

definition candidates_in_order :: "(string \<Rightarrow> py_error + 'c option) \<Rightarrow> string list \<Rightarrow> 'c list" where
  "candidates_in_order analyze symbols =
     concat (map (\<lambda>symbol. case analyze symbol of Inr (Some c) \<Rightarrow> [c] | _ \<Rightarrow> []) symbols)"

definition result_limit :: "int \<Rightarrow> int option \<Rightarrow> int" where
  "result_limit fallback max_res = (case max_res of None \<Rightarrow> fallback | Some m \<Rightarrow> m)"

text \<open>The list a scan returned; none when it raised.\<close>

definition returned :: "py_error + 'c list \<Rightarrow> 'c list" where
  "returned res = (case res of Inl e \<Rightarrow> [] | Inr xs \<Rightarrow> xs)"

section \<open>Concrete inputs\<close>

text \<open>A formatter that prints every number as \<open>#\<close>.\<close>

definition example_formatter :: formatter where
  "example_formatter = \<lparr>fixed = (\<lambda>n v. ''#''), plain = (\<lambda>w. ''#'')\<rparr>"

definition no_fundamentals :: fundamentals where
  "no_fundamentals = \<lparr>f_market_cap = None, f_debt_to_equity = None, f_roe = None, f_sector = None\<rparr>"

definition quote :: "real \<Rightarrow> real \<Rightarrow> current_data" where
  "quote change prox = \<lparr>cd_symbol = Some ''ABC'', cd_current_price = Some (Fin 100),
     cd_day_change_pct = Some (Fin change), cd_high_proximity_pct = Some (Fin prox)\<rparr>"

text \<open>A single enriched bar: volume ratio 1.8, close 100 above the short average 98.\<close>

definition strong_bar :: "string \<Rightarrow> fval" where
  "strong_bar c = (if c = ''Volume_Ratio'' then Fin 1.8 else if c = ''Close'' then Fin 100
                   else if c = ''EMA_20'' then Fin 98 else NaN)"

definition strong_frame :: dataframe where
  "strong_frame = \<lparr>columns = [''Close'', ''Volume'', ''EMA_20'', ''Volume_Ratio''], rows = [strong_bar]\<rparr>"

text \<open>A frame with the short-average column and no bar at all.\<close>

definition barless_frame :: dataframe where
  "barless_frame = \<lparr>columns = [''Close'', ''EMA_20''], rows = []\<rparr>"

text \<open>The part of a result that does not depend on formatting: passed, score, entry type.\<close>

definition outcome :: "'e + (bool \<times> 'n \<times> string \<times> 'r) \<Rightarrow> 'e + (bool \<times> 'n \<times> string)" where
  "outcome res = map_sum id (\<lambda>(p, s, e, r). (p, s, e)) res"

definition bar :: "(string \<times> real) list \<Rightarrow> string \<Rightarrow> fval" where
  "bar kv c = (case map_of kv c of Some v \<Rightarrow> Fin v | None \<Rightarrow> NaN)"

definition swing_columns :: "string list" where
  "swing_columns = [''Close'', ''Volume'', ''EMA_20'', ''EMA_50'', ''SMA_200'', ''RSI'', ''MACD'',
     ''MACD_Signal'', ''MACD_Hist'', ''Volume_Avg_20'', ''Volume_Ratio'', ''52W_High_Proximity'']"

text \<open>Fifty bars: forty-nine copies of the previous bar, then the latest one.\<close>

definition history :: "(string \<Rightarrow> fval) \<Rightarrow> (string \<Rightarrow> fval) \<Rightarrow> dataframe" where
  "history prev latest = \<lparr>columns = swing_columns, rows = replicate 49 prev @ [latest]\<rparr>"

definition sound_fundamentals :: "string \<Rightarrow> fundamentals" where
  "sound_fundamentals sector = \<lparr>f_market_cap = Some (Fin 60000), f_debt_to_equity = Some (Fin 0.3),
     f_roe = Some (Fin 20), f_sector = Some sector\<rparr>"

definition falling_hist_bar :: "string \<Rightarrow> fval" where
  "falling_hist_bar = bar [(''Close'', 99), (''EMA_20'', 97), (''EMA_50'', 95), (''SMA_200'', 90),
     (''RSI'', 45), (''MACD'', 0.3), (''MACD_Signal'', 0.5), (''MACD_Hist'', -0.2),
     (''Volume_Ratio'', 1.0), (''52W_High_Proximity'', 90)]"

text \<open>RSI 35 in the pullback band, and the histogram turning positive on the same bar.\<close>

definition pullback_and_cross_bar :: "string \<Rightarrow> fval" where
  "pullback_and_cross_bar = bar [(''Close'', 100), (''EMA_20'', 98), (''EMA_50'', 95), (''SMA_200'', 90),
     (''RSI'', 35), (''MACD'', 1), (''MACD_Signal'', 0.5), (''MACD_Hist'', 0.5),
     (''Volume_Ratio'', 1.3), (''52W_High_Proximity'', 90)]"

text \<open>The histogram reaching exactly zero from below.\<close>

definition zero_hist_bar :: "string \<Rightarrow> fval" where
  "zero_hist_bar = bar [(''Close'', 100), (''EMA_20'', 98), (''EMA_50'', 95), (''SMA_200'', 90),
     (''RSI'', 50), (''MACD'', 1), (''MACD_Signal'', 1), (''MACD_Hist'', 0),
     (''Volume_Ratio'', 1.3), (''52W_High_Proximity'', 90)]"

text \<open>A quiet bar close to its 52-week high: MACD below its signal, volume at its average.\<close>

definition modest_bar :: "string \<Rightarrow> fval" where
  "modest_bar = bar [(''Close'', 100), (''EMA_20'', 98), (''EMA_50'', 95), (''SMA_200'', 90),
     (''RSI'', 50), (''MACD'', 0.3), (''MACD_Signal'', 0.5), (''MACD_Hist'', -0.2),
     (''Volume_Ratio'', 1.0), (''52W_High_Proximity'', 99)]"

text \<open>An indicator computation that returns the frame it is given: the frames of the
  batches below carry their indicator columns already.\<close>

definition enriched :: "dataframe \<Rightarrow> dataframe" where
  "enriched df = df"

text \<open>Fifty bars without a \<open>Close\<close> column, and a single bar without one.\<close>

definition closeless_history :: dataframe where
  "closeless_history = \<lparr>columns = [''EMA_20'', ''RSI''], rows = replicate 50 falling_hist_bar\<rparr>"

definition closeless_frame :: dataframe where
  "closeless_frame = \<lparr>columns = [''EMA_20'', ''Volume_Ratio''], rows = [strong_bar]\<rparr>"

text \<open>
  Three sound companies: A and C end on the zero-histogram bar, B on the bar with the
  fresh crossover.  In the second batch the history of the middle symbol has no
  \<open>Close\<close> column.
\<close>

definition three_fundamentals :: "(string \<times> fundamentals) list" where
  "three_fundamentals = [(''A.NS'', sound_fundamentals ''BANKS''), (''B.NS'', sound_fundamentals ''BANKS''),
     (''C.NS'', sound_fundamentals ''BANKS'')]"

definition three_histories :: "string \<Rightarrow> dataframe option" where
  "three_histories = map_of [(''A.NS'', history falling_hist_bar zero_hist_bar),
     (''B.NS'', history falling_hist_bar pullback_and_cross_bar),
     (''C.NS'', history falling_hist_bar zero_hist_bar)]"

definition broken_histories :: "string \<Rightarrow> dataframe option" where
  "broken_histories = map_of [(''A.NS'', history falling_hist_bar zero_hist_bar),
     (''B.NS'', closeless_history),
     (''C.NS'', history falling_hist_bar zero_hist_bar)]"

definition two_quotes :: "(string \<times> current_data) list" where
  "two_quotes = [(''BAD.NS'', quote 2.5 95), (''A.NS'', quote 2.5 95)]"

definition two_frames :: "string \<Rightarrow> dataframe option" where
  "two_frames = map_of [(''BAD.NS'', closeless_frame), (''A.NS'', strong_frame)]"

definition no_fundamentals_dict :: "string \<Rightarrow> fundamentals option" where
  "no_fundamentals_dict symbol = None"

text \<open>One sound company of the Information Technology sector, ending on the quiet bar.\<close>

definition it_fundamentals :: "(string \<times> fundamentals) list" where
  "it_fundamentals = [(''XRO.AX'', sound_fundamentals ''Information Technology'')]"

definition it_histories :: "string \<Rightarrow> dataframe option" where
  "it_histories = map_of [(''XRO.AX'', history modest_bar modest_bar)]"

text \<open>Fifteen closes that never move, and fifteen that alternate between 10 and 11.\<close>

definition flat_closes :: "real list" where
  "flat_closes = replicate 15 100"

definition zigzag_closes :: "real list" where
  "zigzag_closes = [10, 11, 10, 11, 10, 11, 10, 11, 10, 11, 10, 11, 10, 11, 10]"

definition rising_closes :: "real list" where
  "rising_closes = [1, 2, 3, 4, 5, 6, 7, 8, 9, 10, 11, 12, 13, 14, 15]"

text \<open>
  Fifty bars that hold nothing but a close, forty-nine at 100 and the latest at 102, for a
  sound company of a preferred sector.
\<close>

definition closes_only :: "real list \<Rightarrow> dataframe" where
  "closes_only cs = \<lparr>columns = [''Close''], rows = map (\<lambda>c. bar [(''Close'', c)]) cs\<rparr>"

definition volumeless_history :: dataframe where
  "volumeless_history = closes_only (replicate 49 100 @ [102])"

definition volumeless_fundamentals :: "(string \<times> fundamentals) list" where
  "volumeless_fundamentals = [(''X.NS'', sound_fundamentals ''DEFENCE'')]"

definition volumeless_histories :: "string \<Rightarrow> dataframe option" where
  "volumeless_histories = map_of [(''X.NS'', volumeless_history)]"

text \<open>Two sound Australian companies; the history of the second has no \<open>Close\<close> column.\<close>

definition asx_fundamentals :: "(string \<times> fundamentals) list" where
  "asx_fundamentals = [(''A.AX'', sound_fundamentals ''Financials''),
     (''B.AX'', sound_fundamentals ''Financials'')]"

definition asx_broken_histories :: "string \<Rightarrow> dataframe option" where
  "asx_broken_histories = map_of [(''A.AX'', history modest_bar modest_bar), (''B.AX'', closeless_history)]"

section \<open>Facts about comparisons\<close>

lemma flt_not_fle: "flt a b \<Longrightarrow> \<not> fle b a"
  by (cases a; cases b) auto

lemma flt_asym: "flt a b \<Longrightarrow> \<not> flt b a"
  by (cases a; cases b) auto

lemma flt_fle_trans: "flt a b \<Longrightarrow> fle b c \<Longrightarrow> flt a c"
  by (cases a; cases b; cases c) auto

lemma fle_trans: "fle a b \<Longrightarrow> fle b c \<Longrightarrow> fle a c"
  by (cases a; cases b; cases c) auto

lemma sublist_mid: "sublist xs (ps @ xs @ ss)"
  unfolding sublist_def by blast

lemma iloc_last: "rows df \<noteq> [] \<Longrightarrow> iloc_neg df (Suc 0) = Inr (last (rows df))"
  by (cases "rows df" rule: rev_cases) (simp_all add: iloc_neg_def)

section \<open>The BTST checklist\<close>

lemma btst_gain_ideal:
  "fle (Fin 2.0) d \<Longrightarrow> fle d (Fin 3.5) \<Longrightarrow>
   btst_gain F BTST d = Inr (30, [check_mark @ '' Gain '' @ fixed F 1 d @ ''% (ideal 2-3%)''])"
  by (simp add: btst_gain_def BTST_def)

lemma btst_gain_above:
  "fgt d (Fin 3.5) \<Longrightarrow>
   btst_gain F BTST d = Inr (15, [warn_mark @ '' Gain '' @ fixed F 1 d @ ''% (>3%, may be overbought)''])"
  by (simp add: btst_gain_def BTST_def flt_not_fle)

lemma btst_gain_below:
  assumes "flt d (Fin 2.0)"
  shows "btst_gain F BTST d = Inl [cross_mark @ '' Gain '' @ fixed F 1 d @ ''% (below 2%)'']"
proof -
  have a: "\<not> fle (Fin 2.0) d" using assms by (rule flt_not_fle)
  have "flt d (Fin 3.5)" using assms by (rule flt_fle_trans) simp
  hence b: "\<not> flt (Fin 3.5) d" by (rule flt_asym)
  show ?thesis using a b by (simp add: btst_gain_def BTST_def)
qed

lemma btst_volume_from:
  "btst_volume F crit hdf st
     = (case btst_volume F crit hdf (0, []) of
          Inl e \<Rightarrow> Inl e
        | Inr (p, r) \<Rightarrow> Inr (fst st + p, snd st @ r))"
  by (simp add: btst_volume_def split: option.splits sum.splits)

lemma btst_high_prox_from:
  "btst_high_prox F h st
     = (fst st + fst (btst_high_prox F h (0, [])), snd st @ snd (btst_high_prox F h (0, [])))"
  by (simp add: btst_high_prox_def)

lemma btst_trend_from:
  "btst_trend hdf st
     = (case btst_trend hdf (0, []) of
          Inl e \<Rightarrow> Inl e
        | Inr (p, r) \<Rightarrow> Inr (fst st + p, snd st @ r))"
  by (simp add: btst_trend_def split: option.splits sum.splits)

lemma btst_sector_from:
  "btst_sector fund st
     = (fst st + fst (btst_sector fund (0, [])), snd st @ snd (btst_sector fund (0, [])))"
  by (simp add: btst_sector_def Let_def)

lemma check_btst_after_gain:
  assumes "cd_day_change_pct cd = Some d" and "btst_gain F crit d = Inr (g, [r])"
  shows "check_btst_criteria F crit cd hdf fund
           = (case btst_later_checks F crit cd hdf fund of
                Inl e \<Rightarrow> Inl e
              | Inr (points, notes) \<Rightarrow>
                  Inr (60 \<le> g + points, g + points, str_join ''; '' (r # notes)))"
proof (cases "btst_volume F crit hdf (0, [])")
  case (Inl e)
  thus ?thesis
    using assms btst_volume_from[of F crit hdf "(g, [r])"]
    by (simp add: check_btst_criteria_def btst_later_checks_def dict_at_def)
next
  case v: (Inr st2)
  obtain p2 r2 where st2: "st2 = (p2, r2)" by (cases st2)
  have v': "btst_volume F crit hdf (g, [r]) = Inr (g + p2, r # r2)"
    using btst_volume_from[of F crit hdf "(g, [r])"] v st2 by simp
  show ?thesis
  proof (cases "cd_high_proximity_pct cd")
    case None
    thus ?thesis using assms v v'
      by (simp add: check_btst_criteria_def btst_later_checks_def dict_at_def)
  next
    case (Some h)
    obtain p3 r3 where h0: "btst_high_prox F h (p2, r2) = (p3, r3)"
      by (cases "btst_high_prox F h (p2, r2)")
    have h1: "btst_high_prox F h (g + p2, r # r2) = (g + p3, r # r3)"
      using btst_high_prox_from[of F h "(g + p2, r # r2)"] btst_high_prox_from[of F h "(p2, r2)"] h0
      by simp
    show ?thesis
    proof (cases "btst_trend hdf (p3, r3)")
      case (Inl e)
      hence "btst_trend hdf (g + p3, r # r3) = Inl e"
        using btst_trend_from[of hdf "(g + p3, r # r3)"] btst_trend_from[of hdf "(p3, r3)"]
        by (auto split: sum.splits)
      thus ?thesis using assms v v' st2 Some h0 h1 Inl
        by (simp add: check_btst_criteria_def btst_later_checks_def dict_at_def)
    next
      case t: (Inr st4)
      obtain p4 r4 where st4: "st4 = (p4, r4)" by (cases st4)
      have t': "btst_trend hdf (g + p3, r # r3) = Inr (g + p4, r # r4)"
        using btst_trend_from[of hdf "(g + p3, r # r3)"] btst_trend_from[of hdf "(p3, r3)"] t st4
        by (auto split: sum.splits)
      obtain p5 r5 where s0: "btst_sector fund (p4, r4) = (p5, r5)"
        by (cases "btst_sector fund (p4, r4)")
      have s1: "btst_sector fund (g + p4, r # r4) = (g + p5, r # r5)"
        using btst_sector_from[of fund "(g + p4, r # r4)"] btst_sector_from[of fund "(p4, r4)"] s0
        by simp
      show ?thesis using assms v v' st2 Some h0 h1 t t' st4 s0 s1
        by (simp add: check_btst_criteria_def btst_later_checks_def dict_at_def Let_def)
    qed
  qed
qed

lemma strong_later_checks:
  "btst_later_checks example_formatter BTST (quote ch 95) (Some strong_frame) no_fundamentals
     = Inr (70, [check_mark @ '' Volume #x average'', check_mark @ '' Closing near high (#%)'',
                 check_mark @ '' Above 20 EMA (uptrend)'', check_mark @ '' Sector: Unknown''])"
  by (simp add: btst_later_checks_def btst_volume_def btst_high_prox_def btst_trend_def
      btst_sector_def df_empty_def strong_frame_def strong_bar_def iloc_neg_def row_at_def
      BTST_def quote_def dict_at_def no_fundamentals_def dict_get_def BTST_EXCLUDED_SECTORS_def
      example_formatter_def Let_def)

text \<open>
  C7.  The directional-gain band of the BTST policy, on the whole evaluation.  With a day
  change inside [2.0, 3.5] the evaluation returns the 30 points of the gain check plus
  the points of the checks that follow it, its reason begins with the note "ideal 2-3%"
  of the gain check, and it passes exactly when that sum reaches 60; it raises only when
  one of the following checks raises.  With a day change above 3.5 the same holds with
  15 points and the cautionary note "may be overbought".  With a day change below 2.0
  the evaluation returns at once with passed = false, score 0 and a reason that contains
  "below 2%", whatever the history frame and the fundamentals are, so no later check is
  evaluated.
\<close>

theorem btst_gain_band:
  "(cd_day_change_pct cd1 = Some d1 \<and> fle (Fin 2.0) d1 \<and> fle d1 (Fin 3.5) \<longrightarrow>
      check_btst_criteria F BTST cd1 h1 f1
        = (case btst_later_checks F BTST cd1 h1 f1 of
             Inl e \<Rightarrow> Inl e
           | Inr (points, notes) \<Rightarrow>
               Inr (60 \<le> 30 + points, 30 + points,
                    str_join ''; ''
                      ((check_mark @ '' Gain '' @ fixed F 1 d1 @ ''% (ideal 2-3%)'') # notes))))
   \<and> (cd_day_change_pct cd2 = Some d2 \<and> fgt d2 (Fin 3.5) \<longrightarrow>
      check_btst_criteria F BTST cd2 h2 f2
        = (case btst_later_checks F BTST cd2 h2 f2 of
             Inl e \<Rightarrow> Inl e
           | Inr (points, notes) \<Rightarrow>
               Inr (60 \<le> 15 + points, 15 + points,
                    str_join ''; ''
                      ((warn_mark @ '' Gain '' @ fixed F 1 d2 @ ''% (>3%, may be overbought)'') # notes))))
   \<and> (cd_day_change_pct cd3 = Some d3 \<and> flt d3 (Fin 2.0) \<longrightarrow>
      (\<exists>reason. check_btst_criteria F BTST cd3 h3 f3 = Inr (False, 0, reason)
                \<and> sublist ''below 2%'' reason))"
proof (intro conjI impI)
  assume a: "cd_day_change_pct cd3 = Some d3 \<and> flt d3 (Fin 2.0)"
  hence g: "btst_gain F BTST d3 = Inl [cross_mark @ '' Gain '' @ fixed F 1 d3 @ ''% (below 2%)'']"
    by (simp add: btst_gain_below)
  have s: "sublist ''below 2%'' ((cross_mark @ '' Gain '' @ fixed F 1 d3 @ ''% ('') @ ''below 2%'' @ '')'')"
    by (rule sublist_mid)
  have "check_btst_criteria F BTST cd3 h3 f3
          = Inr (False, 0, cross_mark @ '' Gain '' @ fixed F 1 d3 @ ''% (below 2%)'')"
    using a g by (simp add: check_btst_criteria_def dict_at_def)
  with s show "\<exists>reason. check_btst_criteria F BTST cd3 h3 f3 = Inr (False, 0, reason)
                      \<and> sublist ''below 2%'' reason" by simp
next
  assume a: "cd_day_change_pct cd1 = Some d1 \<and> fle (Fin 2.0) d1 \<and> fle d1 (Fin 3.5)"
  show "check_btst_criteria F BTST cd1 h1 f1
        = (case btst_later_checks F BTST cd1 h1 f1 of
             Inl e \<Rightarrow> Inl e
           | Inr (points, notes) \<Rightarrow>
               Inr (60 \<le> 30 + points, 30 + points,
                    str_join ''; ''
                      ((check_mark @ '' Gain '' @ fixed F 1 d1 @ ''% (ideal 2-3%)'') # notes)))"
    using a by (intro check_btst_after_gain[where d=d1] btst_gain_ideal) blast+
next
  assume a: "cd_day_change_pct cd2 = Some d2 \<and> fgt d2 (Fin 3.5)"
  show "check_btst_criteria F BTST cd2 h2 f2
        = (case btst_later_checks F BTST cd2 h2 f2 of
             Inl e \<Rightarrow> Inl e
           | Inr (points, notes) \<Rightarrow>
               Inr (60 \<le> 15 + points, 15 + points,
                    str_join ''; ''
                      ((warn_mark @ '' Gain '' @ fixed F 1 d2 @ ''% (>3%, may be overbought)'') # notes)))"
    using a by (intro check_btst_after_gain[where d=d2] btst_gain_above) blast+
qed

theorem btst_gain_band_witness:
  "(cd_day_change_pct (quote 2.5 95) = Some (Fin 2.5) \<and> fle (Fin 2.0) (Fin 2.5) \<and> fle (Fin 2.5) (Fin 3.5))
   \<and> (\<exists>reason. check_btst_criteria example_formatter BTST (quote 2.5 95) (Some strong_frame) no_fundamentals
         = Inr (True, 100, check_mark @ '' Gain #% (ideal 2-3%); '' @ reason))
   \<and> (cd_day_change_pct (quote 4 95) = Some (Fin 4) \<and> fgt (Fin 4) (Fin 3.5))
   \<and> (\<exists>reason. check_btst_criteria example_formatter BTST (quote 4 95) (Some strong_frame) no_fundamentals
         = Inr (True, 85, warn_mark @ '' Gain #% (>3%, may be overbought); '' @ reason))
   \<and> (cd_day_change_pct (quote 1.0 95) = Some (Fin 1.0) \<and> flt (Fin 1.0) (Fin 2.0))
   \<and> (\<exists>reason. check_btst_criteria example_formatter BTST (quote 1.0 95) (Some strong_frame) no_fundamentals
         = Inr (False, 0, reason) \<and> sublist ''below 2%'' reason)"
  using btst_gain_band [where ?cd1.0="quote 2.5 95" and ?d1.0="Fin 2.5" and F=example_formatter
      and ?h1.0="Some strong_frame" and ?f1.0=no_fundamentals
      and ?cd2.0="quote 4 95" and ?d2.0="Fin 4" and ?h2.0="Some strong_frame" and ?f2.0=no_fundamentals
      and ?cd3.0="quote 1.0 95" and ?d3.0="Fin 1.0" and ?h3.0="Some strong_frame" and ?f3.0=no_fundamentals]
  by (simp add: strong_later_checks) (simp add: quote_def example_formatter_def)

lemma btst_volume_full:
  assumes "rows df \<noteq> []" "''Volume_Ratio'' \<in> set (columns df)"
    and "fge (last (rows df) ''Volume_Ratio'') (Fin 1.5)"
  shows "btst_volume F BTST (Some df) st
         = Inr (fst st + 25, snd st @ [check_mark @ '' Volume '' @ fixed F 1 (last (rows df) ''Volume_Ratio'') @ ''x average''])"
proof -
  have "\<not> df_empty df" using assms(1,2) by (auto simp: df_empty_def)
  thus ?thesis using assms by (simp add: btst_volume_def iloc_last row_at_def BTST_def)
qed

lemma btst_trend_full:
  assumes "rows df \<noteq> []" "''EMA_20'' \<in> set (columns df)" "''Close'' \<in> set (columns df)"
    and "fgt (last (rows df) ''Close'') (last (rows df) ''EMA_20'')"
  shows "btst_trend (Some df) st = Inr (fst st + 15, snd st @ [check_mark @ '' Above 20 EMA (uptrend)''])"
  using assms by (simp add: btst_trend_def iloc_last row_at_def)

lemma btst_full_score:
  assumes "cd_day_change_pct cd = Some d" "fle (Fin 2.0) d" "fle d (Fin 3.5)"
    and "rows df \<noteq> []" "''Volume_Ratio'' \<in> set (columns df)"
    and "fge (last (rows df) ''Volume_Ratio'') (Fin 1.5)"
    and "cd_high_proximity_pct cd = Some h" "fge h (Fin 90)"
    and "''EMA_20'' \<in> set (columns df)" "''Close'' \<in> set (columns df)"
    and "fgt (last (rows df) ''Close'') (last (rows df) ''EMA_20'')"
    and "dict_get (f_sector fund) ''Unknown'' \<notin> set BTST_EXCLUDED_SECTORS"
  shows "\<exists>reason. check_btst_criteria F BTST cd (Some df) fund = Inr (True, 100, reason)"
  using assms
  by (simp add: check_btst_criteria_def dict_at_def btst_gain_ideal btst_volume_full
      btst_high_prox_def btst_trend_full btst_sector_def Let_def)

text \<open>
  C8.  The full-score scenario of the BTST policy: a day change of 2.5, a latest volume
  ratio of 1.8, a high proximity of 95, a latest close strictly above the latest 20-bar
  average and a sector that is not excluded give 30+25+20+15+10 = 100 points and
  passed = true.
\<close>

theorem btst_full_score_scenario:
  assumes "cd_day_change_pct cd = Some (Fin 2.5)"
    and "cd_high_proximity_pct cd = Some (Fin 95)"
    and "rows df \<noteq> []"
    and "''Volume_Ratio'' \<in> set (columns df)" "''EMA_20'' \<in> set (columns df)"
        "''Close'' \<in> set (columns df)"
    and "last (rows df) ''Volume_Ratio'' = Fin 1.8"
    and "fgt (last (rows df) ''Close'') (last (rows df) ''EMA_20'')"
    and "dict_get (f_sector fund) ''Unknown'' \<notin> set BTST_EXCLUDED_SECTORS"
  shows "\<exists>reason. check_btst_criteria F BTST cd (Some df) fund = Inr (True, 30 + 25 + 20 + 15 + 10, reason)"
  using btst_full_score [of cd "Fin 2.5" df "Fin 95" fund F] assms by simp

theorem btst_full_score_scenario_witness:
  "cd_day_change_pct (quote 2.5 95) = Some (Fin 2.5)
   \<and> cd_high_proximity_pct (quote 2.5 95) = Some (Fin 95)
   \<and> rows strong_frame \<noteq> []
   \<and> ''Volume_Ratio'' \<in> set (columns strong_frame) \<and> ''EMA_20'' \<in> set (columns strong_frame)
   \<and> ''Close'' \<in> set (columns strong_frame)
   \<and> last (rows strong_frame) ''Volume_Ratio'' = Fin 1.8
   \<and> fgt (last (rows strong_frame) ''Close'') (last (rows strong_frame) ''EMA_20'')
   \<and> dict_get (f_sector no_fundamentals) ''Unknown'' \<notin> set BTST_EXCLUDED_SECTORS
   \<and> (\<exists>reason. check_btst_criteria example_formatter BTST (quote 2.5 95) (Some strong_frame) no_fundamentals
          = Inr (True, 100, reason))"
  using btst_full_score_scenario [of "quote 2.5 95" strong_frame no_fundamentals example_formatter]
  by (simp add: quote_def strong_frame_def strong_bar_def no_fundamentals_def dict_get_def
      BTST_EXCLUDED_SECTORS_def)

text \<open>
  Without indicators (no frame, or a frame without the \<open>EMA_20\<close> column that is empty or
  has no \<open>Volume_Ratio\<close> column) a day change of at least 2.0 gives at most 60 points, and
  the evaluation passes exactly when the gain, high-proximity and sector checks all award
  their full points.
\<close>

lemma btst_volume_skipped:
  "hdf = None \<or> (\<exists>df. hdf = Some df \<and> (df_empty df \<or> ''Volume_Ratio'' \<notin> set (columns df)))
     \<Longrightarrow> btst_volume F crit hdf st = Inr st"
  by (auto simp: btst_volume_def df_empty_def iloc_last)

lemma btst_trend_skipped:
  "hdf = None \<or> (\<exists>df. hdf = Some df \<and> ''EMA_20'' \<notin> set (columns df))
     \<Longrightarrow> btst_trend hdf st = Inr st"
  by (auto simp: btst_trend_def)

lemma btst_without_indicators:
  assumes "cd_day_change_pct cd = Some d" "fle (Fin 2.0) d" "cd_high_proximity_pct cd = Some h"
    and "hdf = None \<or> (\<exists>df. hdf = Some df \<and> ''EMA_20'' \<notin> set (columns df)
                          \<and> (df_empty df \<or> ''Volume_Ratio'' \<notin> set (columns df)))"
  shows "\<exists>s r. check_btst_criteria F BTST cd hdf fund
            = Inr (fle d (Fin 3.5) \<and> fge h (Fin 90)
                     \<and> dict_get (f_sector fund) ''Unknown'' \<notin> set BTST_EXCLUDED_SECTORS, s, r)
          \<and> s \<le> 60"
proof -
  have v: "btst_volume F BTST hdf st = Inr st" for st
    using assms(4) by (intro btst_volume_skipped) blast
  have t: "btst_trend hdf st = Inr st" for st
    using assms(4) by (intro btst_trend_skipped) blast
  have g: "btst_gain F BTST d = Inr (if fle d (Fin 3.5) then 30 else 15,
             [if fle d (Fin 3.5) then check_mark @ '' Gain '' @ fixed F 1 d @ ''% (ideal 2-3%)''
              else warn_mark @ '' Gain '' @ fixed F 1 d @ ''% (>3%, may be overbought)''])"
    using assms(2) by (cases d) (auto simp: btst_gain_def BTST_def)
  show ?thesis
    by (auto simp add: check_btst_criteria_def dict_at_def assms(1,3) g v t btst_high_prox_def
        btst_sector_def Let_def)
qed

text \<open>
  C10.  A BTST evaluation on a frame that has no bar but does have the \<open>EMA_20\<close> column:
  the day change 2.5 passes the gain band, the volume check is skipped because the frame
  is empty, and the trend check, which tests only for the column, reads the last bar and
  raises IndexError.
\<close>

theorem btst_trend_raises_on_barless_frame:
  "check_btst_criteria example_formatter BTST (quote 2.5 95) (Some barless_frame) no_fundamentals
     = Inl IndexError"
  by (simp add: check_btst_criteria_def dict_at_def quote_def barless_frame_def btst_gain_def
      BTST_def btst_volume_def df_empty_def btst_trend_def iloc_neg_def)
section \<open>Reading the last two bars\<close>

lemma iloc_prev: "2 \<le> length (rows df) \<Longrightarrow> iloc_neg df 2 = Inr (prev_bar df)"
  by (simp add: iloc_neg_def prev_bar_def)

lemma iloc_latest: "1 \<le> length (rows df) \<Longrightarrow> iloc_neg df (Suc 0) = Inr (latest_bar df)"
  by (cases "rows df") (simp_all add: iloc_neg_def latest_bar_def)

lemma enough_historyD:
  assumes "enough_history df"
  shows "iloc_neg df (Suc 0) = Inr (latest_bar df)" "iloc_neg df 2 = Inr (prev_bar df)"
    "\<not> df_empty df" "\<not> df_len df < 50"
  using assms by (auto simp: enough_history_def df_empty_def df_len_def iloc_latest iloc_prev)

section \<open>Entry types\<close>

lemma entry_award [simp]: "entry_type (award p r st) = entry_type st"
  by (simp add: award_def)

lemma entry_swing_trend [simp]: "entry_type (swing_trend c a b d st) = entry_type st"
  by (simp add: swing_trend_def Let_def)

lemma entry_au_trend [simp]: "entry_type (au_trend c a b d st) = entry_type st"
  by (simp add: au_trend_def Let_def)

lemma entry_swing_rsi:
  "entry_type (swing_rsi F crit rsi st)
     = (if \<not> (fle (Fin (rsi_min crit)) rsi \<and> fle rsi (Fin (rsi_max crit)))
           \<and> flt (Fin 30) rsi \<and> flt rsi (Fin 40) then ''pullback'' else entry_type st)"
  by (auto simp add: swing_rsi_def)

lemma entry_au_rsi:
  "entry_type (au_rsi F crit rsi st)
     = (if \<not> (fle (Fin (au_rsi_min crit)) rsi \<and> fle rsi (Fin (au_rsi_max crit)))
           \<and> flt (Fin 30) rsi \<and> flt rsi (Fin 35) then ''pullback'' else entry_type st)"
  by (auto simp add: au_rsi_def)

lemma entry_au_52w [simp]: "entry_type (au_52w F crit v st) = entry_type st"
  by (simp add: au_52w_def)

lemma entry_swing_macd:
  "entry_type (swing_macd m s h ph st)
     = (if fgt m s \<and> fgt h (Fin 0) \<and> fle ph (Fin 0) then ''macd_cross'' else entry_type st)"
  by (simp add: swing_macd_def Let_def)

lemma entry_au_macd:
  "entry_type (au_macd m s h ph st)
     = (if fgt m s \<and> fgt h (Fin 0) \<and> fle ph (Fin 0) then ''macd_cross'' else entry_type st)"
  by (simp add: au_macd_def Let_def)

lemma entry_swing_volume [simp]: "entry_type (swing_volume F crit v st) = entry_type st"
  by (simp add: swing_volume_def)

lemma entry_au_volume [simp]: "entry_type (au_volume F crit v st) = entry_type st"
  by (simp add: au_volume_def)

lemma entry_swing_sector [simp]: "entry_type (swing_sector s st) = entry_type st"
  by (simp add: swing_sector_def)

lemma entry_au_sector [simp]: "entry_type (au_sector F s w st) = entry_type st"
  by (simp add: au_sector_def)

lemma entry_detect:
  "entry_type (detect_entry_type close ema_20 ema_50 vr pe20 pe50 st)
     = (if entry_type st = ''none''
        then (if fgt close (fmul ema_20 (Fin 1.02)) \<and> fgt vr (Fin 1.5) then ''breakout''
              else if fgt ema_20 ema_50 \<and> fle pe20 pe50 then ''ma_cross'' else ''trend_follow'')
        else entry_type st)"
  by (simp add: detect_entry_type_def)

text \<open>The entry type the two checklists end with, for any thresholds.\<close>

lemma swing_checklist_entry_type:
  "entry_type (swing_checklist F crit df l p c mc de roe sector)
     = (if fgt (row_get df l ''MACD'' (Fin 0)) (row_get df l ''MACD_Signal'' (Fin 0))
           \<and> fgt (row_get df l ''MACD_Hist'' (Fin 0)) (Fin 0)
           \<and> fle (row_get df p ''MACD_Hist'' (Fin 0)) (Fin 0) then ''macd_cross''
        else if \<not> (fle (Fin (rsi_min crit)) (row_get df l ''RSI'' (Fin 50))
                    \<and> fle (row_get df l ''RSI'' (Fin 50)) (Fin (rsi_max crit)))
                \<and> flt (Fin 30) (row_get df l ''RSI'' (Fin 50))
                \<and> flt (row_get df l ''RSI'' (Fin 50)) (Fin 40) then ''pullback''
        else if fgt c (fmul (row_get df l ''EMA_20'' (Fin 0)) (Fin 1.02))
                \<and> fgt (row_get df l ''Volume_Ratio'' (Fin 1.0)) (Fin 1.5) then ''breakout''
        else if fgt (row_get df l ''EMA_20'' (Fin 0)) (row_get df l ''EMA_50'' (Fin 0))
                \<and> fle (row_get df p ''EMA_20'' (Fin 0)) (row_get df p ''EMA_50'' (Fin 0)) then ''ma_cross''
        else ''trend_follow'')"
  by (auto simp add: swing_checklist_def Let_def entry_detect entry_swing_macd entry_swing_rsi)

lemma au_checklist_entry_type:
  "entry_type (au_checklist F crit df l p c mc de roe sector)
     = (if fgt (row_get df l ''MACD'' (Fin 0)) (row_get df l ''MACD_Signal'' (Fin 0))
           \<and> fgt (row_get df l ''MACD_Hist'' (Fin 0)) (Fin 0)
           \<and> fle (row_get df p ''MACD_Hist'' (Fin 0)) (Fin 0) then ''macd_cross''
        else if \<not> (fle (Fin (au_rsi_min crit)) (row_get df l ''RSI'' (Fin 50))
                    \<and> fle (row_get df l ''RSI'' (Fin 50)) (Fin (au_rsi_max crit)))
                \<and> flt (Fin 30) (row_get df l ''RSI'' (Fin 50))
                \<and> flt (row_get df l ''RSI'' (Fin 50)) (Fin 35) then ''pullback''
        else if fgt c (fmul (row_get df l ''EMA_20'' (Fin 0)) (Fin 1.02))
                \<and> fgt (row_get df l ''Volume_Ratio'' (Fin 1.0)) (Fin 1.5) then ''breakout''
        else if fgt (row_get df l ''EMA_20'' (Fin 0)) (row_get df l ''EMA_50'' (Fin 0))
                \<and> fle (row_get df p ''EMA_20'' (Fin 0)) (row_get df p ''EMA_50'' (Fin 0)) then ''ma_cross''
        else ''trend_follow'')"
  by (auto simp add: au_checklist_def Let_def entry_detect entry_au_macd entry_au_rsi)

lemma swing_checklist_classified: "entry_type (swing_checklist F crit df l p c mc de roe sector) \<in> entry_types"
  by (simp add: swing_checklist_entry_type entry_types_def)

lemma au_checklist_classified: "entry_type (au_checklist F crit df l p c mc de roe sector) \<in> entry_types"
  by (simp add: au_checklist_entry_type entry_types_def)

lemma swing_checklist_by_priority:
  "entry_type (swing_checklist F SWING df (latest_bar df) (prev_bar df) (latest_bar df ''Close'') mc de roe sector)
     = entry_type_by_priority 40 df"
  by (auto simp add: swing_checklist_entry_type entry_type_by_priority_def macd_fresh_cross_def
        rsi_in_pullback_band_def breakout_setup_def ma_crossover_def SWING_def flt_not_fle)

lemma au_checklist_by_priority:
  "entry_type (au_checklist F AU_SWING df (latest_bar df) (prev_bar df) (latest_bar df ''Close'') mc de roe sector)
     = entry_type_by_priority 35 df"
  by (auto simp add: au_checklist_entry_type entry_type_by_priority_def macd_fresh_cross_def
        rsi_in_pullback_band_def breakout_setup_def ma_crossover_def AU_SWING_def flt_not_fle)

lemma check_swing_run:
  assumes "enough_history df" "''Close'' \<in> set (columns df)"
    and "passes_gates (min_market_cap crit) (max_debt_to_equity crit) (min_roe crit) fund"
  shows "check_swing_criteria F crit (Some df) fund
     = (let st = swing_checklist F crit df (latest_bar df) (prev_bar df) (latest_bar df ''Close'')
                   (dict_get (f_market_cap fund) (Fin 0)) (dict_get (f_debt_to_equity fund) (Fin 999))
                   (dict_get (f_roe fund) (Fin 0)) (dict_get (f_sector fund) ''Unknown'')
        in Inr (65 \<le> score st, score st, entry_type st, str_join ''; '' (reasons st)))"
  using assms(2,3)
  by (simp add: check_swing_criteria_def enough_historyD[OF assms(1)] passes_gates_def row_at_def Let_def)

lemma au_check_swing_run:
  assumes "enough_history df" "''Close'' \<in> set (columns df)"
    and "passes_gates (au_min_market_cap crit) (au_max_debt_to_equity crit) (au_min_roe crit) fund"
  shows "au_check_swing_criteria F crit (Some df) fund
     = (let st = au_checklist F crit df (latest_bar df) (prev_bar df) (latest_bar df ''Close'')
                   (dict_get (f_market_cap fund) (Fin 0)) (dict_get (f_debt_to_equity fund) (Fin 999))
                   (dict_get (f_roe fund) (Fin 0)) (dict_get (f_sector fund) ''Unknown'');
            w = au_sector_weight crit (dict_get (f_sector fund) ''Unknown'')
        in Inr (60 \<le> score st, of_int (score st) * w, entry_type st, str_join ''; '' (reasons st), w))"
  using assms(2,3)
  by (simp add: au_check_swing_criteria_def enough_historyD[OF assms(1)] passes_gates_def row_at_def Let_def)

text \<open>Whatever the input, a result with a non-empty entry type went through the whole checklist.\<close>

lemma check_swing_classified:
  assumes "entry_type_of (check_swing_criteria F crit hdf fund) = Some et" "et \<noteq> ''''"
  obtains df where "hdf = Some df" "enough_history df" "''Close'' \<in> set (columns df)"
    "passes_gates (min_market_cap crit) (max_debt_to_equity crit) (min_roe crit) fund"
proof (cases hdf)
  case None
  with assms show ?thesis by (simp add: check_swing_criteria_def entry_type_of_def)
next
  case (Some df)
  have e: "enough_history df"
    using assms Some
    by (auto simp: check_swing_criteria_def entry_type_of_def enough_history_def df_empty_def df_len_def
        split: if_splits)
  have g: "passes_gates (min_market_cap crit) (max_debt_to_equity crit) (min_roe crit) fund"
    using assms Some
    by (auto simp: check_swing_criteria_def entry_type_of_def enough_historyD[OF e] passes_gates_def Let_def
        split: if_splits)
  have c: "''Close'' \<in> set (columns df)"
    using assms Some g
    by (auto simp: check_swing_criteria_def entry_type_of_def enough_historyD[OF e] passes_gates_def Let_def
        row_at_def split: if_splits)
  from Some e c g show ?thesis by (rule that)
qed

lemma au_check_swing_classified:
  assumes "entry_type_of (au_check_swing_criteria F crit hdf fund) = Some et" "et \<noteq> ''''"
  obtains df where "hdf = Some df" "enough_history df" "''Close'' \<in> set (columns df)"
    "passes_gates (au_min_market_cap crit) (au_max_debt_to_equity crit) (au_min_roe crit) fund"
proof (cases hdf)
  case None
  with assms show ?thesis by (simp add: au_check_swing_criteria_def entry_type_of_def)
next
  case (Some df)
  have e: "enough_history df"
    using assms Some
    by (auto simp: au_check_swing_criteria_def entry_type_of_def enough_history_def df_empty_def df_len_def
        split: if_splits)
  have g: "passes_gates (au_min_market_cap crit) (au_max_debt_to_equity crit) (au_min_roe crit) fund"
    using assms Some
    by (auto simp: au_check_swing_criteria_def entry_type_of_def enough_historyD[OF e] passes_gates_def Let_def
        split: if_splits)
  have c: "''Close'' \<in> set (columns df)"
    using assms Some g
    by (auto simp: au_check_swing_criteria_def entry_type_of_def enough_historyD[OF e] passes_gates_def Let_def
        row_at_def split: if_splits)
  from Some e c g show ?thesis by (rule that)
qed

lemma check_swing_passed:
  assumes "passed (check_swing_criteria F crit hdf fund)"
  obtains df where "hdf = Some df" "enough_history df" "''Close'' \<in> set (columns df)"
    "passes_gates (min_market_cap crit) (max_debt_to_equity crit) (min_roe crit) fund"
proof (cases hdf)
  case None
  with assms show ?thesis by (simp add: check_swing_criteria_def passed_def)
next
  case (Some df)
  have e: "enough_history df"
    using assms Some
    by (auto simp: check_swing_criteria_def passed_def enough_history_def df_empty_def df_len_def
        split: if_splits)
  have g: "passes_gates (min_market_cap crit) (max_debt_to_equity crit) (min_roe crit) fund"
    using assms Some
    by (auto simp: check_swing_criteria_def passed_def enough_historyD[OF e] passes_gates_def Let_def
        split: if_splits)
  have c: "''Close'' \<in> set (columns df)"
    using assms Some g
    by (auto simp: check_swing_criteria_def passed_def enough_historyD[OF e] passes_gates_def Let_def
        row_at_def split: if_splits)
  from Some e c g show ?thesis by (rule that)
qed

lemma au_check_swing_passed:
  assumes "passed (au_check_swing_criteria F crit hdf fund)"
  obtains df where "hdf = Some df" "enough_history df" "''Close'' \<in> set (columns df)"
    "passes_gates (au_min_market_cap crit) (au_max_debt_to_equity crit) (au_min_roe crit) fund"
proof (cases hdf)
  case None
  with assms show ?thesis by (simp add: au_check_swing_criteria_def passed_def)
next
  case (Some df)
  have e: "enough_history df"
    using assms Some
    by (auto simp: au_check_swing_criteria_def passed_def enough_history_def df_empty_def df_len_def
        split: if_splits)
  have g: "passes_gates (au_min_market_cap crit) (au_max_debt_to_equity crit) (au_min_roe crit) fund"
    using assms Some
    by (auto simp: au_check_swing_criteria_def passed_def enough_historyD[OF e] passes_gates_def Let_def
        split: if_splits)
  have c: "''Close'' \<in> set (columns df)"
    using assms Some g
    by (auto simp: au_check_swing_criteria_def passed_def enough_historyD[OF e] passes_gates_def Let_def
        row_at_def split: if_splits)
  from Some e c g show ?thesis by (rule that)
qed

text \<open>The entry type of an evaluation that reaches the checklist, under the default thresholds.\<close>

lemma check_swing_entry_type:
  assumes "enough_history df" "''Close'' \<in> set (columns df)" "passes_gates 5000 0.5 15 fund"
  shows "entry_type_of (check_swing_criteria F SWING (Some df) fund) = Some (entry_type_by_priority 40 df)"
proof -
  have "passes_gates (min_market_cap SWING) (max_debt_to_equity SWING) (min_roe SWING) fund"
    using assms(3) by (simp add: SWING_def)
  from check_swing_run[OF assms(1,2) this] show ?thesis
    by (simp add: Let_def entry_type_of_def swing_checklist_by_priority)
qed

lemma au_check_swing_entry_type:
  assumes "enough_history df" "''Close'' \<in> set (columns df)" "passes_gates 50000 1.0 10 fund"
  shows "entry_type_of (au_check_swing_criteria F AU_SWING (Some df) fund) = Some (entry_type_by_priority 35 df)"
proof -
  have "passes_gates (au_min_market_cap AU_SWING) (au_max_debt_to_equity AU_SWING) (au_min_roe AU_SWING) fund"
    using assms(3) by (simp add: AU_SWING_def)
  from au_check_swing_run[OF assms(1,2) this] show ?thesis
    by (simp add: Let_def entry_type_of_def au_checklist_by_priority)
qed

lemma by_priority_classified: "entry_type_by_priority upper df \<in> entry_types"
  by (simp add: entry_type_by_priority_def entry_types_def)

lemma passed_swing_classified:
  assumes "passed (check_swing_criteria F crit hdf fund)"
  shows "\<exists>et \<in> entry_types. entry_type_of (check_swing_criteria F crit hdf fund) = Some et"
proof -
  from assms obtain df where d: "hdf = Some df" "enough_history df" "''Close'' \<in> set (columns df)"
    "passes_gates (min_market_cap crit) (max_debt_to_equity crit) (min_roe crit) fund"
    by (rule check_swing_passed)
  show ?thesis
    unfolding d(1) check_swing_run[OF d(2,3,4)]
    by (simp add: Let_def entry_type_of_def swing_checklist_classified)
qed

lemma passed_au_swing_classified:
  assumes "passed (au_check_swing_criteria F crit hdf fund)"
  shows "\<exists>et \<in> entry_types. entry_type_of (au_check_swing_criteria F crit hdf fund) = Some et"
proof -
  from assms obtain df where d: "hdf = Some df" "enough_history df" "''Close'' \<in> set (columns df)"
    "passes_gates (au_min_market_cap crit) (au_max_debt_to_equity crit) (au_min_roe crit) fund"
    by (rule au_check_swing_passed)
  show ?thesis
    unfolding d(1) au_check_swing_run[OF d(2,3,4)]
    by (simp add: Let_def entry_type_of_def au_checklist_classified)
qed

text \<open>The example frames.\<close>

lemma history_simps [simp]:
  "latest_bar (history p l) = l" "prev_bar (history p l) = p" "enough_history (history p l)"
  "columns (history p l) = swing_columns" "rows (history p l) \<noteq> []"
  by (simp_all add: latest_bar_def prev_bar_def enough_history_def history_def swing_columns_def
      nth_append)

lemma sound_fundamentals_gates:
  "passes_gates 5000 0.5 15 (sound_fundamentals s)" "passes_gates 50000 1.0 10 (sound_fundamentals s)"
  "passes_gates (min_market_cap SWING) (max_debt_to_equity SWING) (min_roe SWING) (sound_fundamentals s)"
  "passes_gates (au_min_market_cap AU_SWING) (au_max_debt_to_equity AU_SWING) (au_min_roe AU_SWING)
     (sound_fundamentals s)"
  by (simp_all add: passes_gates_def sound_fundamentals_def dict_get_def SWING_def AU_SWING_def)

lemma close_in_swing_columns [simp]: "''Close'' \<in> set swing_columns"
  by (simp add: swing_columns_def)
lemma outcome_Inr:
  "outcome res = Inr (p, s, e) \<Longrightarrow> passed res = p \<and> score_of res = Some s \<and> entry_type_of res = Some e"
  by (cases res) (auto simp: outcome_def passed_def score_of_def entry_type_of_def)

lemmas swing_step_defs = swing_checklist_def swing_trend_def swing_rsi_def swing_macd_def
  swing_volume_def swing_sector_def detect_entry_type_def award_def SWING_def
  SWING_PREFERRED_SECTORS_def row_get_def swing_columns_def bar_def sound_fundamentals_def
  dict_get_def Let_def

lemmas au_step_defs = au_checklist_def au_trend_def au_rsi_def au_52w_def au_macd_def
  au_volume_def au_sector_def au_sector_weight_def detect_entry_type_def award_def AU_SWING_def
  row_get_def swing_columns_def bar_def sound_fundamentals_def dict_get_def Let_def

lemma india_pullback_and_cross:
  "outcome (check_swing_criteria example_formatter SWING
      (Some (history falling_hist_bar pullback_and_cross_bar)) (sound_fundamentals ''BANKS''))
   = Inr (True, 90, ''macd_cross'')"
  unfolding check_swing_run[OF history_simps(3) _ sound_fundamentals_gates(3), simplified]
  by (simp add: outcome_def swing_step_defs pullback_and_cross_bar_def falling_hist_bar_def)

lemma au_pullback_and_cross:
  "outcome (au_check_swing_criteria example_formatter AU_SWING
      (Some (history falling_hist_bar pullback_and_cross_bar)) (sound_fundamentals ''BANKS''))
   = Inr (True, 95, ''macd_cross'')"
  unfolding au_check_swing_run[OF history_simps(3) _ sound_fundamentals_gates(4), simplified]
  by (simp add: outcome_def au_step_defs pullback_and_cross_bar_def falling_hist_bar_def)

lemma india_zero_hist:
  "outcome (check_swing_criteria example_formatter SWING
      (Some (history falling_hist_bar zero_hist_bar)) (sound_fundamentals ''BANKS''))
   = Inr (True, 80, ''trend_follow'')"
  unfolding check_swing_run[OF history_simps(3) _ sound_fundamentals_gates(3), simplified]
  by (simp add: outcome_def swing_step_defs zero_hist_bar_def falling_hist_bar_def)

lemma india_no_fresh_cross:
  "outcome (check_swing_criteria example_formatter SWING
      (Some (history pullback_and_cross_bar pullback_and_cross_bar)) (sound_fundamentals ''BANKS''))
   = Inr (True, 90, ''pullback'')"
  unfolding check_swing_run[OF history_simps(3) _ sound_fundamentals_gates(3), simplified]
  by (simp add: outcome_def swing_step_defs pullback_and_cross_bar_def)

lemma au_no_fresh_cross:
  "outcome (au_check_swing_criteria example_formatter AU_SWING
      (Some (history pullback_and_cross_bar pullback_and_cross_bar)) (sound_fundamentals ''BANKS''))
   = Inr (True, 95, ''trend_follow'')"
  unfolding au_check_swing_run[OF history_simps(3) _ sound_fundamentals_gates(4), simplified]
  by (simp add: outcome_def au_step_defs pullback_and_cross_bar_def)

lemma example_setups:
  "rsi_in_pullback_band 40 (history falling_hist_bar pullback_and_cross_bar)"
  "macd_fresh_cross (history falling_hist_bar pullback_and_cross_bar)"
  "fgt (row_get (history pullback_and_cross_bar pullback_and_cross_bar)
          (prev_bar (history pullback_and_cross_bar pullback_and_cross_bar)) ''MACD_Hist'' (Fin 0)) (Fin 0)"
  "fge (row_get (history falling_hist_bar zero_hist_bar)
          (latest_bar (history falling_hist_bar zero_hist_bar)) ''MACD_Hist'' (Fin 0)) (Fin 0)"
  "fle (row_get (history falling_hist_bar zero_hist_bar)
          (prev_bar (history falling_hist_bar zero_hist_bar)) ''MACD_Hist'' (Fin 0)) (Fin 0)"
  by (simp_all add: rsi_in_pullback_band_def macd_fresh_cross_def row_get_def swing_columns_def bar_def
      pullback_and_cross_bar_def falling_hist_bar_def zero_hist_bar_def)

text \<open>
  C1.  Entry-type classification of the two swing policies, as the code orders it.  For
  an evaluation that reaches the checklist (at least fifty bars, a \<open>Close\<close> column, the
  fundamental gates passed) the entry type is: \<open>macd_cross\<close> on a fresh bullish MACD
  crossover (this assignment comes after the RSI check and overwrites \<open>pullback\<close>);
  otherwise \<open>pullback\<close> when the RSI lies strictly between 30 and the lower end of the
  ideal band (40 in India, 35 in Australia); otherwise \<open>breakout\<close> when the close exceeds
  the short average by more than 2% and the volume ratio exceeds 1.5; otherwise
  \<open>ma_cross\<close> when the short average newly exceeds the medium one; otherwise
  \<open>trend_follow\<close>.  Whatever the thresholds and the input, an evaluation that passed
  carries one of these five entry types, never \<open>none\<close> or the empty string.
\<close>

theorem entry_type_classification:
  "(enough_history df \<and> ''Close'' \<in> set (columns df) \<and> passes_gates 5000 0.5 15 fund \<longrightarrow>
      entry_type_of (check_swing_criteria F SWING (Some df) fund) = Some (entry_type_by_priority 40 df))
   \<and> (enough_history df \<and> ''Close'' \<in> set (columns df) \<and> passes_gates 50000 1.0 10 fund \<longrightarrow>
      entry_type_of (au_check_swing_criteria F AU_SWING (Some df) fund) = Some (entry_type_by_priority 35 df))
   \<and> (passed (check_swing_criteria F crit hdf fund') \<longrightarrow>
      entry_type_of (check_swing_criteria F crit hdf fund') \<in> Some ` entry_types)
   \<and> (passed (au_check_swing_criteria F crit' hdf fund') \<longrightarrow>
      entry_type_of (au_check_swing_criteria F crit' hdf fund') \<in> Some ` entry_types)"
  using passed_swing_classified[of F crit hdf fund'] passed_au_swing_classified[of F crit' hdf fund']
  by (auto simp add: check_swing_entry_type au_check_swing_entry_type)

theorem entry_type_classification_witness:
  "enough_history (history falling_hist_bar pullback_and_cross_bar)
   \<and> ''Close'' \<in> set (columns (history falling_hist_bar pullback_and_cross_bar))
   \<and> passes_gates 5000 0.5 15 (sound_fundamentals ''BANKS'')
   \<and> passes_gates 50000 1.0 10 (sound_fundamentals ''BANKS'')
   \<and> passed (check_swing_criteria example_formatter SWING
        (Some (history falling_hist_bar pullback_and_cross_bar)) (sound_fundamentals ''BANKS''))
   \<and> passed (au_check_swing_criteria example_formatter AU_SWING
        (Some (history falling_hist_bar pullback_and_cross_bar)) (sound_fundamentals ''BANKS''))
   \<and> entry_type_by_priority 40 (history falling_hist_bar pullback_and_cross_bar) = ''macd_cross''
   \<and> entry_type_by_priority 35 (history falling_hist_bar pullback_and_cross_bar) = ''macd_cross''
   \<and> entry_type_of (check_swing_criteria example_formatter SWING
        (Some (history falling_hist_bar pullback_and_cross_bar)) (sound_fundamentals ''BANKS''))
       \<in> Some ` entry_types"
  using entry_type_classification [of "history falling_hist_bar pullback_and_cross_bar"
      "sound_fundamentals ''BANKS''" example_formatter SWING
      "Some (history falling_hist_bar pullback_and_cross_bar)" "sound_fundamentals ''BANKS''" AU_SWING]
    outcome_Inr[OF india_pullback_and_cross] outcome_Inr[OF au_pullback_and_cross]
    sound_fundamentals_gates(1,2)[of "''BANKS''"]
  by auto

text \<open>
  C1 as stated fails: with an RSI of 35 inside the Indian pullback band and a histogram
  that turns positive on the same bar, the entry type returned is \<open>macd_cross\<close>.
\<close>

theorem pullback_overridden_by_macd_cross:
  "rsi_in_pullback_band 40 (history falling_hist_bar pullback_and_cross_bar)
   \<and> outcome (check_swing_criteria example_formatter SWING
        (Some (history falling_hist_bar pullback_and_cross_bar)) (sound_fundamentals ''BANKS''))
     = Inr (True, 90, ''macd_cross'')"
  using india_pullback_and_cross example_setups(1) by simp

lemma by_priority_macd_iff: "(entry_type_by_priority upper df = ''macd_cross'') = macd_fresh_cross df"
  by (simp add: entry_type_by_priority_def)

lemma macd_cross_needs_fresh:
  assumes "entry_type_of (check_swing_criteria F crit (Some df) fund) = Some ''macd_cross''"
  shows "macd_fresh_cross df"
proof -
  from assms obtain df' where d: "Some df = Some df'" "enough_history df'" "''Close'' \<in> set (columns df')"
    "passes_gates (min_market_cap crit) (max_debt_to_equity crit) (min_roe crit) fund"
    by (rule check_swing_classified) simp
  hence [simp]: "df' = df" by simp
  from assms show ?thesis
    unfolding check_swing_run[OF d(2,3,4), simplified]
    by (simp add: Let_def entry_type_of_def swing_checklist_entry_type macd_fresh_cross_def
        split: if_splits)
qed

lemma au_macd_cross_needs_fresh:
  assumes "entry_type_of (au_check_swing_criteria F crit (Some df) fund) = Some ''macd_cross''"
  shows "macd_fresh_cross df"
proof -
  from assms obtain df' where d: "Some df = Some df'" "enough_history df'" "''Close'' \<in> set (columns df')"
    "passes_gates (au_min_market_cap crit) (au_max_debt_to_equity crit) (au_min_roe crit) fund"
    by (rule au_check_swing_classified) simp
  hence [simp]: "df' = df" by simp
  from assms show ?thesis
    unfolding au_check_swing_run[OF d(2,3,4), simplified]
    by (simp add: Let_def entry_type_of_def au_checklist_entry_type macd_fresh_cross_def
        split: if_splits)
qed

lemma fresh_cross_needs_prev_nonpositive:
  "fgt (row_get df (prev_bar df) ''MACD_Hist'' (Fin 0)) (Fin 0) \<Longrightarrow> \<not> macd_fresh_cross df"
  by (auto simp: macd_fresh_cross_def dest: flt_not_fle)

lemma fresh_cross_not_repeated:
  assumes "rows df \<noteq> []" "macd_fresh_cross df"
  shows "\<not> macd_fresh_cross (df\<lparr>rows := rows df @ [b]\<rparr>)"
proof -
  have "prev_bar (df\<lparr>rows := rows df @ [b]\<rparr>) = latest_bar df"
    using assms(1) by (cases "rows df" rule: rev_cases) (simp_all add: prev_bar_def latest_bar_def nth_append)
  moreover have "fgt (row_get df (latest_bar df) ''MACD_Hist'' (Fin 0)) (Fin 0)"
    using assms(2) by (simp add: macd_fresh_cross_def)
  ultimately have "fgt (row_get (df\<lparr>rows := rows df @ [b]\<rparr>) (prev_bar (df\<lparr>rows := rows df @ [b]\<rparr>))
      ''MACD_Hist'' (Fin 0)) (Fin 0)"
    by (simp add: row_get_def)
  thus ?thesis by (rule fresh_cross_needs_prev_nonpositive)
qed

text \<open>
  C6.  Where the code flags a fresh bullish MACD crossover.  For an evaluation that reaches
  the checklist, the entry type is \<open>macd_cross\<close> exactly when, on the latest bar, the MACD
  line is above its signal line and the histogram is strictly positive, and the histogram
  of the bar before was zero or negative.  Whatever the input, \<open>macd_cross\<close> is never
  assigned when the previous histogram was already positive, and a crossover flagged on
  one bar is not flagged again when the next bar is appended.
\<close>

theorem macd_cross_flagging:
  "(enough_history df \<and> ''Close'' \<in> set (columns df) \<and> passes_gates 5000 0.5 15 fund \<longrightarrow>
      (entry_type_of (check_swing_criteria F SWING (Some df) fund) = Some ''macd_cross'')
        = macd_fresh_cross df)
   \<and> (enough_history df \<and> ''Close'' \<in> set (columns df) \<and> passes_gates 50000 1.0 10 fund \<longrightarrow>
      (entry_type_of (au_check_swing_criteria F AU_SWING (Some df) fund) = Some ''macd_cross'')
        = macd_fresh_cross df)
   \<and> (fgt (row_get df' (prev_bar df') ''MACD_Hist'' (Fin 0)) (Fin 0) \<longrightarrow>
      entry_type_of (check_swing_criteria F crit (Some df') fund') \<noteq> Some ''macd_cross''
      \<and> entry_type_of (au_check_swing_criteria F crit' (Some df') fund') \<noteq> Some ''macd_cross'')
   \<and> (rows df'' \<noteq> [] \<and> macd_fresh_cross df'' \<longrightarrow>
      \<not> macd_fresh_cross (df''\<lparr>rows := rows df'' @ [b]\<rparr>))"
  using macd_cross_needs_fresh[of F crit df' fund'] au_macd_cross_needs_fresh[of F crit' df' fund']
    fresh_cross_needs_prev_nonpositive[of df'] fresh_cross_not_repeated[of df'' b]
  by (auto simp add: check_swing_entry_type au_check_swing_entry_type by_priority_macd_iff)

theorem macd_cross_flagging_witness:
  "enough_history (history falling_hist_bar pullback_and_cross_bar)
   \<and> ''Close'' \<in> set (columns (history falling_hist_bar pullback_and_cross_bar))
   \<and> passes_gates 5000 0.5 15 (sound_fundamentals ''BANKS'')
   \<and> passes_gates 50000 1.0 10 (sound_fundamentals ''BANKS'')
   \<and> macd_fresh_cross (history falling_hist_bar pullback_and_cross_bar)
   \<and> entry_type_of (check_swing_criteria example_formatter SWING
        (Some (history falling_hist_bar pullback_and_cross_bar)) (sound_fundamentals ''BANKS''))
       = Some ''macd_cross''
   \<and> entry_type_of (au_check_swing_criteria example_formatter AU_SWING
        (Some (history falling_hist_bar pullback_and_cross_bar)) (sound_fundamentals ''BANKS''))
       = Some ''macd_cross''
   \<and> fgt (row_get (history pullback_and_cross_bar pullback_and_cross_bar)
          (prev_bar (history pullback_and_cross_bar pullback_and_cross_bar)) ''MACD_Hist'' (Fin 0)) (Fin 0)
   \<and> entry_type_of (check_swing_criteria example_formatter SWING
        (Some (history pullback_and_cross_bar pullback_and_cross_bar)) (sound_fundamentals ''BANKS''))
       = Some ''pullback''
   \<and> entry_type_of (au_check_swing_criteria example_formatter AU_SWING
        (Some (history pullback_and_cross_bar pullback_and_cross_bar)) (sound_fundamentals ''BANKS''))
       = Some ''trend_follow''
   \<and> rows (history falling_hist_bar pullback_and_cross_bar) \<noteq> []
   \<and> \<not> macd_fresh_cross ((history falling_hist_bar pullback_and_cross_bar)
          \<lparr>rows := rows (history falling_hist_bar pullback_and_cross_bar) @ [pullback_and_cross_bar]\<rparr>)"
  using macd_cross_flagging [of "history falling_hist_bar pullback_and_cross_bar"
      "sound_fundamentals ''BANKS''" example_formatter
      "history pullback_and_cross_bar pullback_and_cross_bar" SWING "sound_fundamentals ''BANKS''"
      AU_SWING "history falling_hist_bar pullback_and_cross_bar" pullback_and_cross_bar]
    outcome_Inr[OF india_no_fresh_cross] outcome_Inr[OF au_no_fresh_cross]
    sound_fundamentals_gates(1,2)[of "''BANKS''"] example_setups(2,3)
  by auto

text \<open>
  C6 as stated fails: a histogram of exactly zero after a negative one satisfies
  "current histogram \<ge> 0 and previous histogram \<le> 0", and the code does not flag it.
\<close>

theorem zero_histogram_not_flagged:
  "fge (row_get (history falling_hist_bar zero_hist_bar)
          (latest_bar (history falling_hist_bar zero_hist_bar)) ''MACD_Hist'' (Fin 0)) (Fin 0)
   \<and> fle (row_get (history falling_hist_bar zero_hist_bar)
          (prev_bar (history falling_hist_bar zero_hist_bar)) ''MACD_Hist'' (Fin 0)) (Fin 0)
   \<and> outcome (check_swing_criteria example_formatter SWING
        (Some (history falling_hist_bar zero_hist_bar)) (sound_fundamentals ''BANKS''))
     = Inr (True, 80, ''trend_follow'')"
  using india_zero_hist example_setups(4,5) by simp

section \<open>Targets and stop-losses\<close>

text \<open>
  C3.  Target and stop-loss in both markets: the price times the multiplier pair of the
  entry type's table entry, each rounded to two decimals, for the five entry types; every
  other entry-type string takes the pair of the final \<open>else\<close> branch, which is the
  \<open>trend_follow\<close> pair, and nothing is raised.
\<close>

theorem targets_follow_table:
  "calculate_targets price etype
     = Inr (scaled price (case map_of target_table etype of Some m \<Rightarrow> m | None \<Rightarrow> (1.12, 0.94)))
   \<and> au_calculate_targets price etype
     = Inr (scaled price (case map_of au_target_table etype of Some m \<Rightarrow> m | None \<Rightarrow> (1.15, 0.94)))"
  by (simp add: calculate_targets_def au_calculate_targets_def target_table_def au_target_table_def scaled_def)

text \<open>
  C3 as stated fails: the entry type \<open>none\<close> has no table entry, and the derivation
  returns the same pair as for \<open>trend_follow\<close> instead of raising.
\<close>

theorem unknown_entry_type_defaults:
  "map_of target_table ''none'' = None
   \<and> calculate_targets (Fin 100) ''none'' = Inr (Fin 112, Fin 94)
   \<and> calculate_targets (Fin 100) ''trend_follow'' = Inr (Fin 112, Fin 94)"
  by (simp add: calculate_targets_def target_table_def round_half_even_def Let_def)

section \<open>The scan loop\<close>

lemma scan_loop_acc: "scan_loop analyze symbols acc = acc @ scan_loop analyze symbols []"
proof (induction symbols arbitrary: acc)
  case Nil
  show ?case by simp
next
  case (Cons s symbols)
  show ?case
    using Cons.IH[of acc] Cons.IH[of "acc @ [c]" for c] Cons.IH[of "[c]" for c]
    by (auto split: sum.splits option.splits)
qed

lemma scan_loop_in_order: "scan_loop analyze symbols [] = candidates_in_order analyze symbols"
proof (induction symbols)
  case Nil
  show ?case by (simp add: candidates_in_order_def)
next
  case (Cons s symbols)
  have "scan_loop analyze (s # symbols) []
        = (case analyze s of Inr (Some c) \<Rightarrow> [c] | _ \<Rightarrow> []) @ scan_loop analyze symbols []"
    using scan_loop_acc[of analyze symbols "[c]" for c]
    by (auto split: sum.splits option.splits)
  thus ?case using Cons.IH by (simp add: candidates_in_order_def)
qed

lemma in_order_append:
  "candidates_in_order analyze (xs @ ys) = candidates_in_order analyze xs @ candidates_in_order analyze ys"
  by (simp add: candidates_in_order_def)

lemma in_order_cong:
  "(\<And>s. s \<in> set symbols \<Longrightarrow> f s = g s) \<Longrightarrow> candidates_in_order f symbols = candidates_in_order g symbols"
  unfolding candidates_in_order_def by (induction symbols) auto

lemma in_order_raises: "analyze s = Inl e \<Longrightarrow> candidates_in_order analyze [s] = []"
  by (simp add: candidates_in_order_def)

lemma in_order_member:
  "c \<in> set (candidates_in_order analyze symbols) \<Longrightarrow> \<exists>s \<in> set symbols. analyze s = Inr (Some c)"
  by (auto simp: candidates_in_order_def split: sum.splits option.splits)

section \<open>Ranking\<close>

lemma slice_prefix: "prefix (py_slice_to xs m) xs"
  by (simp add: py_slice_to_def take_is_prefix)

lemma slice_length: "0 \<le> m \<Longrightarrow> int (length (py_slice_to xs m)) \<le> m"
  by (simp add: py_slice_to_def)

lemma sorted_desc: "sorted_wrt (\<lambda>a b. key b \<le> key a) (sort_key (\<lambda>c. - key c) xs)"
  for key :: "'a \<Rightarrow> 'k::{linordered_idom}"
proof -
  have "sorted (map (\<lambda>c. - key c) (sort_key (\<lambda>c. - key c) xs))" by (rule sorted_sort_key)
  thus ?thesis by (simp add: sorted_map)
qed

lemma sorted_wrt_prefix: "prefix ys xs \<Longrightarrow> sorted_wrt R xs \<Longrightarrow> sorted_wrt R ys"
  by (auto simp: prefix_def sorted_wrt_append)

lemma filter_prefix: "prefix ys xs \<Longrightarrow> prefix (filter P ys) (filter P xs)"
  by (auto simp: prefix_def)

lemma ranked:
  fixes key :: "'a \<Rightarrow> 'k::{linordered_idom}" and cands :: "'a list" and m :: int
  defines "out \<equiv> py_slice_to (sort_key (\<lambda>c. - key c) cands) m"
  shows "sorted_wrt (\<lambda>a b. key b \<le> key a) out"
    and "prefix (filter (\<lambda>c. key c = k) out) (filter (\<lambda>c. key c = k) cands)"
    and "0 \<le> m \<Longrightarrow> int (length out) \<le> m"
    and "set out \<subseteq> set cands"
proof -
  have p: "prefix out (sort_key (\<lambda>c. - key c) cands)" unfolding out_def by (rule slice_prefix)
  show "sorted_wrt (\<lambda>a b. key b \<le> key a) out"
    using p sorted_desc by (rule sorted_wrt_prefix)
  have "filter (\<lambda>c. - key c = - k) (sort_key (\<lambda>c. - key c) cands) = filter (\<lambda>c. - key c = - k) cands"
    by (rule sort_key_stable)
  hence "filter (\<lambda>c. key c = k) (sort_key (\<lambda>c. - key c) cands) = filter (\<lambda>c. key c = k) cands"
    by simp
  with filter_prefix[OF p, of "\<lambda>c. key c = k"]
  show "prefix (filter (\<lambda>c. key c = k) out) (filter (\<lambda>c. key c = k) cands)" by simp
  show "0 \<le> m \<Longrightarrow> int (length out) \<le> m" unfolding out_def by (rule slice_length)
  show "set out \<subseteq> set cands" using set_mono_prefix[OF p] by simp
qed

lemma slice_take: "0 \<le> m \<Longrightarrow> py_slice_to xs m = take (nat m) xs"
  by (simp add: py_slice_to_def)

lemma ranked_all:
  fixes key :: "'a \<Rightarrow> 'k::{linordered_idom}" and cands :: "'a list" and m :: int
  defines "out \<equiv> py_slice_to (sort_key (\<lambda>c. - key c) cands) m"
  shows "sorted_wrt (\<lambda>a b. key b \<le> key a) out
         \<and> prefix out (sort_key (\<lambda>c. - key c) cands)
         \<and> prefix (filter (\<lambda>c. key c = k) out) (filter (\<lambda>c. key c = k) cands)
         \<and> (0 \<le> m \<longrightarrow> out = take (nat m) (sort_key (\<lambda>c. - key c) cands) \<and> int (length out) \<le> m)"
  using ranked(1)[of key cands m] ranked(2)[of key k cands m] ranked(3)[of m key cands]
    slice_prefix[of "sort_key (\<lambda>c. - key c) cands" m]
    slice_take[of m "sort_key (\<lambda>c. - key c) cands"]
  unfolding out_def by simp

lemma scan_for_swing_ranked:
  "scan_for_swing F crit calc fd hdd mr
     = py_slice_to (sort_key (\<lambda>c. - s_score c)
         (candidates_in_order (swing_analyze F crit calc fd hdd) (swing_prefilter crit fd)))
         (result_limit (max_results crit) mr)"
  by (simp add: scan_for_swing_def Let_def scan_loop_in_order result_limit_def candidates_in_order_def
      py_slice_to_def)

lemma au_scan_for_swing_ranked:
  "au_scan_for_swing F crit calc fd hdd mr
     = py_slice_to (sort_key (\<lambda>c. - a_score c)
         (candidates_in_order (au_analyze F crit calc fd hdd) (au_prefilter crit fd)))
         (result_limit (au_max_results crit) mr)"
  by (simp add: au_scan_for_swing_def Let_def scan_loop_in_order result_limit_def candidates_in_order_def
      py_slice_to_def)

lemma scan_for_btst_ranked:
  "scan_for_btst F crit calc cdd hdd fdd mr
     = try_bind (btst_prefilter crit cdd) (\<lambda>symbols.
         Inr (py_slice_to (sort_key (\<lambda>c. - b_score c)
                (candidates_in_order (btst_analyze F crit calc cdd hdd fdd) symbols))
                (result_limit (btst_max_results crit) mr)))"
  by (auto simp add: scan_for_btst_def Let_def scan_loop_in_order result_limit_def candidates_in_order_def
      py_slice_to_def try_bind_def split: sum.splits)

lemma history_reads [simp]:
  "iloc_neg (history p l) (Suc 0) = Inr l" "iloc_neg (history p l) 2 = Inr p"
  "\<not> df_empty (history p l)" "\<not> df_len (history p l) < 50"
  using enough_historyD[OF history_simps(3), of p l] by simp_all

lemma sound_fundamentals_fields [simp]:
  "f_market_cap (sound_fundamentals s) = Some (Fin 60000)"
  "f_debt_to_equity (sound_fundamentals s) = Some (Fin 0.3)"
  "f_roe (sound_fundamentals s) = Some (Fin 20)"
  "f_sector (sound_fundamentals s) = Some s"
  by (simp_all add: sound_fundamentals_def)

lemma config_limits:
  "au_max_results AU_SWING = 15" "max_results SWING = 15" "btst_max_results BTST = 10"
  by (simp_all add: AU_SWING_def SWING_def BTST_def)

section \<open>Scores of candidates\<close>

lemma check_btst_passes: "check_btst_criteria F crit cd hdf fund = Inr (True, s, r) \<Longrightarrow> 60 \<le> s"
  by (auto simp: check_btst_criteria_def Let_def split: sum.splits)

lemma check_swing_passes: "check_swing_criteria F crit hdf fund = Inr (True, s, et, r) \<Longrightarrow> 65 \<le> s"
  by (auto simp: check_swing_criteria_def Let_def split: sum.splits option.splits if_splits)

lemma au_check_swing_passes:
  "au_check_swing_criteria F crit hdf fund = Inr (True, ws, et, r, w)
     \<Longrightarrow> \<exists>n::int. 60 \<le> n \<and> ws = of_int n * w"
  by (auto simp: au_check_swing_criteria_def Let_def split: sum.splits option.splits if_splits)

lemma try_bind_post:
  assumes "try_bind m f = Inr c" and "\<And>x. f x = Inr c \<Longrightarrow> P"
  shows P
  using assms by (cases m) (simp_all add: try_bind_def)

lemma try_bind_InrE:
  assumes "try_bind m f = Inr y"
  obtains x where "m = Inr x" "f x = Inr y"
  using assms by (cases m) (auto simp: try_bind_def)

lemma make_btst_candidate_score:
  "make_btst_candidate cd df fund sc re = Inr c \<Longrightarrow> b_score c = sc"
  unfolding make_btst_candidate_def
  apply (erule try_bind_post)+
  apply (drule sym[of "Inr _"])
  apply (simp only: sum.inject)
  apply (erule ssubst)
  apply (simp only: btst_candidate.select_convs)
  done

lemma make_swing_candidate_score:
  "make_swing_candidate sy df fund sc et re = Inr c \<Longrightarrow> s_score c = sc"
  unfolding make_swing_candidate_def
  apply (erule try_bind_post)+
  apply (simp only: split_beta)
  apply (erule try_bind_post)+
  apply (drule sym[of "Inr _"])
  apply (simp only: sum.inject)
  apply (erule ssubst)
  apply (simp only: swing_candidate.select_convs)
  done

lemma make_au_candidate_score:
  "make_au_candidate sy df fund sc et re w = Inr c \<Longrightarrow> a_score c = sc \<and> a_sector_weight c = w"
  unfolding make_au_candidate_def
  apply (erule try_bind_post)+
  apply (simp only: split_beta)
  apply (erule try_bind_post)+
  apply (drule sym[of "Inr _"])
  apply (simp only: sum.inject)
  apply (erule ssubst)
  apply (simp only: australia_swing_candidate.select_convs)
  done

lemma btst_analyze_score:
  assumes "btst_analyze F crit calc cdd hdd fdd s = Inr (Some c)"
  shows "60 \<le> b_score c"
proof -
  let ?fund = "dict_get (fdd s) \<lparr>f_market_cap = None, f_debt_to_equity = None, f_roe = None,
                    f_sector = Some ''Unknown''\<rparr>"
  from assms obtain cd raw where m: "map_of cdd s = Some cd" "hdd s = Some raw"
    by (auto simp: btst_analyze_def Let_def split: option.splits)
  define df where "df = calc raw"
  from assms obtain res where r: "check_btst_criteria F crit cd (Some df) ?fund = Inr res"
    and k: "(case res of (passes, sc, reason) \<Rightarrow>
               if passes then try_bind (make_btst_candidate cd df ?fund sc reason) (\<lambda>c. Inr (Some c))
               else Inr None) = Inr (Some c)"
    unfolding btst_analyze_def Let_def m option.case df_def by (elim try_bind_InrE)
  obtain p sc re where res: "res = (p, sc, re)" by (cases res)
  from k have p: "p" unfolding res by (simp split: if_splits)
  from k have "make_btst_candidate cd df ?fund sc re = Inr c"
    unfolding res using p by (auto elim: try_bind_InrE)
  hence "b_score c = sc" by (rule make_btst_candidate_score)
  with check_btst_passes[of F crit cd "Some df" ?fund sc re] r res p show ?thesis by simp
qed

lemma swing_analyze_score:
  assumes "swing_analyze F crit calc fd hdd s = Inr (Some c)"
  shows "65 \<le> s_score c"
proof -
  from assms obtain raw fund where m: "hdd s = Some raw" "map_of fd s = Some fund"
    by (auto simp: swing_analyze_def split: option.splits)
  define df where "df = calc raw"
  from assms obtain res where r: "check_swing_criteria F crit (Some df) fund = Inr res"
    and k: "(case res of (passes, sc, etype, reason) \<Rightarrow>
               if passes then try_bind (make_swing_candidate s df fund sc etype reason) (\<lambda>c. Inr (Some c))
               else Inr None) = Inr (Some c)"
    unfolding swing_analyze_def m option.case Let_def df_def by (elim try_bind_InrE)
  obtain p sc et re where res: "res = (p, sc, et, re)" by (cases res)
  from k have p: "p" unfolding res by (simp split: if_splits)
  from k have "make_swing_candidate s df fund sc et re = Inr c"
    unfolding res using p by (auto elim: try_bind_InrE)
  hence "s_score c = sc" by (rule make_swing_candidate_score)
  with check_swing_passes[of F crit "Some df" fund sc et re] r res p show ?thesis by simp
qed

lemma au_analyze_score:
  assumes "au_analyze F crit calc fd hdd s = Inr (Some c)"
  shows "\<exists>n::int. 60 \<le> n \<and> a_score c = of_int n * a_sector_weight c"
proof -
  from assms obtain raw fund where m: "hdd s = Some raw" "map_of fd s = Some fund"
    by (auto simp: au_analyze_def split: option.splits)
  define df where "df = calc raw"
  from assms obtain res where r: "au_check_swing_criteria F crit (Some df) fund = Inr res"
    and k: "(case res of (passes, sc, etype, reason, sector_weight) \<Rightarrow>
               if passes
               then try_bind (make_au_candidate s df fund sc etype reason sector_weight) (\<lambda>c. Inr (Some c))
               else Inr None) = Inr (Some c)"
    unfolding au_analyze_def m option.case Let_def df_def by (elim try_bind_InrE)
  obtain p sc et re w where res: "res = (p, sc, et, re, w)" by (cases res)
  from k have p: "p" unfolding res by (simp split: if_splits)
  from k have "make_au_candidate s df fund sc et re w = Inr c"
    unfolding res using p by (auto elim: try_bind_InrE)
  hence "a_score c = sc \<and> a_sector_weight c = w" by (rule make_au_candidate_score)
  with au_check_swing_passes[of F crit "Some df" fund sc et re w] r res p show ?thesis by simp
qed

lemma btst_scan_members:
  assumes "c \<in> set (returned (scan_for_btst F crit calc cdd hdd fdd mr))"
  shows "\<exists>s. btst_analyze F crit calc cdd hdd fdd s = Inr (Some c)"
proof (cases "btst_prefilter crit cdd")
  case (Inl e)
  with assms show ?thesis by (simp add: scan_for_btst_ranked try_bind_def returned_def)
next
  case (Inr symbols)
  with assms have "c \<in> set (candidates_in_order (btst_analyze F crit calc cdd hdd fdd) symbols)"
    using ranked(4) by (fastforce simp add: scan_for_btst_ranked try_bind_def returned_def)
  thus ?thesis by (blast dest: in_order_member)
qed

lemma swing_scan_members:
  assumes "c \<in> set (scan_for_swing F crit calc fd hdd mr)"
  shows "\<exists>s. swing_analyze F crit calc fd hdd s = Inr (Some c)"
proof -
  from assms have "c \<in> set (candidates_in_order (swing_analyze F crit calc fd hdd) (swing_prefilter crit fd))"
    using ranked(4) by (fastforce simp add: scan_for_swing_ranked)
  thus ?thesis by (blast dest: in_order_member)
qed

lemma au_scan_members:
  assumes "c \<in> set (au_scan_for_swing F crit calc fd hdd mr)"
  shows "\<exists>s. au_analyze F crit calc fd hdd s = Inr (Some c)"
proof -
  from assms have "c \<in> set (candidates_in_order (au_analyze F crit calc fd hdd) (au_prefilter crit fd))"
    using ranked(4) by (fastforce simp add: au_scan_for_swing_ranked)
  thus ?thesis by (blast dest: in_order_member)
qed

section \<open>The example scans\<close>

lemma outcome_InrD:
  "outcome res = Inr (p, s, e) \<Longrightarrow> \<exists>r. res = Inr (p, s, e, r)"
  by (cases res) (auto simp: outcome_def)


lemma try_bind_Inr [simp]: "try_bind (Inr x) f = f x"
  by (simp add: try_bind_def)

lemma make_swing_candidate_example:
  "\<exists>c. make_swing_candidate symb (history p l) (sound_fundamentals sec) sc et re = Inr c
       \<and> s_score c = sc \<and> s_symbol c = str_remove ''.NS'' symb \<and> s_entry_type c = et"
proof -
  obtain t sl where ts: "calculate_targets (l ''Close'') et = Inr (t, sl)"
    by (cases "calculate_targets (l ''Close'') et") (auto simp: calculate_targets_def Let_def split: if_splits)
  have r: "row_at (history p l) l ''Close'' = Inr (l ''Close'')"
    by (simp add: row_at_def)
  show ?thesis
    unfolding make_swing_candidate_def
    apply (simp only: One_nat_def history_reads try_bind_Inr r ts prod.case dict_at_def
        sound_fundamentals_fields option.case)
    apply (rule exI, rule conjI, rule refl)
    apply (simp only: swing_candidate.select_convs simp_thms)
    done
qed

lemma swing_analyze_example:
  assumes "hdd symb = Some (history p l)" "map_of fd symb = Some (sound_fundamentals sec)"
    and "outcome (check_swing_criteria example_formatter SWING (Some (history p l))
           (sound_fundamentals sec)) = Inr (True, sc, et)"
  shows "\<exists>c. swing_analyze example_formatter SWING enriched fd hdd symb = Inr (Some c)
           \<and> s_score c = sc \<and> s_symbol c = str_remove ''.NS'' symb \<and> s_entry_type c = et"
proof -
  from outcome_InrD[OF assms(3)] obtain r where
    c: "check_swing_criteria example_formatter SWING (Some (history p l)) (sound_fundamentals sec)
          = Inr (True, sc, et, r)" ..
  from make_swing_candidate_example[of symb p l sec sc et r] obtain cand where
    m: "make_swing_candidate symb (history p l) (sound_fundamentals sec) sc et r = Inr cand"
       "s_score cand = sc" "s_symbol cand = str_remove ''.NS'' symb" "s_entry_type cand = et" by blast
  have "swing_analyze example_formatter SWING enriched fd hdd symb = Inr (Some cand)"
    unfolding swing_analyze_def
    by (simp only: assms(1,2) option.case enriched_def Let_def try_bind_Inr c prod.case if_True m(1))
  with m show ?thesis by blast
qed


lemma make_au_candidate_example:
  "\<exists>c. make_au_candidate symb (history p l) (sound_fundamentals sec) sc et re w = Inr c
       \<and> a_score c = sc \<and> a_sector_weight c = w \<and> a_symbol c = str_remove ''.AX'' symb"
proof -
  obtain t sl where ts: "au_calculate_targets (l ''Close'') et = Inr (t, sl)"
    by (cases "au_calculate_targets (l ''Close'') et")
       (auto simp: au_calculate_targets_def Let_def split: if_splits)
  have r: "row_at (history p l) l ''Close'' = Inr (l ''Close'')"
    by (simp add: row_at_def)
  show ?thesis
    unfolding make_au_candidate_def
    apply (simp only: One_nat_def history_reads try_bind_Inr r ts prod.case dict_at_def
        sound_fundamentals_fields option.case)
    apply (rule exI, rule conjI, rule refl)
    apply (simp only: australia_swing_candidate.select_convs simp_thms)
    done
qed

lemma au_analyze_example:
  assumes "hdd symb = Some (history p l)" "map_of fd symb = Some (sound_fundamentals sec)"
    and "au_check_swing_criteria example_formatter AU_SWING (Some (history p l))
           (sound_fundamentals sec) = Inr (True, sc, et, r, w)"
  shows "\<exists>c. au_analyze example_formatter AU_SWING enriched fd hdd symb = Inr (Some c)
           \<and> a_score c = sc \<and> a_sector_weight c = w \<and> a_symbol c = str_remove ''.AX'' symb"
proof -
  from make_au_candidate_example[of symb p l sec sc et r w] obtain cand where
    m: "make_au_candidate symb (history p l) (sound_fundamentals sec) sc et r w = Inr cand"
       "a_score cand = sc" "a_sector_weight cand = w" "a_symbol cand = str_remove ''.AX'' symb" by blast
  have "au_analyze example_formatter AU_SWING enriched fd hdd symb = Inr (Some cand)"
    unfolding au_analyze_def
    by (simp only: assms option.case enriched_def Let_def try_bind_Inr prod.case if_True m(1))
  with m show ?thesis by blast
qed

lemma in_order_Cons:
  "candidates_in_order analyze (s # ss)
     = (case analyze s of Inr (Some c) \<Rightarrow> [c] | _ \<Rightarrow> []) @ candidates_in_order analyze ss"
  by (simp add: candidates_in_order_def)

lemma in_order_Nil: "candidates_in_order analyze [] = []"
  by (simp add: candidates_in_order_def)

lemma au_modest:
  "\<exists>r. au_check_swing_criteria example_formatter AU_SWING (Some (history modest_bar modest_bar))
      (sound_fundamentals ''Information Technology'') = Inr (True, 54.4, ''trend_follow'', r, 0.8)"
  unfolding au_check_swing_run[OF history_simps(3) _ sound_fundamentals_gates(4), simplified]
  by (simp add: au_step_defs modest_bar_def)

lemma au_weighted_scan:
  "map (\<lambda>c. (a_score c, a_sector_weight c))
     (au_scan_for_swing example_formatter AU_SWING enriched it_fundamentals it_histories None)
   = [(54.4, 0.8)]"
proof -
  obtain r where c: "au_check_swing_criteria example_formatter AU_SWING (Some (history modest_bar modest_bar))
      (sound_fundamentals ''Information Technology'') = Inr (True, 54.4, ''trend_follow'', r, 0.8)"
    using au_modest by blast
  have p: "au_prefilter AU_SWING it_fundamentals = [''XRO.AX'']"
    by (simp add: au_prefilter_def AU_SWING_def dict_get_def it_fundamentals_def)
  have h: "it_histories ''XRO.AX'' = Some (history modest_bar modest_bar)"
    "map_of it_fundamentals ''XRO.AX'' = Some (sound_fundamentals ''Information Technology'')"
    by (simp_all add: it_histories_def it_fundamentals_def)
  from au_analyze_example[where hdd=it_histories and symb="''XRO.AX''", OF h c]
  obtain cand where a: "au_analyze example_formatter AU_SWING enriched it_fundamentals it_histories ''XRO.AX''
       = Inr (Some cand)" "a_score cand = 54.4" "a_sector_weight cand = 0.8"
    by auto
  show ?thesis
    unfolding au_scan_for_swing_ranked p
    by (simp add: in_order_Cons in_order_Nil result_limit_def py_slice_to_def config_limits a)
qed

lemma three_prefilter: "swing_prefilter SWING three_fundamentals = [''A.NS'', ''B.NS'', ''C.NS'']"
  by (simp add: swing_prefilter_def three_fundamentals_def SWING_def dict_get_def)

lemma three_lookups:
  "three_histories ''A.NS'' = Some (history falling_hist_bar zero_hist_bar)"
  "three_histories ''B.NS'' = Some (history falling_hist_bar pullback_and_cross_bar)"
  "three_histories ''C.NS'' = Some (history falling_hist_bar zero_hist_bar)"
  "map_of three_fundamentals ''A.NS'' = Some (sound_fundamentals ''BANKS'')"
  "map_of three_fundamentals ''B.NS'' = Some (sound_fundamentals ''BANKS'')"
  "map_of three_fundamentals ''C.NS'' = Some (sound_fundamentals ''BANKS'')"
  by (simp_all add: three_histories_def three_fundamentals_def)

lemma str_remove_examples:
  "str_remove ''.NS'' ''A.NS'' = ''A''" "str_remove ''.NS'' ''B.NS'' = ''B''"
  "str_remove ''.NS'' ''C.NS'' = ''C''"
  by simp_all

lemma three_candidates:
  "\<exists>a b c. candidates_in_order (swing_analyze example_formatter SWING enriched three_fundamentals three_histories)
       [''A.NS'', ''B.NS'', ''C.NS''] = [a, b, c]
     \<and> s_score a = 80 \<and> s_score b = 90 \<and> s_score c = 80
     \<and> s_symbol a = ''A'' \<and> s_symbol b = ''B'' \<and> s_symbol c = ''C''"
proof -
  obtain a where a: "swing_analyze example_formatter SWING enriched three_fundamentals three_histories ''A.NS''
      = Inr (Some a)" "s_score a = 80" "s_symbol a = ''A''"
    using swing_analyze_example[where hdd=three_histories and symb="''A.NS''", OF three_lookups(1,4) india_zero_hist] str_remove_examples by auto
  obtain b where b: "swing_analyze example_formatter SWING enriched three_fundamentals three_histories ''B.NS''
      = Inr (Some b)" "s_score b = 90" "s_symbol b = ''B''"
    using swing_analyze_example[where hdd=three_histories and symb="''B.NS''", OF three_lookups(2,5) india_pullback_and_cross] str_remove_examples by auto
  obtain c where c: "swing_analyze example_formatter SWING enriched three_fundamentals three_histories ''C.NS''
      = Inr (Some c)" "s_score c = 80" "s_symbol c = ''C''"
    using swing_analyze_example[where hdd=three_histories and symb="''C.NS''", OF three_lookups(3,6) india_zero_hist] str_remove_examples by auto
  show ?thesis
    by (simp add: in_order_Cons in_order_Nil a b c)
qed

lemma three_ranked:
  "map s_symbol (scan_for_swing example_formatter SWING enriched three_fundamentals three_histories (Some 2))
     = [''B'', ''A'']"
  "map s_symbol (scan_for_swing example_formatter SWING enriched three_fundamentals three_histories None)
     = [''B'', ''A'', ''C'']"
  "map s_symbol (scan_for_swing example_formatter SWING enriched three_fundamentals three_histories (Some (- 1)))
     = [''B'', ''A'']"
  "map s_score (scan_for_swing example_formatter SWING enriched three_fundamentals three_histories (Some 2))
     = [90, 80]"
proof -
  from three_candidates obtain a b c where
    k: "candidates_in_order (swing_analyze example_formatter SWING enriched three_fundamentals three_histories)
       [''A.NS'', ''B.NS'', ''C.NS''] = [a, b, c]"
     "s_score a = 80" "s_score b = 90" "s_score c = 80"
     "s_symbol a = ''A''" "s_symbol b = ''B''" "s_symbol c = ''C''" by blast
  show "map s_symbol (scan_for_swing example_formatter SWING enriched three_fundamentals three_histories (Some 2))
     = [''B'', ''A'']"
    unfolding scan_for_swing_ranked three_prefilter k(1)
    by (simp add: result_limit_def py_slice_to_def k)
  show "map s_symbol (scan_for_swing example_formatter SWING enriched three_fundamentals three_histories None)
     = [''B'', ''A'', ''C'']"
    unfolding scan_for_swing_ranked three_prefilter k(1)
    by (simp add: result_limit_def py_slice_to_def k config_limits)
  show "map s_symbol (scan_for_swing example_formatter SWING enriched three_fundamentals three_histories (Some (- 1)))
     = [''B'', ''A'']"
    unfolding scan_for_swing_ranked three_prefilter k(1)
    by (simp add: result_limit_def py_slice_to_def k)
  show "map s_score (scan_for_swing example_formatter SWING enriched three_fundamentals three_histories (Some 2))
     = [90, 80]"
    unfolding scan_for_swing_ranked three_prefilter k(1)
    by (simp add: result_limit_def py_slice_to_def k)
qed

text \<open>The BTST examples.\<close>

lemma try_bind_Inl [simp]: "try_bind (Inl e) f = Inl e"
  by (simp add: try_bind_def)

lemma two_lookups:
  "map_of two_quotes ''A.NS'' = Some (quote 2.5 95)" "map_of two_quotes ''BAD.NS'' = Some (quote 2.5 95)"
  "two_frames ''A.NS'' = Some strong_frame" "two_frames ''BAD.NS'' = Some closeless_frame"
  by (simp_all add: two_quotes_def two_frames_def)

lemma two_prefilter: "btst_prefilter BTST two_quotes = Inr [''BAD.NS'', ''A.NS'']"
  by (simp add: two_quotes_def quote_def dict_at_def BTST_def)

lemma make_btst_candidate_example:
  "\<exists>c. make_btst_candidate (quote ch pr) strong_frame fund sc re = Inr c \<and> b_score c = sc"
proof -
  have e: "\<not> df_empty strong_frame" "iloc_neg strong_frame (Suc 0) = Inr strong_bar"
    by (simp_all add: df_empty_def strong_frame_def iloc_neg_def)
  have q: "cd_symbol (quote ch pr) = Some ''ABC''" "cd_current_price (quote ch pr) = Some (Fin 100)"
    "cd_day_change_pct (quote ch pr) = Some (Fin ch)" "cd_high_proximity_pct (quote ch pr) = Some (Fin pr)"
    by (simp_all add: quote_def)
  show ?thesis
    unfolding make_btst_candidate_def
    apply (simp only: One_nat_def e q if_True not_False_eq_True try_bind_Inr dict_at_def option.case)
    apply (rule exI, rule conjI, rule refl)
    apply (simp only: btst_candidate.select_convs)
    done
qed

lemma btst_analyze_good:
  "\<exists>c. btst_analyze example_formatter BTST enriched two_quotes two_frames no_fundamentals_dict ''A.NS''
         = Inr (Some c) \<and> b_score c = 100"
proof -
  let ?fund = "\<lparr>f_market_cap = None, f_debt_to_equity = None, f_roe = None, f_sector = Some ''Unknown''\<rparr>"
  have "\<exists>reason. check_btst_criteria example_formatter BTST (quote 2.5 95) (Some strong_frame) ?fund
          = Inr (True, 100, reason)"
    by (rule btst_full_score[where d="Fin 2.5" and h="Fin 95"])
       (simp_all add: quote_def strong_frame_def strong_bar_def dict_get_def BTST_EXCLUDED_SECTORS_def)
  then obtain reason where c: "check_btst_criteria example_formatter BTST (quote 2.5 95) (Some strong_frame) ?fund
          = Inr (True, 100, reason)" ..
  from make_btst_candidate_example[of "2.5" 95 ?fund 100 reason] obtain cand where
    m: "make_btst_candidate (quote 2.5 95) strong_frame ?fund 100 reason = Inr cand" "b_score cand = 100"
    by blast
  have "btst_analyze example_formatter BTST enriched two_quotes two_frames no_fundamentals_dict ''A.NS''
         = Inr (Some cand)"
    unfolding btst_analyze_def no_fundamentals_dict_def dict_get_def Let_def
    by (simp only: two_lookups option.case enriched_def Let_def try_bind_Inr c prod.case if_True m(1))
  with m(2) show ?thesis by blast
qed

lemma btst_analyze_bad:
  "btst_analyze example_formatter BTST enriched two_quotes two_frames no_fundamentals_dict ''BAD.NS''
     = Inl (KeyError ''Close'')"
proof -
  let ?fund = "\<lparr>f_market_cap = None, f_debt_to_equity = None, f_roe = None, f_sector = Some ''Unknown''\<rparr>"
  have c: "check_btst_criteria example_formatter BTST (quote 2.5 95) (Some closeless_frame) ?fund
          = Inl (KeyError ''Close'')"
    by (simp add: check_btst_criteria_def dict_at_def quote_def closeless_frame_def btst_gain_def
        BTST_def btst_volume_def df_empty_def btst_trend_def iloc_neg_def row_at_def strong_bar_def
        btst_high_prox_def)
  show ?thesis
    unfolding btst_analyze_def no_fundamentals_dict_def dict_get_def Let_def
    by (simp only: two_lookups option.case enriched_def Let_def try_bind_Inr c try_bind_Inl)
qed

lemma two_scanned:
  "map b_score (returned (scan_for_btst example_formatter BTST enriched two_quotes two_frames
       no_fundamentals_dict None)) = [100]"
proof -
  from btst_analyze_good obtain c where
    g: "btst_analyze example_formatter BTST enriched two_quotes two_frames no_fundamentals_dict ''A.NS''
         = Inr (Some c)" "b_score c = 100" by blast
  show ?thesis
    unfolding scan_for_btst_ranked two_prefilter
    by (simp add: returned_def in_order_Cons in_order_Nil g btst_analyze_bad result_limit_def
        py_slice_to_def config_limits)
qed

section \<open>What the scans return\<close>

text \<open>
  C2.  The score a ranked candidate carries.  A candidate returned by the BTST scan carries
  a score of at least 60 and one returned by the Indian swing scan a score of at least 65.
  A candidate returned by the Australian swing scan carries the product of its unweighted
  score and its sector weight, where the unweighted score, the one compared with the
  threshold, is at least 60; the carried score itself may lie below 60 when the sector
  weight is below 1.
\<close>

theorem ranked_scores_meet_threshold:
  "(n \<in> set (map b_score (returned (scan_for_btst F bcrit calc cdd hb fdd mb))) \<longrightarrow> 60 \<le> n)
   \<and> (m \<in> set (map s_score (scan_for_swing F scrit calc fs hs ms)) \<longrightarrow> 65 \<le> m)
   \<and> ((ws, w) \<in> set (map (\<lambda>c. (a_score c, a_sector_weight c)) (au_scan_for_swing F acrit calc fa ha ma))
        \<longrightarrow> (\<exists>u::int. 60 \<le> u \<and> ws = of_int u * w))"
proof (intro conjI impI)
  assume "n \<in> set (map b_score (returned (scan_for_btst F bcrit calc cdd hb fdd mb)))"
  then obtain c where "c \<in> set (returned (scan_for_btst F bcrit calc cdd hb fdd mb))" "n = b_score c"
    by auto
  thus "60 \<le> n" using btst_scan_members btst_analyze_score by blast
next
  assume "m \<in> set (map s_score (scan_for_swing F scrit calc fs hs ms))"
  then obtain c where "c \<in> set (scan_for_swing F scrit calc fs hs ms)" "m = s_score c" by auto
  thus "65 \<le> m" using swing_scan_members swing_analyze_score by blast
next
  assume "(ws, w) \<in> set (map (\<lambda>c. (a_score c, a_sector_weight c)) (au_scan_for_swing F acrit calc fa ha ma))"
  then obtain c where c: "c \<in> set (au_scan_for_swing F acrit calc fa ha ma)"
    "ws = a_score c" "w = a_sector_weight c" by auto
  from au_scan_members[OF c(1)] obtain s where "au_analyze F acrit calc fa ha s = Inr (Some c)" ..
  from au_analyze_score[OF this] c(2,3) show "\<exists>u::int. 60 \<le> u \<and> ws = of_int u * w" by simp
qed

theorem ranked_scores_meet_threshold_witness:
  "100 \<in> set (map b_score (returned (scan_for_btst example_formatter BTST enriched two_quotes two_frames
       no_fundamentals_dict None)))
   \<and> (60::int) \<le> 100
   \<and> 90 \<in> set (map s_score (scan_for_swing example_formatter SWING enriched three_fundamentals
       three_histories (Some 2)))
   \<and> (65::int) \<le> 90
   \<and> (54.4, 0.8) \<in> set (map (\<lambda>c. (a_score c, a_sector_weight c))
         (au_scan_for_swing example_formatter AU_SWING enriched it_fundamentals it_histories None))
   \<and> (\<exists>u::int. 60 \<le> u \<and> (54.4::real) = of_int u * 0.8)"
  using ranked_scores_meet_threshold [where n=100 and F=example_formatter and bcrit=BTST and calc=enriched
      and cdd=two_quotes and hb=two_frames and fdd=no_fundamentals_dict and mb=None
      and m=90 and scrit=SWING and fs=three_fundamentals and hs=three_histories and ms="Some 2"
      and ws="54.4" and w="0.8" and acrit=AU_SWING and fa=it_fundamentals and ha=it_histories and ma=None]
  by (simp add: two_scanned three_ranked(4) au_weighted_scan)

text \<open>
  C2 as stated fails: an Information Technology company (sector weight 0.8) with an
  unweighted score of 68 passes the Australian policy and appears in the ranked output
  carrying the score 54.4.
\<close>

theorem weighted_score_below_threshold:
  "map a_score (au_scan_for_swing example_formatter AU_SWING enriched it_fundamentals it_histories None)
     = [54.4]
   \<and> (54.4::real) < 60"
  using arg_cong[OF au_weighted_scan, of "map fst"] by (simp add: comp_def)

lemma returned_btst_scan:
  "returned (scan_for_btst F crit calc cdd hdd fdd mr)
     = py_slice_to (sort_key (\<lambda>c. - b_score c)
         (candidates_in_order (btst_analyze F crit calc cdd hdd fdd) (returned (btst_prefilter crit cdd))))
         (result_limit (btst_max_results crit) mr)"
  by (cases "btst_prefilter crit cdd")
     (simp_all add: scan_for_btst_ranked returned_def in_order_Nil py_slice_to_def)

text \<open>
  C9.  The sequence returned by each of the three scans is sorted non-increasing by score
  and is an initial part of the stable descending sort of all passing candidates taken in
  symbol iteration order, so truncation happens after sorting; for every score, the
  returned candidates with that score are an initial part of the candidates with that
  score in symbol iteration order; and when the result limit is not negative the sequence
  consists of the first limit-many entries of that sort, so its length is at most the
  limit.
\<close>

theorem ranking_sorted_stable_truncated:
  "(sorted_wrt (\<lambda>a b. b_score b \<le> b_score a) (returned (scan_for_btst F bcrit calc cdd hb fdd mb))
    \<and> prefix (returned (scan_for_btst F bcrit calc cdd hb fdd mb))
        (sort_key (\<lambda>c. - b_score c)
           (candidates_in_order (btst_analyze F bcrit calc cdd hb fdd) (returned (btst_prefilter bcrit cdd))))
    \<and> prefix (filter (\<lambda>c. b_score c = k) (returned (scan_for_btst F bcrit calc cdd hb fdd mb)))
        (filter (\<lambda>c. b_score c = k)
           (candidates_in_order (btst_analyze F bcrit calc cdd hb fdd) (returned (btst_prefilter bcrit cdd))))
    \<and> (0 \<le> result_limit (btst_max_results bcrit) mb \<longrightarrow>
         returned (scan_for_btst F bcrit calc cdd hb fdd mb)
           = take (nat (result_limit (btst_max_results bcrit) mb))
               (sort_key (\<lambda>c. - b_score c)
                  (candidates_in_order (btst_analyze F bcrit calc cdd hb fdd)
                     (returned (btst_prefilter bcrit cdd))))
         \<and> int (length (returned (scan_for_btst F bcrit calc cdd hb fdd mb)))
              \<le> result_limit (btst_max_results bcrit) mb))
   \<and> (sorted_wrt (\<lambda>a b. s_score b \<le> s_score a) (scan_for_swing F scrit calc fs hs ms)
    \<and> prefix (scan_for_swing F scrit calc fs hs ms)
        (sort_key (\<lambda>c. - s_score c)
           (candidates_in_order (swing_analyze F scrit calc fs hs) (swing_prefilter scrit fs)))
    \<and> prefix (filter (\<lambda>c. s_score c = k') (scan_for_swing F scrit calc fs hs ms))
        (filter (\<lambda>c. s_score c = k')
           (candidates_in_order (swing_analyze F scrit calc fs hs) (swing_prefilter scrit fs)))
    \<and> (0 \<le> result_limit (max_results scrit) ms \<longrightarrow>
         scan_for_swing F scrit calc fs hs ms
           = take (nat (result_limit (max_results scrit) ms))
               (sort_key (\<lambda>c. - s_score c)
                  (candidates_in_order (swing_analyze F scrit calc fs hs) (swing_prefilter scrit fs)))
         \<and> int (length (scan_for_swing F scrit calc fs hs ms)) \<le> result_limit (max_results scrit) ms))
   \<and> (sorted_wrt (\<lambda>a b. a_score b \<le> a_score a) (au_scan_for_swing F acrit calc fa ha ma)
    \<and> prefix (au_scan_for_swing F acrit calc fa ha ma)
        (sort_key (\<lambda>c. - a_score c)
           (candidates_in_order (au_analyze F acrit calc fa ha) (au_prefilter acrit fa)))
    \<and> prefix (filter (\<lambda>c. a_score c = k'') (au_scan_for_swing F acrit calc fa ha ma))
        (filter (\<lambda>c. a_score c = k'')
           (candidates_in_order (au_analyze F acrit calc fa ha) (au_prefilter acrit fa)))
    \<and> (0 \<le> result_limit (au_max_results acrit) ma \<longrightarrow>
         au_scan_for_swing F acrit calc fa ha ma
           = take (nat (result_limit (au_max_results acrit) ma))
               (sort_key (\<lambda>c. - a_score c)
                  (candidates_in_order (au_analyze F acrit calc fa ha) (au_prefilter acrit fa)))
         \<and> int (length (au_scan_for_swing F acrit calc fa ha ma)) \<le> result_limit (au_max_results acrit) ma))"
  unfolding returned_btst_scan scan_for_swing_ranked au_scan_for_swing_ranked
  by (intro conjI ranked_all)

theorem ranking_sorted_stable_truncated_witness:
  "0 \<le> result_limit (btst_max_results BTST) None
   \<and> int (length (returned (scan_for_btst example_formatter BTST enriched two_quotes two_frames
         no_fundamentals_dict None))) \<le> 10
   \<and> 0 \<le> result_limit (max_results SWING) (Some 2)
   \<and> map s_symbol (scan_for_swing example_formatter SWING enriched three_fundamentals three_histories (Some 2))
       = [''B'', ''A'']
   \<and> scan_for_swing example_formatter SWING enriched three_fundamentals three_histories (Some 2)
       = take 2 (sort_key (\<lambda>c. - s_score c)
           (candidates_in_order (swing_analyze example_formatter SWING enriched three_fundamentals
              three_histories) (swing_prefilter SWING three_fundamentals)))
   \<and> int (length (scan_for_swing example_formatter SWING enriched three_fundamentals three_histories (Some 2)))
       \<le> 2
   \<and> sorted_wrt (\<lambda>a b. s_score b \<le> s_score a)
        (scan_for_swing example_formatter SWING enriched three_fundamentals three_histories (Some 2))
   \<and> 0 \<le> result_limit (au_max_results AU_SWING) None
   \<and> int (length (au_scan_for_swing example_formatter AU_SWING enriched it_fundamentals it_histories None))
       \<le> 15"
  using ranking_sorted_stable_truncated [where F=example_formatter and bcrit=BTST and calc=enriched
      and cdd=two_quotes and hb=two_frames and fdd=no_fundamentals_dict and mb=None
      and scrit=SWING and fs=three_fundamentals and hs=three_histories and ms="Some 2"
      and acrit=AU_SWING and fa=it_fundamentals and ha=it_histories and ma=None
      and k=0 and k'=0 and k''=0]
    three_ranked(1)
  by (simp (no_asm_use) add: result_limit_def config_limits) blast

text \<open>
  C9 as stated fails: with \<open>max_results = -1\<close> the slice \<open>candidates[:-1]\<close> drops only the
  last of three candidates, and two are returned.
\<close>

theorem negative_limit_exceeded:
  "map s_symbol (scan_for_swing example_formatter SWING enriched three_fundamentals three_histories
      (Some (- 1))) = [''B'', ''A'']
   \<and> \<not> int (length (scan_for_swing example_formatter SWING enriched three_fundamentals three_histories
      (Some (- 1)))) \<le> - 1"
  by (simp add: three_ranked(3))

section \<open>The momentum oscillator\<close>

lemma length_series_diff [simp]: "length (series_diff xs) = length xs"
  by (cases xs) simp_all

lemma length_rolling_mean [simp]: "length (rolling_mean w xs) = length xs"
  by (simp add: rolling_mean_def)

lemma length_avg [simp]:
  "length (avg_gain p closes) = length closes" "length (avg_loss p closes) = length closes"
  by (simp_all add: avg_gain_def avg_loss_def series_where_def)

lemma series_diff_values: "d \<in> set (series_diff xs) \<Longrightarrow> d = NaN \<or> (\<exists>x. d = Fin x)"
  by (cases xs) auto

lemma gains_nonneg:
  assumes "v \<in> set (series_where (\<lambda>d. fgt d (Fin 0)) (Fin 0) (series_diff xs))"
  shows "nonneg v"
proof -
  from assms obtain d where d: "d \<in> set (series_diff xs)" "v = (if fgt d (Fin 0) then d else Fin 0)"
    by (auto simp: series_where_def)
  from series_diff_values[OF d(1)] d(2) show ?thesis by (auto simp: nonneg_def)
qed

lemma losses_nonneg:
  assumes "v \<in> set (map fneg (series_where (\<lambda>d. flt d (Fin 0)) (Fin 0) (series_diff xs)))"
  shows "nonneg v"
proof -
  from assms obtain d where d: "d \<in> set (series_diff xs)" "v = fneg (if flt d (Fin 0) then d else Fin 0)"
    by (auto simp: series_where_def)
  from series_diff_values[OF d(1)] d(2) show ?thesis by (auto simp: nonneg_def)
qed

lemma sum_nonneg: "(\<And>v. v \<in> set win \<Longrightarrow> nonneg v) \<Longrightarrow> nonneg (foldr fadd win (Fin 0))"
proof (induction win)
  case Nil
  show ?case by (simp add: nonneg_def)
next
  case (Cons a win)
  from Cons.prems have "nonneg a" by simp
  moreover from Cons have "nonneg (foldr fadd win (Fin 0))" by simp
  ultimately show ?case by (auto simp: nonneg_def)
qed

lemma window_mean_cases:
  assumes "\<And>v. v \<in> set win \<Longrightarrow> nonneg v" "0 < w"
  shows "window_mean w win = NaN \<or> nonneg (window_mean w win)"
proof -
  from sum_nonneg[OF assms(1)] obtain s where "0 \<le> s" "foldr fadd win (Fin 0) = Fin s"
    by (auto simp: nonneg_def)
  thus ?thesis using assms(2) by (auto simp: window_mean_def nonneg_def)
qed

lemma rolling_mean_cases:
  assumes "\<And>v. v \<in> set xs \<Longrightarrow> nonneg v" "0 < w" "i < length xs"
  shows "rolling_mean w xs ! i = NaN \<or> nonneg (rolling_mean w xs ! i)"
proof -
  have "rolling_mean w xs ! i = window_mean w (drop (Suc i - w) (take (Suc i) xs))"
    using assms(3) by (simp add: rolling_mean_def)
  moreover have "nonneg v" if "v \<in> set (drop (Suc i - w) (take (Suc i) xs))" for v
    using that assms(1) by (meson in_set_dropD in_set_takeD)
  ultimately show ?thesis using window_mean_cases[OF _ assms(2)] by metis
qed

lemma avg_cases:
  assumes "0 < p" "i < length closes"
  shows "avg_gain p closes ! i = NaN \<or> nonneg (avg_gain p closes ! i)"
    and "avg_loss p closes ! i = NaN \<or> nonneg (avg_loss p closes ! i)"
proof -
  show "avg_gain p closes ! i = NaN \<or> nonneg (avg_gain p closes ! i)"
    unfolding avg_gain_def
    by (rule rolling_mean_cases[OF gains_nonneg assms(1)]) (simp_all add: series_where_def assms(2))
  show "avg_loss p closes ! i = NaN \<or> nonneg (avg_loss p closes ! i)"
    unfolding avg_loss_def
    by (rule rolling_mean_cases[OF losses_nonneg assms(1)]) (simp_all add: series_where_def assms(2))
qed

lemma rsi_nth:
  assumes "i < length closes"
  shows "rsi_series p closes ! i
           = fsub (Fin 100) (fdiv (Fin 100) (fadd (Fin 1) (fdiv (avg_gain p closes ! i) (avg_loss p closes ! i))))"
  using assms by (simp add: rsi_series_def Let_def)

lemma oscillator_range:
  assumes "g = NaN \<or> nonneg g" "l = NaN \<or> nonneg l"
  shows "fsub (Fin 100) (fdiv (Fin 100) (fadd (Fin 1) (fdiv g l))) = NaN
         \<or> (\<exists>v. fsub (Fin 100) (fdiv (Fin 100) (fadd (Fin 1) (fdiv g l))) = Fin v \<and> 0 \<le> v \<and> v \<le> 100)"
proof -
  consider "g = NaN \<or> l = NaN" | a b where "g = Fin a" "l = Fin b" "0 \<le> a" "0 \<le> b"
    using assms by (auto simp: nonneg_def)
  thus ?thesis
  proof cases
    case 1
    thus ?thesis by (cases g; cases l) (auto simp: fsub_def)
  next
    case 2
    show ?thesis
    proof (cases "b = 0")
      case True
      thus ?thesis using 2 by (auto simp: fsub_def)
    next
      case False
      hence "0 < b" using 2 by simp
      hence "0 \<le> a / b" using 2 by simp
      hence p: "0 < 1 + a / b" by linarith
      have "100 / (1 + a / b) \<le> 100 / 1"
        using \<open>0 \<le> a / b\<close> by (intro divide_left_mono) auto
      moreover have "0 \<le> 100 / (1 + a / b)" using p by simp
      ultimately show ?thesis using 2 False p by (auto simp: fsub_def)
    qed
  qed
qed

lemma avg_nth:
  "i < length closes \<Longrightarrow> avg_gain p closes ! i
     = window_mean p (drop (Suc i - p) (take (Suc i)
         (series_where (\<lambda>d. fgt d (Fin 0)) (Fin 0) (series_diff closes))))"
  "i < length closes \<Longrightarrow> avg_loss p closes ! i
     = window_mean p (drop (Suc i - p) (take (Suc i)
         (map fneg (series_where (\<lambda>d. flt d (Fin 0)) (Fin 0) (series_diff closes)))))"
  by (simp_all add: avg_gain_def avg_loss_def rolling_mean_def series_where_def)

lemma flat_averages:
  "avg_gain 14 flat_closes ! 14 = Fin 0" "avg_loss 14 flat_closes ! 14 = Fin 0"
  by (simp_all add: avg_nth flat_closes_def series_where_def window_mean_def eval_nat_numeral)

lemma zigzag_averages:
  "avg_gain 14 zigzag_closes ! 14 = Fin 0.5" "avg_loss 14 zigzag_closes ! 14 = Fin 0.5"
  by (simp_all add: avg_nth zigzag_closes_def series_where_def window_mean_def)

lemma rising_averages:
  "avg_gain 14 rising_closes ! 14 = Fin 1" "avg_loss 14 rising_closes ! 14 = Fin 0"
  by (simp_all add: avg_nth rising_closes_def series_where_def window_mean_def)

lemma example_lengths [simp]:
  "length zigzag_closes = 15" "length rising_closes = 15" "length flat_closes = 15"
  by (simp_all add: zigzag_closes_def rising_closes_def flat_closes_def)

lemma rsi_examples:
  "rsi_series 14 zigzag_closes ! 14 = Fin 50" "rsi_series 14 rising_closes ! 14 = Fin 100"
  "rsi_series 14 flat_closes ! 14 = NaN"
  by (simp_all add: rsi_nth zigzag_averages rising_averages flat_averages fsub_def)

lemma flat_deltas: "filter (\<lambda>d. flt d (Fin 0)) (series_diff flat_closes) = []"
  by (simp add: flat_closes_def eval_nat_numeral)

text \<open>On finite closing prices the \<open>RSI\<close> column of the frame is the series above.\<close>

lemma column_diff_closes: "column_diff (map Fin closes) = series_diff closes"
proof (cases closes)
  case Nil
  thus ?thesis by simp
next
  case (Cons x xs)
  have "map2 (\<lambda>a b. fsub b a) (map Fin (x # xs)) (map Fin xs) = map (\<lambda>(a, b). Fin (b - a)) (zip (x # xs) xs)"
    by (auto simp add: zip_map_map fsub_def simp del: zip_Cons_Cons list.map)
  thus ?thesis using Cons by simp
qed

lemma prep_values_finite: "PInf \<notin> set xs \<Longrightarrow> NInf \<notin> set xs \<Longrightarrow> prep_values xs = xs"
  unfolding prep_values_def by (induction xs) auto

lemma rsi_column_closes: "rsi_column period (map Fin closes) = rsi_series period closes"
proof -
  have d: "v \<in> set (series_diff closes) \<Longrightarrow> v = NaN \<or> (\<exists>x. v = Fin x)" for v
    by (rule series_diff_values)
  have g: "prep_values (series_where (\<lambda>d. fgt d (Fin 0)) (Fin 0) (series_diff closes))
             = series_where (\<lambda>d. fgt d (Fin 0)) (Fin 0) (series_diff closes)"
    by (rule prep_values_finite) (use d in \<open>auto simp: series_where_def\<close>)
  have n: "fneg (if flt v (Fin 0) then v else Fin 0) \<noteq> PInf \<and> fneg (if flt v (Fin 0) then v else Fin 0) \<noteq> NInf"
    if "v \<in> set (series_diff closes)" for v
    using d[OF that] by auto
  have l: "prep_values (map fneg (series_where (\<lambda>d. flt d (Fin 0)) (Fin 0) (series_diff closes)))
             = map fneg (series_where (\<lambda>d. flt d (Fin 0)) (Fin 0) (series_diff closes))"
    by (rule prep_values_finite) (use n in \<open>fastforce simp: series_where_def\<close>)+
  show ?thesis
    by (simp add: rsi_column_def rsi_series_def avg_gain_def avg_loss_def column_diff_closes g l Let_def)
qed

text \<open>
  C5.  The RSI series as the code computes it.  At every position the value is either
  NaN or a number in [0, 100].  Where the average loss over the window is zero and the
  average gain is positive, the value is exactly 100.  Where both averages are zero
  (the closes did not move over the window), the ratio is 0/0 and the value is NaN.
\<close>

theorem rsi_range_and_saturation:
  "(0 < period \<and> i < length closes \<longrightarrow>
      rsi_series period closes ! i = NaN
      \<or> (\<exists>v. rsi_series period closes ! i = Fin v \<and> 0 \<le> v \<and> v \<le> 100))
   \<and> (j < length closes' \<and> avg_loss period' closes' ! j = Fin 0 \<and> fgt (avg_gain period' closes' ! j) (Fin 0) \<longrightarrow>
      rsi_series period' closes' ! j = Fin 100)
   \<and> (k < length closes'' \<and> avg_loss period'' closes'' ! k = Fin 0 \<and> avg_gain period'' closes'' ! k = Fin 0 \<longrightarrow>
      rsi_series period'' closes'' ! k = NaN)"
proof (intro conjI impI)
  assume "0 < period \<and> i < length closes"
  thus "rsi_series period closes ! i = NaN
      \<or> (\<exists>v. rsi_series period closes ! i = Fin v \<and> 0 \<le> v \<and> v \<le> 100)"
    using oscillator_range[OF avg_cases(1) avg_cases(2), of period i closes period i closes]
    by (simp add: rsi_nth)
next
  assume a: "j < length closes' \<and> avg_loss period' closes' ! j = Fin 0 \<and> fgt (avg_gain period' closes' ! j) (Fin 0)"
  thus "rsi_series period' closes' ! j = Fin 100"
    by (cases "avg_gain period' closes' ! j") (auto simp: rsi_nth fsub_def)
next
  assume "k < length closes'' \<and> avg_loss period'' closes'' ! k = Fin 0 \<and> avg_gain period'' closes'' ! k = Fin 0"
  thus "rsi_series period'' closes'' ! k = NaN"
    by (simp add: rsi_nth fsub_def)
qed


theorem rsi_range_and_saturation_witness:
  "(0::nat) < 14 \<and> 14 < length zigzag_closes
   \<and> rsi_series 14 zigzag_closes ! 14 = Fin 50
   \<and> 14 < length rising_closes \<and> avg_loss 14 rising_closes ! 14 = Fin 0
   \<and> fgt (avg_gain 14 rising_closes ! 14) (Fin 0)
   \<and> rsi_series 14 rising_closes ! 14 = Fin 100
   \<and> 14 < length flat_closes \<and> avg_loss 14 flat_closes ! 14 = Fin 0
   \<and> avg_gain 14 flat_closes ! 14 = Fin 0
   \<and> rsi_series 14 flat_closes ! 14 = NaN"
  using rsi_range_and_saturation [where period=14 and i=14 and closes=zigzag_closes
      and j=14 and closes'=rising_closes and period'=14
      and k=14 and closes''=flat_closes and period''=14]
  by (simp add: rsi_examples rising_averages flat_averages)

text \<open>
  C5 as stated fails: over fifteen equal closes no delta is negative and the average
  loss of the 14-bar window is zero, and the RSI of the last bar is NaN, not 100.
\<close>

theorem flat_series_has_no_rsi:
  "filter (\<lambda>d. flt d (Fin 0)) (series_diff flat_closes) = []
   \<and> avg_loss (rsi_period TECHNICAL) flat_closes ! 14 = Fin 0
   \<and> rsi_series (rsi_period TECHNICAL) flat_closes ! 14 = NaN"
  by (simp add: TECHNICAL_def rsi_examples flat_averages flat_deltas)

section \<open>The indicator computation\<close>

lemma columns_assign [simp]: "set (columns (assign df c v)) = insert c (set (columns df))"
  by (auto simp: assign_def)

lemma length_assign [simp]: "length (rows (assign df c v)) = min (length (rows df)) (length v)"
  by (simp add: assign_def)

lemma length_prep_values [simp]: "length (prep_values xs) = length xs"
  by (simp add: prep_values_def)

lemma length_ewm_loop [simp]: "length (ewm_loop alpha w old_wt xs) = length xs"
  by (induction xs arbitrary: w old_wt) (simp_all add: Let_def)

lemma length_ewm_mean [simp]: "length (ewm_mean sp xs) = length xs"
proof (cases "prep_values xs")
  case Nil
  thus ?thesis using length_prep_values[of xs] by (simp add: ewm_mean_def)
next
  case (Cons y ys)
  thus ?thesis using length_prep_values[of xs] by (simp add: ewm_mean_def)
qed

lemma length_column_diff [simp]: "length (column_diff xs) = length xs"
  by (cases xs) simp_all

lemma length_series_where [simp]: "length (series_where c other xs) = length xs"
  by (simp add: series_where_def)

lemma length_rsi_column [simp]: "length (rsi_column period xs) = length xs"
  by (simp add: rsi_column_def Let_def)

lemma column_length: "column df c = Inr xs \<Longrightarrow> length xs = length (rows df)"
  by (auto simp: column_def split: if_splits)

lemma step_keeps:
  assumes "step \<in> set (indicator_steps tech)" and "step df = Inr df'"
  shows "length (rows df') = length (rows df) \<and> set (columns df) \<subseteq> set (columns df')"
  using assms
  by (auto simp: indicator_steps_def try_bind_def column_def split: sum.splits if_splits)

lemma try_steps_keeps:
  assumes "\<And>step df df'. step \<in> set steps \<Longrightarrow> step df = Inr df' \<Longrightarrow>
             length (rows df') = length (rows df) \<and> set (columns df) \<subseteq> set (columns df')"
  shows "length (rows (fst (try_steps steps df))) = length (rows df)
         \<and> set (columns df) \<subseteq> set (columns (fst (try_steps steps df)))"
  using assms
proof (induction steps arbitrary: df)
  case Nil
  show ?case by simp
next
  case (Cons step steps)
  show ?case
  proof (cases "step df")
    case (Inl e)
    thus ?thesis by simp
  next
    case (Inr df')
    have k: "length (rows df') = length (rows df) \<and> set (columns df) \<subseteq> set (columns df')"
      using Cons.prems[of step df df'] Inr by simp
    have "length (rows (fst (try_steps steps df'))) = length (rows df')
         \<and> set (columns df') \<subseteq> set (columns (fst (try_steps steps df')))"
      by (rule Cons.IH) (use Cons.prems in auto)
    with k Inr show ?thesis by auto
  qed
qed

lemma indicators_keep_frame:
  "length (rows (calculate_technical_indicators tech df)) = length (rows df)
   \<and> set (columns df) \<subseteq> set (columns (calculate_technical_indicators tech df))"
  using try_steps_keeps[of "indicator_steps tech" df] step_keeps[of _ tech]
  by (auto simp: calculate_technical_indicators_def)

lemma no_close_column:
  "''Close'' \<notin> set (columns df) \<Longrightarrow> calculate_technical_indicators tech df = df"
  by (simp add: calculate_technical_indicators_def indicator_steps_def column_def)

lemma no_volume_column:
  assumes "\<not> df_empty df" "''Close'' \<in> set (columns df)" "''Volume'' \<notin> set (columns df)"
  shows "caught_error tech df = Some (KeyError ''Volume'')"
    and "set (columns (calculate_technical_indicators tech df))
           = set (columns df) \<union> {''EMA_20'', ''EMA_50'', ''SMA_200'', ''RSI'', ''MACD'', ''MACD_Signal'',
                                  ''MACD_Hist''}"
  using assms
  by (auto simp: caught_error_def calculate_technical_indicators_def indicator_steps_def column_def)

lemma both_columns:
  assumes "''Close'' \<in> set (columns df)" "''Volume'' \<in> set (columns df)"
  shows "caught_error tech df = None"
  using assms
  by (auto simp: caught_error_def indicator_steps_def column_def)

section \<open>One failing symbol\<close>

lemma map_of_without: "s' \<noteq> s \<Longrightarrow> map_of (pre @ (s, v) # post) s' = map_of (pre @ post) s'"
  by (simp add: map_add_def split: option.splits)

lemma swing_prefilter_append:
  "swing_prefilter crit (xs @ ys) = swing_prefilter crit xs @ swing_prefilter crit ys"
  by (simp add: swing_prefilter_def)

lemma swing_prefilter_keys: "s \<in> set (swing_prefilter crit xs) \<Longrightarrow> s \<in> fst ` set xs"
  by (force simp: swing_prefilter_def split: if_splits)

lemma swing_prefilter_one: "swing_prefilter crit [(s, f)] = [s] \<or> swing_prefilter crit [(s, f)] = []"
  by (simp add: swing_prefilter_def)

lemma swing_analyze_lookup:
  "map_of fd1 s = map_of fd2 s \<Longrightarrow> swing_analyze F crit calc fd1 hdd s = swing_analyze F crit calc fd2 hdd s"
  by (simp add: swing_analyze_def split: option.splits)

lemma swing_scan_without:
  assumes "s \<notin> fst ` set (pre @ post)"
    and "swing_analyze F crit calc (pre @ (s, fund) # post) hdd s = Inl e"
  shows "scan_for_swing F crit calc (pre @ (s, fund) # post) hdd mr
           = scan_for_swing F crit calc (pre @ post) hdd mr"
proof -
  let ?full = "swing_analyze F crit calc (pre @ (s, fund) # post) hdd"
  let ?rest = "swing_analyze F crit calc (pre @ post) hdd"
  have same: "?full s' = ?rest s'" if "s' \<noteq> s" for s'
    using that by (intro swing_analyze_lookup map_of_without)
  have a: "candidates_in_order ?full (swing_prefilter crit pre) = candidates_in_order ?rest (swing_prefilter crit pre)"
    using assms(1) by (intro in_order_cong same) (auto dest: swing_prefilter_keys)
  have b: "candidates_in_order ?full (swing_prefilter crit post) = candidates_in_order ?rest (swing_prefilter crit post)"
    using assms(1) by (intro in_order_cong same) (auto dest: swing_prefilter_keys)
  have c: "candidates_in_order ?full (swing_prefilter crit [(s, fund)]) = []"
    using swing_prefilter_one[of crit s fund] in_order_raises[where analyze="?full" and s=s, OF assms(2)] by (auto simp: in_order_Nil)
  have "swing_prefilter crit (pre @ (s, fund) # post)
          = swing_prefilter crit pre @ swing_prefilter crit [(s, fund)] @ swing_prefilter crit post"
    using swing_prefilter_append[of crit pre "[(s, fund)] @ post"]
      swing_prefilter_append[of crit "[(s, fund)]" post] by simp
  hence "candidates_in_order ?full (swing_prefilter crit (pre @ (s, fund) # post))
           = candidates_in_order ?rest (swing_prefilter crit (pre @ post))"
    by (simp add: in_order_append a b c swing_prefilter_append)
  thus ?thesis by (simp add: scan_for_swing_ranked)
qed

lemma btst_prefilter_append:
  "btst_prefilter crit (xs @ ys)
     = try_bind (btst_prefilter crit xs) (\<lambda>a. try_bind (btst_prefilter crit ys) (\<lambda>b. Inr (a @ b)))"
proof (induction xs)
  case Nil
  show ?case by (cases "btst_prefilter crit ys") simp_all
next
  case (Cons x xs)
  obtain symbol data where x: "x = (symbol, data)" by (cases x)
  show ?case
    unfolding x
    by (cases "dict_at ''day_change_pct'' (cd_day_change_pct data)"; cases "btst_prefilter crit xs";
        cases "btst_prefilter crit ys")
       (simp_all add: Cons.IH)
qed

lemma btst_prefilter_keys: "btst_prefilter crit xs = Inr symbols \<Longrightarrow> set symbols \<subseteq> fst ` set xs"
proof (induction xs arbitrary: symbols)
  case Nil
  thus ?case by simp
next
  case (Cons x xs)
  obtain symbol data where x: "x = (symbol, data)" by (cases x)
  from Cons.prems obtain rest where r: "btst_prefilter crit xs = Inr rest"
    and s: "set symbols \<subseteq> insert symbol (set rest)"
    unfolding x
    by (cases "dict_at ''day_change_pct'' (cd_day_change_pct data)"; cases "btst_prefilter crit xs")
       (auto split: if_splits)
  from Cons.IH[OF r] s show ?case unfolding x by auto
qed

lemma btst_prefilter_one:
  "cd_day_change_pct cd = Some d \<Longrightarrow>
   btst_prefilter crit [(s, cd)] = Inr [s] \<or> btst_prefilter crit [(s, cd)] = Inr []"
  by (simp add: dict_at_def)

lemma btst_analyze_lookup:
  "map_of cdd1 s = map_of cdd2 s \<Longrightarrow>
   btst_analyze F crit calc cdd1 hdd fdd s = btst_analyze F crit calc cdd2 hdd fdd s"
  by (simp add: btst_analyze_def)

lemma btst_scan_without:
  assumes "s \<notin> fst ` set (pre @ post)" and "cd_day_change_pct cd = Some d"
    and "btst_analyze F crit calc (pre @ (s, cd) # post) hdd fdd s = Inl e"
  shows "scan_for_btst F crit calc (pre @ (s, cd) # post) hdd fdd mr
           = scan_for_btst F crit calc (pre @ post) hdd fdd mr"
proof -
  let ?full = "btst_analyze F crit calc (pre @ (s, cd) # post) hdd fdd"
  let ?rest = "btst_analyze F crit calc (pre @ post) hdd fdd"
  obtain M where M: "btst_prefilter crit [(s, cd)] = Inr M" "M = [s] \<or> M = []"
    using btst_prefilter_one[OF assms(2), of crit s] by blast
  have "btst_prefilter crit ((s, cd) # post)
          = try_bind (btst_prefilter crit post) (\<lambda>b. Inr (M @ b))"
    using btst_prefilter_append[of crit "[(s, cd)]" post] by (simp only: M(1) try_bind_Inr append.simps)
  hence full: "btst_prefilter crit (pre @ (s, cd) # post)
      = try_bind (btst_prefilter crit pre) (\<lambda>a.
          try_bind (btst_prefilter crit post) (\<lambda>b. Inr (a @ M @ b)))"
    using btst_prefilter_append[of crit pre "(s, cd) # post"]
    by (cases "btst_prefilter crit pre"; cases "btst_prefilter crit post") simp_all
  note rest = btst_prefilter_append[of crit pre post]
  show ?thesis
  proof (cases "btst_prefilter crit pre")
    case (Inl x)
    thus ?thesis by (simp only: scan_for_btst_ranked full rest try_bind_Inl)
  next
    case A: (Inr A)
    show ?thesis
    proof (cases "btst_prefilter crit post")
      case (Inl x)
      thus ?thesis by (simp only: scan_for_btst_ranked full rest A try_bind_Inl try_bind_Inr)
    next
      case B: (Inr B)
      have same: "?full s' = ?rest s'" if "s' \<noteq> s" for s'
        using that by (intro btst_analyze_lookup map_of_without)
      have a: "candidates_in_order ?full A = candidates_in_order ?rest A"
        using assms(1) btst_prefilter_keys[OF A] by (intro in_order_cong same) auto
      have b: "candidates_in_order ?full B = candidates_in_order ?rest B"
        using assms(1) btst_prefilter_keys[OF B] by (intro in_order_cong same) auto
      have "candidates_in_order ?full [s] = []"
        by (rule in_order_raises[where analyze="?full" and s=s, OF assms(3)])
      hence c: "candidates_in_order ?full M = []"
        using M(2) by (auto simp: in_order_Nil)
      have "candidates_in_order ?full (A @ M @ B) = candidates_in_order ?rest (A @ B)"
        by (simp only: in_order_append a b c append.simps)
      thus ?thesis
        by (simp only: scan_for_btst_ranked full rest A B try_bind_Inr)
    qed
  qed
qed

lemma btst_scan_returns:
  "btst_prefilter crit cdd = Inr symbols \<Longrightarrow> \<exists>out. scan_for_btst F crit calc cdd hdd fdd mr = Inr out"
  by (simp add: scan_for_btst_ranked)

lemma broken_lookups:
  "broken_histories ''A.NS'' = Some (history falling_hist_bar zero_hist_bar)"
  "broken_histories ''B.NS'' = Some closeless_history"
  "broken_histories ''C.NS'' = Some (history falling_hist_bar zero_hist_bar)"
  by (simp_all add: broken_histories_def)

lemma broken_check:
  "check_swing_criteria example_formatter SWING (Some closeless_history) (sound_fundamentals ''BANKS'')
     = Inl (KeyError ''Close'')"
  by (simp add: check_swing_criteria_def closeless_history_def df_empty_def df_len_def iloc_neg_def
      SWING_def dict_get_def row_at_def)

lemma broken_analysis:
  "swing_analyze example_formatter SWING enriched three_fundamentals broken_histories ''B.NS''
     = Inl (KeyError ''Close'')"
  unfolding swing_analyze_def
  by (simp only: broken_lookups three_lookups option.case enriched_def Let_def try_bind_Inr broken_check
      try_bind_Inl)

lemma broken_ranked:
  "map s_symbol (scan_for_swing example_formatter SWING enriched three_fundamentals broken_histories None)
     = [''A'', ''C'']"
proof -
  obtain a where a: "swing_analyze example_formatter SWING enriched three_fundamentals broken_histories ''A.NS''
      = Inr (Some a)" "s_score a = 80" "s_symbol a = ''A''"
    using swing_analyze_example[where hdd=broken_histories and symb="''A.NS''",
        OF broken_lookups(1) three_lookups(4) india_zero_hist] str_remove_examples by auto
  obtain c where c: "swing_analyze example_formatter SWING enriched three_fundamentals broken_histories ''C.NS''
      = Inr (Some c)" "s_score c = 80" "s_symbol c = ''C''"
    using swing_analyze_example[where hdd=broken_histories and symb="''C.NS''",
        OF broken_lookups(3) three_lookups(6) india_zero_hist] str_remove_examples by auto
  show ?thesis
    unfolding scan_for_swing_ranked three_prefilter
    by (simp add: in_order_Cons in_order_Nil a c broken_analysis result_limit_def py_slice_to_def
        config_limits)
qed

lemma au_prefilter_append:
  "au_prefilter crit (xs @ ys) = au_prefilter crit xs @ au_prefilter crit ys"
  by (simp add: au_prefilter_def)

lemma au_prefilter_keys: "s \<in> set (au_prefilter crit xs) \<Longrightarrow> s \<in> fst ` set xs"
  by (force simp: au_prefilter_def split: if_splits)

lemma au_prefilter_one: "au_prefilter crit [(s, f)] = [s] \<or> au_prefilter crit [(s, f)] = []"
  by (simp add: au_prefilter_def)

lemma au_analyze_lookup:
  "map_of fd1 s = map_of fd2 s \<Longrightarrow> au_analyze F crit calc fd1 hdd s = au_analyze F crit calc fd2 hdd s"
  by (simp add: au_analyze_def split: option.splits)

lemma au_scan_without:
  assumes "s \<notin> fst ` set (pre @ post)"
    and "au_analyze F crit calc (pre @ (s, fund) # post) hdd s = Inl e"
  shows "au_scan_for_swing F crit calc (pre @ (s, fund) # post) hdd mr
           = au_scan_for_swing F crit calc (pre @ post) hdd mr"
proof -
  let ?full = "au_analyze F crit calc (pre @ (s, fund) # post) hdd"
  let ?rest = "au_analyze F crit calc (pre @ post) hdd"
  have same: "?full s' = ?rest s'" if "s' \<noteq> s" for s'
    using that by (intro au_analyze_lookup map_of_without)
  have a: "candidates_in_order ?full (au_prefilter crit pre) = candidates_in_order ?rest (au_prefilter crit pre)"
    using assms(1) by (intro in_order_cong same) (auto dest: au_prefilter_keys)
  have b: "candidates_in_order ?full (au_prefilter crit post) = candidates_in_order ?rest (au_prefilter crit post)"
    using assms(1) by (intro in_order_cong same) (auto dest: au_prefilter_keys)
  have c: "candidates_in_order ?full (au_prefilter crit [(s, fund)]) = []"
    using au_prefilter_one[of crit s fund] in_order_raises[where analyze="?full" and s=s, OF assms(2)]
    by (auto simp: in_order_Nil)
  have "au_prefilter crit (pre @ (s, fund) # post)
          = au_prefilter crit pre @ au_prefilter crit [(s, fund)] @ au_prefilter crit post"
    using au_prefilter_append[of crit pre "[(s, fund)] @ post"]
      au_prefilter_append[of crit "[(s, fund)]" post] by simp
  hence "candidates_in_order ?full (au_prefilter crit (pre @ (s, fund) # post))
           = candidates_in_order ?rest (au_prefilter crit (pre @ post))"
    by (simp add: in_order_append a b c au_prefilter_append)
  thus ?thesis by (simp add: au_scan_for_swing_ranked)
qed

lemma in_order_has:
  "s \<in> set symbols \<Longrightarrow> analyze s = Inr (Some c) \<Longrightarrow> c \<in> set (candidates_in_order analyze symbols)"
  by (force simp: candidates_in_order_def)

lemma length_in_order: "length (candidates_in_order analyze symbols) \<le> length symbols"
proof (induction symbols)
  case Nil
  show ?case by (simp add: in_order_Nil)
next
  case (Cons s symbols)
  thus ?case by (simp add: in_order_Cons split: sum.splits option.splits)
qed

lemma slice_all: "int (length xs) \<le> m \<Longrightarrow> py_slice_to xs m = xs"
  by (simp add: py_slice_to_def)

lemma ranked_keeps:
  fixes key :: "'a \<Rightarrow> 'k::{linordered_idom}"
  assumes "s \<in> set symbols" "analyze s = Inr (Some c)" "int (length symbols) \<le> m"
  shows "c \<in> set (py_slice_to (sort_key (\<lambda>c. - key c) (candidates_in_order analyze symbols)) m)"
proof -
  have "int (length (sort_key (\<lambda>c. - key c) (candidates_in_order analyze symbols))) \<le> m"
    using length_in_order[of analyze symbols] assms(3) by simp
  hence "py_slice_to (sort_key (\<lambda>c. - key c) (candidates_in_order analyze symbols)) m
           = sort_key (\<lambda>c. - key c) (candidates_in_order analyze symbols)"
    by (rule slice_all)
  thus ?thesis using in_order_has[where analyze=analyze and s=s, OF assms(1,2)] by simp
qed

lemma swing_scan_keeps:
  assumes "s \<in> set (swing_prefilter crit fd)" "swing_analyze F crit calc fd hdd s = Inr (Some c)"
    and "int (length (swing_prefilter crit fd)) \<le> result_limit (max_results crit) mr"
  shows "c \<in> set (scan_for_swing F crit calc fd hdd mr)"
  unfolding scan_for_swing_ranked using assms by (rule ranked_keeps)

lemma au_scan_keeps:
  assumes "s \<in> set (au_prefilter crit fd)" "au_analyze F crit calc fd hdd s = Inr (Some c)"
    and "int (length (au_prefilter crit fd)) \<le> result_limit (au_max_results crit) mr"
  shows "c \<in> set (au_scan_for_swing F crit calc fd hdd mr)"
  unfolding au_scan_for_swing_ranked using assms by (rule ranked_keeps)

lemma btst_scan_keeps:
  assumes "btst_prefilter crit cdd = Inr symbols" "s \<in> set symbols"
    and "btst_analyze F crit calc cdd hdd fdd s = Inr (Some c)"
    and "int (length symbols) \<le> result_limit (btst_max_results crit) mr"
  shows "c \<in> set (returned (scan_for_btst F crit calc cdd hdd fdd mr))"
proof -
  have "c \<in> set (py_slice_to (sort_key (\<lambda>c. - b_score c)
          (candidates_in_order (btst_analyze F crit calc cdd hdd fdd) symbols))
          (result_limit (btst_max_results crit) mr))"
    using assms(2-4) by (rule ranked_keeps)
  moreover have "returned (btst_prefilter crit cdd) = symbols"
    by (simp add: assms(1) returned_def)
  ultimately show ?thesis unfolding returned_btst_scan by simp
qed

lemma asx_broken_analysis:
  "au_analyze example_formatter AU_SWING enriched asx_fundamentals asx_broken_histories ''B.AX''
     = Inl (KeyError ''Close'')"
  by code_simp

lemma asx_ranked:
  "map a_symbol (au_scan_for_swing example_formatter AU_SWING enriched asx_fundamentals asx_broken_histories None)
     = [''A'']"
  by code_simp

lemma kept_candidates:
  "swing_analyze example_formatter SWING enriched three_fundamentals broken_histories ''C.NS''
     = Inr (Some (last (scan_for_swing example_formatter SWING enriched three_fundamentals
                          broken_histories None)))"
  "au_analyze example_formatter AU_SWING enriched asx_fundamentals asx_broken_histories ''A.AX''
     = Inr (Some (hd (au_scan_for_swing example_formatter AU_SWING enriched asx_fundamentals
                        asx_broken_histories None)))"
  "btst_analyze example_formatter BTST enriched two_quotes two_frames no_fundamentals_dict ''A.NS''
     = Inr (Some (hd (returned (scan_for_btst example_formatter BTST enriched two_quotes two_frames
                                  no_fundamentals_dict None))))"
  "''C.NS'' \<in> set (swing_prefilter SWING three_fundamentals)"
  "int (length (swing_prefilter SWING three_fundamentals)) \<le> result_limit (max_results SWING) None"
  "''A.AX'' \<in> set (au_prefilter AU_SWING asx_fundamentals)"
  "int (length (au_prefilter AU_SWING asx_fundamentals)) \<le> result_limit (au_max_results AU_SWING) None"
  "int (length [''BAD.NS'', ''A.NS'']) \<le> result_limit (btst_max_results BTST) None"
  by code_simp+

lemma volumeless_shape:
  "\<not> df_empty volumeless_history" "''Close'' \<in> set (columns volumeless_history)"
  "''Volume'' \<notin> set (columns volumeless_history)" "length (rows volumeless_history) = 50"
  by (simp_all add: volumeless_history_def closes_only_def df_empty_def)

text \<open>
  C4.  Per-symbol failure isolation in the three scans.  When the analysis of one symbol
  of the batch raises (in the criteria evaluation or while the candidate is built), the
  scan returns exactly what it returns for the same batch without that symbol: the
  symbol is excluded and every other symbol is evaluated, scored and ranked as usual.
  A symbol that passed the pre-filter and whose analysis ends with a candidate has that
  candidate in the output whenever the result limit is not smaller than the number of
  pre-filtered symbols, whatever happens to the other symbols.  The BTST scan returns a
  list whenever its pre-filter, which runs outside the \<open>try\<close> block, has returned.  An exception inside the indicator computation does not reach the
  scan: the computation catches it and hands back a frame with every bar and every
  column of the frame it received, and the symbol is evaluated on that frame.  For a
  frame with a \<open>Close\<close> column and no \<open>Volume\<close> column the exception is KeyError
  \<open>Volume\<close>, and the frame handed back has gained the seven price indicators and no
  volume column.
\<close>

theorem failing_symbol_is_isolated:
  "(s \<notin> fst ` set (pre @ post) \<and> swing_analyze F scrit calc (pre @ (s, fund) # post) hs s = Inl e \<longrightarrow>
      scan_for_swing F scrit calc (pre @ (s, fund) # post) hs ms
        = scan_for_swing F scrit calc (pre @ post) hs ms)
   \<and> (a \<notin> fst ` set (apre @ apost) \<and> au_analyze F acrit calc (apre @ (a, afund) # apost) ha a = Inl e'' \<longrightarrow>
      au_scan_for_swing F acrit calc (apre @ (a, afund) # apost) ha ma
        = au_scan_for_swing F acrit calc (apre @ apost) ha ma)
   \<and> (b \<notin> fst ` set (bpre @ bpost) \<and> cd_day_change_pct cd = Some d
       \<and> btst_analyze F bcrit calc (bpre @ (b, cd) # bpost) hb fdd b = Inl e' \<longrightarrow>
      scan_for_btst F bcrit calc (bpre @ (b, cd) # bpost) hb fdd mb
        = scan_for_btst F bcrit calc (bpre @ bpost) hb fdd mb)
   \<and> (t \<in> set (swing_prefilter scrit fs) \<and> swing_analyze F scrit calc fs hs' t = Inr (Some c)
       \<and> int (length (swing_prefilter scrit fs)) \<le> result_limit (max_results scrit) ms' \<longrightarrow>
      c \<in> set (scan_for_swing F scrit calc fs hs' ms'))
   \<and> (ta \<in> set (au_prefilter acrit fa) \<and> au_analyze F acrit calc fa ha' ta = Inr (Some ca)
       \<and> int (length (au_prefilter acrit fa)) \<le> result_limit (au_max_results acrit) ma' \<longrightarrow>
      ca \<in> set (au_scan_for_swing F acrit calc fa ha' ma'))
   \<and> (btst_prefilter bcrit cdd' = Inr symbols' \<and> tb \<in> set symbols'
       \<and> btst_analyze F bcrit calc cdd' hb' fdd' tb = Inr (Some cb)
       \<and> int (length symbols') \<le> result_limit (btst_max_results bcrit) mb' \<longrightarrow>
      cb \<in> set (returned (scan_for_btst F bcrit calc cdd' hb' fdd' mb')))
   \<and> (btst_prefilter bcrit cdd = Inr symbols \<longrightarrow>
      (\<exists>out. scan_for_btst F bcrit calc cdd hb fdd mb = Inr out))
   \<and> length (rows (calculate_technical_indicators tech df)) = length (rows df)
   \<and> set (columns df) \<subseteq> set (columns (calculate_technical_indicators tech df))
   \<and> (\<not> df_empty raw \<and> ''Close'' \<in> set (columns raw) \<and> ''Volume'' \<notin> set (columns raw) \<longrightarrow>
      caught_error tech raw = Some (KeyError ''Volume'')
      \<and> set (columns (calculate_technical_indicators tech raw))
          = set (columns raw) \<union> {''EMA_20'', ''EMA_50'', ''SMA_200'', ''RSI'', ''MACD'', ''MACD_Signal'',
                                  ''MACD_Hist''})"
proof (intro conjI impI)
  assume "s \<notin> fst ` set (pre @ post) \<and> swing_analyze F scrit calc (pre @ (s, fund) # post) hs s = Inl e"
  thus "scan_for_swing F scrit calc (pre @ (s, fund) # post) hs ms
        = scan_for_swing F scrit calc (pre @ post) hs ms"
    using swing_scan_without[of s pre post F scrit calc fund hs e ms] by blast
next
  assume "a \<notin> fst ` set (apre @ apost) \<and> au_analyze F acrit calc (apre @ (a, afund) # apost) ha a = Inl e''"
  thus "au_scan_for_swing F acrit calc (apre @ (a, afund) # apost) ha ma
        = au_scan_for_swing F acrit calc (apre @ apost) ha ma"
    using au_scan_without[of a apre apost F acrit calc afund ha e'' ma] by blast
next
  assume "b \<notin> fst ` set (bpre @ bpost) \<and> cd_day_change_pct cd = Some d
       \<and> btst_analyze F bcrit calc (bpre @ (b, cd) # bpost) hb fdd b = Inl e'"
  thus "scan_for_btst F bcrit calc (bpre @ (b, cd) # bpost) hb fdd mb
        = scan_for_btst F bcrit calc (bpre @ bpost) hb fdd mb"
    using btst_scan_without[of b bpre bpost cd d F bcrit calc hb fdd e' mb] by blast
next
  assume "t \<in> set (swing_prefilter scrit fs) \<and> swing_analyze F scrit calc fs hs' t = Inr (Some c)
       \<and> int (length (swing_prefilter scrit fs)) \<le> result_limit (max_results scrit) ms'"
  thus "c \<in> set (scan_for_swing F scrit calc fs hs' ms')"
    using swing_scan_keeps[of t scrit fs F calc hs' c ms'] by blast
next
  assume "ta \<in> set (au_prefilter acrit fa) \<and> au_analyze F acrit calc fa ha' ta = Inr (Some ca)
       \<and> int (length (au_prefilter acrit fa)) \<le> result_limit (au_max_results acrit) ma'"
  thus "ca \<in> set (au_scan_for_swing F acrit calc fa ha' ma')"
    using au_scan_keeps[of ta acrit fa F calc ha' ca ma'] by blast
next
  assume "btst_prefilter bcrit cdd' = Inr symbols' \<and> tb \<in> set symbols'
       \<and> btst_analyze F bcrit calc cdd' hb' fdd' tb = Inr (Some cb)
       \<and> int (length symbols') \<le> result_limit (btst_max_results bcrit) mb'"
  thus "cb \<in> set (returned (scan_for_btst F bcrit calc cdd' hb' fdd' mb'))"
    using btst_scan_keeps[of bcrit cdd' symbols' tb F calc hb' fdd' cb mb'] by blast
next
  assume "btst_prefilter bcrit cdd = Inr symbols"
  thus "\<exists>out. scan_for_btst F bcrit calc cdd hb fdd mb = Inr out"
    by (rule btst_scan_returns)
next
  assume r: "\<not> df_empty raw \<and> ''Close'' \<in> set (columns raw) \<and> ''Volume'' \<notin> set (columns raw)"
  show "caught_error tech raw = Some (KeyError ''Volume'')"
    using r by (intro no_volume_column(1)) blast+
  show "set (columns (calculate_technical_indicators tech raw))
          = set (columns raw) \<union> {''EMA_20'', ''EMA_50'', ''SMA_200'', ''RSI'', ''MACD'', ''MACD_Signal'',
                                  ''MACD_Hist''}"
    using r by (intro no_volume_column(2)) blast+
next
  show "length (rows (calculate_technical_indicators tech df)) = length (rows df)"
    using indicators_keep_frame[of tech df] by blast
next
  show "set (columns df) \<subseteq> set (columns (calculate_technical_indicators tech df))"
    using indicators_keep_frame[of tech df] by blast
qed

theorem failing_symbol_is_isolated_witness:
  "''B.NS'' \<notin> fst ` set ([(''A.NS'', sound_fundamentals ''BANKS'')] @ [(''C.NS'', sound_fundamentals ''BANKS'')])
   \<and> swing_analyze example_formatter SWING enriched three_fundamentals broken_histories ''B.NS''
       = Inl (KeyError ''Close'')
   \<and> scan_for_swing example_formatter SWING enriched three_fundamentals broken_histories None
       = scan_for_swing example_formatter SWING enriched
           [(''A.NS'', sound_fundamentals ''BANKS''), (''C.NS'', sound_fundamentals ''BANKS'')]
           broken_histories None
   \<and> map s_symbol (scan_for_swing example_formatter SWING enriched three_fundamentals broken_histories None)
       = [''A'', ''C'']
   \<and> ''B.AX'' \<notin> fst ` set ([(''A.AX'', sound_fundamentals ''Financials'')] @ [])
   \<and> au_analyze example_formatter AU_SWING enriched asx_fundamentals asx_broken_histories ''B.AX''
       = Inl (KeyError ''Close'')
   \<and> au_scan_for_swing example_formatter AU_SWING enriched asx_fundamentals asx_broken_histories None
       = au_scan_for_swing example_formatter AU_SWING enriched
           [(''A.AX'', sound_fundamentals ''Financials'')] asx_broken_histories None
   \<and> map a_symbol (au_scan_for_swing example_formatter AU_SWING enriched asx_fundamentals
         asx_broken_histories None) = [''A'']
   \<and> ''BAD.NS'' \<notin> fst ` set ([] @ [(''A.NS'', quote 2.5 95)])
   \<and> cd_day_change_pct (quote 2.5 95) = Some (Fin 2.5)
   \<and> btst_analyze example_formatter BTST enriched two_quotes two_frames no_fundamentals_dict ''BAD.NS''
       = Inl (KeyError ''Close'')
   \<and> scan_for_btst example_formatter BTST enriched two_quotes two_frames no_fundamentals_dict None
       = scan_for_btst example_formatter BTST enriched [(''A.NS'', quote 2.5 95)] two_frames
           no_fundamentals_dict None
   \<and> btst_prefilter BTST two_quotes = Inr [''BAD.NS'', ''A.NS'']
   \<and> map b_score (returned (scan_for_btst example_formatter BTST enriched two_quotes two_frames
         no_fundamentals_dict None)) = [100]
   \<and> ''C.NS'' \<in> set (swing_prefilter SWING three_fundamentals)
   \<and> swing_analyze example_formatter SWING enriched three_fundamentals broken_histories ''C.NS''
       = Inr (Some (last (scan_for_swing example_formatter SWING enriched three_fundamentals
                            broken_histories None)))
   \<and> int (length (swing_prefilter SWING three_fundamentals)) \<le> result_limit (max_results SWING) None
   \<and> ''A.AX'' \<in> set (au_prefilter AU_SWING asx_fundamentals)
   \<and> au_analyze example_formatter AU_SWING enriched asx_fundamentals asx_broken_histories ''A.AX''
       = Inr (Some (hd (au_scan_for_swing example_formatter AU_SWING enriched asx_fundamentals
                          asx_broken_histories None)))
   \<and> int (length (au_prefilter AU_SWING asx_fundamentals)) \<le> result_limit (au_max_results AU_SWING) None
   \<and> ''A.NS'' \<in> set [''BAD.NS'', ''A.NS'']
   \<and> btst_analyze example_formatter BTST enriched two_quotes two_frames no_fundamentals_dict ''A.NS''
       = Inr (Some (hd (returned (scan_for_btst example_formatter BTST enriched two_quotes two_frames
                                    no_fundamentals_dict None))))
   \<and> int (length [''BAD.NS'', ''A.NS'']) \<le> result_limit (btst_max_results BTST) None
   \<and> \<not> df_empty volumeless_history \<and> ''Close'' \<in> set (columns volumeless_history)
   \<and> ''Volume'' \<notin> set (columns volumeless_history)
   \<and> caught_error TECHNICAL volumeless_history = Some (KeyError ''Volume'')
   \<and> length (rows (calculate_technical_indicators TECHNICAL volumeless_history)) = 50"
  using failing_symbol_is_isolated [where s="''B.NS''" and pre="[(''A.NS'', sound_fundamentals ''BANKS'')]"
      and post="[(''C.NS'', sound_fundamentals ''BANKS'')]" and fund="sound_fundamentals ''BANKS''"
      and F=example_formatter and scrit=SWING and calc=enriched and hs=broken_histories
      and e="KeyError ''Close''" and ms=None
      and a="''B.AX''" and apre="[(''A.AX'', sound_fundamentals ''Financials'')]" and apost="[]"
      and afund="sound_fundamentals ''Financials''" and acrit=AU_SWING and ha=asx_broken_histories
      and e''="KeyError ''Close''" and ma=None
      and b="''BAD.NS''" and bpre="[]" and bpost="[(''A.NS'', quote 2.5 95)]" and cd="quote 2.5 95"
      and d="Fin 2.5" and bcrit=BTST and hb=two_frames and fdd=no_fundamentals_dict
      and e'="KeyError ''Close''" and mb=None and cdd=two_quotes and symbols="[''BAD.NS'', ''A.NS'']"
      and t="''C.NS''" and fs=three_fundamentals and hs'=broken_histories and ms'=None
      and c="last (scan_for_swing example_formatter SWING enriched three_fundamentals
                     broken_histories None)"
      and ta="''A.AX''" and fa=asx_fundamentals and ha'=asx_broken_histories and ma'=None
      and ca="hd (au_scan_for_swing example_formatter AU_SWING enriched asx_fundamentals
                    asx_broken_histories None)"
      and cdd'=two_quotes and symbols'="[''BAD.NS'', ''A.NS'']" and tb="''A.NS''" and hb'=two_frames
      and fdd'=no_fundamentals_dict and mb'=None
      and cb="hd (returned (scan_for_btst example_formatter BTST enriched two_quotes two_frames
                              no_fundamentals_dict None))"
      and raw=volumeless_history and tech=TECHNICAL and df=volumeless_history]
    broken_analysis btst_analyze_bad two_prefilter two_scanned broken_ranked asx_broken_analysis asx_ranked
    volumeless_shape kept_candidates
  unfolding three_fundamentals_def two_quotes_def asx_fundamentals_def
  by (simp add: quote_def)

text \<open>
  C4 as stated fails: the indicator computation of a symbol whose history has no
  \<open>Volume\<close> column raises KeyError inside \<open>calculate_technical_indicators\<close>, which catches
  it; the symbol is scored on the price indicators with the default volume ratio, reaches
  70 points and is returned by the scan.
\<close>

theorem indicator_failure_not_excluded:
  "caught_error TECHNICAL volumeless_history = Some (KeyError ''Volume'')
   \<and> map (\<lambda>c. (s_symbol c, s_score c))
        (scan_for_swing example_formatter SWING (calculate_technical_indicators TECHNICAL)
           volumeless_fundamentals volumeless_histories None) = [(''X'', 70)]"
  by code_simp

end
